theory Spec2Isabelle
  imports Main "HOL-Library.Word"
begin

section \<open>The DWARF block input format: data model\<close>

text \<open>
  A shallow embedding of \<^verbatim>\<open>src/Processors/Formats/Impl/DWARFBlockInputFormat.cpp\<close>.
  Offsets and raw attribute values are 64-bit words, the size and decl_line columns are
  32-bit words, tags, attribute names and forms are 16-bit words, as in the C++.
  Sizes of in-memory vectors (array offsets, row counts) are natural numbers.
  Strings (and the bytes of a block) are \<open>string\<close>, a list of 8-bit characters.
\<close>

type_synonym u8 = "8 word"
type_synonym u16 = "16 word"
type_synonym u32 = "32 word"
type_synonym u64 = "64 word"

text \<open>The enum \<open>DwarfColumn\<close> (without its end marker \<open>COL_COUNT\<close>).\<close>

datatype DwarfColumn =
    COL_OFFSET | COL_SIZE | COL_TAG | COL_UNIT_NAME | COL_UNIT_OFFSET
  | COL_ANCESTOR_TAGS | COL_ANCESTOR_OFFSETS
  | COL_NAME | COL_LINKAGE_NAME | COL_DECL_FILE | COL_DECL_LINE
  | COL_ATTR_NAME | COL_ATTR_FORM | COL_ATTR_INT | COL_ATTR_STR

text \<open>
  Exceptions are values. The message of a \<open>CANNOT_PARSE_DWARF\<close> is the format string of
  the throw statement, without its formatted arguments. \<open>NULL_DEREFERENCE\<close> stands for
  undefined behaviour: a read through a null or out-of-range column pointer.
\<close>

datatype error =
    CANNOT_PARSE_ELF string
  | CANNOT_PARSE_DWARF string
  | LOGICAL_ERROR string
  | NULL_DEREFERENCE

subsection \<open>Constants of llvm/BinaryFormat/Dwarf.h used by the decoder\<close>

definition DW_TAG_compile_unit :: u16 where "DW_TAG_compile_unit = 0x11"

definition DW_AT_name :: u16 where "DW_AT_name = 0x03"
definition DW_AT_stmt_list :: u16 where "DW_AT_stmt_list = 0x10"
definition DW_AT_language :: u16 where "DW_AT_language = 0x13"
definition DW_AT_decl_file :: u16 where "DW_AT_decl_file = 0x3a"
definition DW_AT_decl_line :: u16 where "DW_AT_decl_line = 0x3b"
definition DW_AT_encoding :: u16 where "DW_AT_encoding = 0x3e"
definition DW_AT_call_file :: u16 where "DW_AT_call_file = 0x58"
definition DW_AT_linkage_name :: u16 where "DW_AT_linkage_name = 0x6e"

definition DW_FORM_addr :: u16 where "DW_FORM_addr = 0x01"
definition DW_FORM_block2 :: u16 where "DW_FORM_block2 = 0x03"
definition DW_FORM_block4 :: u16 where "DW_FORM_block4 = 0x04"
definition DW_FORM_data2 :: u16 where "DW_FORM_data2 = 0x05"
definition DW_FORM_data4 :: u16 where "DW_FORM_data4 = 0x06"
definition DW_FORM_data8 :: u16 where "DW_FORM_data8 = 0x07"
definition DW_FORM_string :: u16 where "DW_FORM_string = 0x08"
definition DW_FORM_block :: u16 where "DW_FORM_block = 0x09"
definition DW_FORM_block1 :: u16 where "DW_FORM_block1 = 0x0a"
definition DW_FORM_data1 :: u16 where "DW_FORM_data1 = 0x0b"
definition DW_FORM_flag :: u16 where "DW_FORM_flag = 0x0c"
definition DW_FORM_sdata :: u16 where "DW_FORM_sdata = 0x0d"
definition DW_FORM_strp :: u16 where "DW_FORM_strp = 0x0e"
definition DW_FORM_udata :: u16 where "DW_FORM_udata = 0x0f"
definition DW_FORM_ref_addr :: u16 where "DW_FORM_ref_addr = 0x10"
definition DW_FORM_ref1 :: u16 where "DW_FORM_ref1 = 0x11"
definition DW_FORM_ref2 :: u16 where "DW_FORM_ref2 = 0x12"
definition DW_FORM_ref4 :: u16 where "DW_FORM_ref4 = 0x13"
definition DW_FORM_ref8 :: u16 where "DW_FORM_ref8 = 0x14"
definition DW_FORM_ref_udata :: u16 where "DW_FORM_ref_udata = 0x15"
definition DW_FORM_indirect :: u16 where "DW_FORM_indirect = 0x16"
definition DW_FORM_sec_offset :: u16 where "DW_FORM_sec_offset = 0x17"
definition DW_FORM_exprloc :: u16 where "DW_FORM_exprloc = 0x18"
definition DW_FORM_flag_present :: u16 where "DW_FORM_flag_present = 0x19"
definition DW_FORM_strx :: u16 where "DW_FORM_strx = 0x1a"
definition DW_FORM_addrx :: u16 where "DW_FORM_addrx = 0x1b"
definition DW_FORM_ref_sup4 :: u16 where "DW_FORM_ref_sup4 = 0x1c"
definition DW_FORM_strp_sup :: u16 where "DW_FORM_strp_sup = 0x1d"
definition DW_FORM_data16 :: u16 where "DW_FORM_data16 = 0x1e"
definition DW_FORM_line_strp :: u16 where "DW_FORM_line_strp = 0x1f"
definition DW_FORM_ref_sig8 :: u16 where "DW_FORM_ref_sig8 = 0x20"
definition DW_FORM_implicit_const :: u16 where "DW_FORM_implicit_const = 0x21"
definition DW_FORM_loclistx :: u16 where "DW_FORM_loclistx = 0x22"
definition DW_FORM_rnglistx :: u16 where "DW_FORM_rnglistx = 0x23"
definition DW_FORM_ref_sup8 :: u16 where "DW_FORM_ref_sup8 = 0x24"
definition DW_FORM_strx1 :: u16 where "DW_FORM_strx1 = 0x25"
definition DW_FORM_strx2 :: u16 where "DW_FORM_strx2 = 0x26"
definition DW_FORM_strx3 :: u16 where "DW_FORM_strx3 = 0x27"
definition DW_FORM_strx4 :: u16 where "DW_FORM_strx4 = 0x28"
definition DW_FORM_addrx1 :: u16 where "DW_FORM_addrx1 = 0x29"
definition DW_FORM_addrx2 :: u16 where "DW_FORM_addrx2 = 0x2a"
definition DW_FORM_addrx3 :: u16 where "DW_FORM_addrx3 = 0x2b"
definition DW_FORM_addrx4 :: u16 where "DW_FORM_addrx4 = 0x2c"
definition DW_FORM_GNU_addr_index :: u16 where "DW_FORM_GNU_addr_index = 0x1f01"
definition DW_FORM_GNU_str_index :: u16 where "DW_FORM_GNU_str_index = 0x1f02"
definition DW_FORM_GNU_ref_alt :: u16 where "DW_FORM_GNU_ref_alt = 0x1f20"
definition DW_FORM_GNU_strp_alt :: u16 where "DW_FORM_GNU_strp_alt = 0x1f21"
definition DW_FORM_LLVM_addrx_offset :: u16 where "DW_FORM_LLVM_addrx_offset = 0x2001"

text \<open>The case labels of the switch over \<open>val.getForm()\<close>, group by group, in source order.\<close>

definition integer_forms :: "u16 list" where
  "integer_forms = [DW_FORM_data2, DW_FORM_data4, DW_FORM_data8, DW_FORM_data1,
     DW_FORM_sdata, DW_FORM_udata, DW_FORM_data16, DW_FORM_flag, DW_FORM_flag_present,
     DW_FORM_loclistx, DW_FORM_rnglistx, DW_FORM_sec_offset, DW_FORM_implicit_const]"

definition address_forms :: "u16 list" where
  "address_forms = [DW_FORM_addr, DW_FORM_addrx, DW_FORM_addrx1, DW_FORM_addrx2,
     DW_FORM_addrx3, DW_FORM_addrx4, DW_FORM_GNU_addr_index, DW_FORM_LLVM_addrx_offset]"

definition block_forms :: "u16 list" where
  "block_forms = [DW_FORM_block2, DW_FORM_block4, DW_FORM_block, DW_FORM_block1,
     DW_FORM_exprloc]"

definition string_forms :: "u16 list" where
  "string_forms = [DW_FORM_string, DW_FORM_strp, DW_FORM_strx, DW_FORM_strp_sup,
     DW_FORM_line_strp, DW_FORM_strx1, DW_FORM_strx2, DW_FORM_strx3, DW_FORM_strx4,
     DW_FORM_GNU_str_index, DW_FORM_GNU_strp_alt]"

definition reference_forms :: "u16 list" where
  "reference_forms = [DW_FORM_ref_addr, DW_FORM_ref1, DW_FORM_ref2, DW_FORM_ref4,
     DW_FORM_ref8, DW_FORM_ref_udata, DW_FORM_ref_sup4, DW_FORM_ref_sig8,
     DW_FORM_ref_sup8, DW_FORM_GNU_ref_alt]"

subsection \<open>What the DWARF library hands to the decoder\<close>

text \<open>
  The LLVM DWARF library is not part of the sources: what the decoder reads from it is a
  parameter. An abbreviation declaration is its tag, its children flag and its attribute
  specifications; a unit handle gives its offsets and its abbreviation table (a null
  pointer is \<open>None\<close>); an extracted form value is the results of the accessors the decoder
  calls on it.
\<close>

record AttributeSpec =
  Attr :: u16
  Form :: u16
  ImplicitConst :: "u64 option"

record DWARFAbbreviationDeclaration =
  getTag :: u16
  hasChildren :: bool
  attributes :: "AttributeSpec list"

record DWARFUnit =
  getOffset :: u64
  getHeaderSize :: u64
  getNextUnitOffset :: u64
  getAbbreviations :: "(u32 \<Rightarrow> DWARFAbbreviationDeclaration option) option"
  tryExtractDIEsIfNeeded :: "string option"

record DWARFFormValue =
  getForm :: u16
  getRawUValue :: u64
  getAsSectionOffset :: "u64 option"
  getAsAddress :: "u64 option"
  getAsBlock :: "string option"
  getAsCString :: "string option"

record Prologue =
  getVersion :: u16
  FileNames :: "string option list"

text \<open>
  The sections of the ELF image, seen through the library:
  \<^item> \<open>getULEB128 off\<close> is the value read at \<open>off\<close> and the offset after it, \<open>None\<close> when
    the extractor reports an error;
  \<^item> \<open>extractValue unit form implicit_const off\<close> is \<open>DWARFFormValue::extractValue\<close> on a
    value created by \<open>createFromSValue\<close>: the extracted value and the offset after it,
    \<open>None\<close> when it returns false;
  \<^item> \<open>prologue_parse unit off\<close> is \<open>Prologue::parse\<close> on \<open>.debug_line\<close>, \<open>None\<close> on error;
    a file name that cannot be decoded is \<open>None\<close> in \<open>FileNames\<close>.
\<close>

record dwarf_sections =
  debug_info_present :: bool
  debug_abbrev_present :: bool
  debug_line_present :: bool
  info_section_units :: "DWARFUnit list"
  getULEB128 :: "u64 \<Rightarrow> (u64 \<times> u64) option"
  extractValue :: "DWARFUnit \<Rightarrow> u16 \<Rightarrow> u64 \<Rightarrow> u64 \<Rightarrow> (DWARFFormValue \<times> u64) option"
  prologue_parse :: "DWARFUnit \<Rightarrow> u64 \<Rightarrow> Prologue option"
  LanguageString :: "u32 \<Rightarrow> string"
  AttributeEncodingString :: "u32 \<Rightarrow> string"

text \<open>
  Modelled from the spec: \<open>DWARFFormValue::getAsReference\<close> is code of the DWARF library,
  absent from the sources. The spec: "For references, the target offset is always
  normalized to be .debug_info-absolute, even when the wire form is unit-relative"; the
  forms \<open>ref1\<close>, \<open>ref2\<close>, \<open>ref4\<close>, \<open>ref8\<close> and \<open>ref_udata\<close> are the unit-relative wire forms
  of DWARF, the other reference forms carry a section-relative value.
\<close>

definition unit_relative_forms :: "u16 list" where
  "unit_relative_forms = [DW_FORM_ref1, DW_FORM_ref2, DW_FORM_ref4, DW_FORM_ref8,
     DW_FORM_ref_udata]"

definition getAsReference :: "DWARFUnit \<Rightarrow> DWARFFormValue \<Rightarrow> u64 option" where
  "getAsReference u val =
     (if getForm val \<in> set unit_relative_forms then Some (getOffset u + getRawUValue val)
      else if getForm val \<in> set reference_forms then Some (getRawUValue val)
      else None)"

subsection \<open>Unit state\<close>

record StackEntry =
  entry_offset :: u64
  entry_tag :: u16

record UnitState =
  dwarf_unit :: DWARFUnit
  unit_abbrevs :: "u32 \<Rightarrow> DWARFAbbreviationDeclaration option"
  end_offset :: u64
  offset :: u64
  stack :: "StackEntry list"
  unit_name :: string
  filename_table :: "string list option"
  filename_table_size :: nat

text \<open>
  The constructor \<open>UnitState::UnitState\<close>. The members it does not initialise take the
  defaults of their declarations, which are in the header, absent from the sources.
  Modelled from the spec: "stack begins empty. filename_table begins null"; the size of
  the absent table is 0 and the unit name is empty.
\<close>

definition UnitState_of :: "DWARFUnit \<Rightarrow> error + UnitState" where
  "UnitState_of u =
     (case getAbbreviations u of
        None \<Rightarrow> Inl (CANNOT_PARSE_DWARF ''Couldn't find abbreviation set for unit at offset {}'')
      | Some a \<Rightarrow>
          (case tryExtractDIEsIfNeeded u of
             Some msg \<Rightarrow> Inl (CANNOT_PARSE_DWARF ''Failed to parse compilation unit entry: {}'')
           | None \<Rightarrow>
               Inr \<lparr>dwarf_unit = u, unit_abbrevs = a, end_offset = getNextUnitOffset u,
                    offset = getOffset u + getHeaderSize u, stack = [], unit_name = [],
                    filename_table = None, filename_table_size = 0\<rparr>))"

definition eof :: "UnitState \<Rightarrow> bool" where
  "eof unit = (offset unit = end_offset unit)"

definition removePrefix :: "string \<Rightarrow> nat \<Rightarrow> string" where
  "removePrefix s prefix_len = (if length s \<ge> prefix_len then drop prefix_len s else s)"

subsection \<open>Column builders\<close>

text \<open>
  The local column builders of \<open>parseEntries\<close>: each is the list of the values inserted so
  far. \<open>col_decl_file\<close> holds dictionary positions; \<open>col_attr_str\<close> is a low-cardinality
  column with a dictionary of its own, modelled by its row values.
\<close>

record builders =
  col_offset :: "u64 list"
  col_size :: "u32 list"
  col_tag :: "u16 list"
  col_ancestor_tags :: "u16 list"
  col_ancestor_dwarf_offsets :: "u64 list"
  col_ancestor_array_offsets :: "nat list"
  col_name :: "string list"
  col_linkage_name :: "string list"
  col_decl_file :: "u64 list"
  col_decl_line :: "u32 list"
  col_attr_name :: "u16 list"
  col_attr_form :: "u16 list"
  col_attr_int :: "u64 list"
  col_attr_str :: "string list"
  col_attr_offsets :: "nat list"

definition empty_builders :: builders where
  "empty_builders = \<lparr>col_offset = [], col_size = [], col_tag = [], col_ancestor_tags = [],
     col_ancestor_dwarf_offsets = [], col_ancestor_array_offsets = [], col_name = [],
     col_linkage_name = [], col_decl_file = [], col_decl_line = [], col_attr_name = [],
     col_attr_form = [], col_attr_int = [], col_attr_str = [], col_attr_offsets = []\<rparr>"

text \<open>
  A guarded insertion \<^verbatim>\<open>if (c) col->insertValue(v)\<close> appends \<open>ins c v\<close> to the builder: the
  value when the guard holds, nothing otherwise.
\<close>

definition ins :: "bool \<Rightarrow> 'a \<Rightarrow> 'a list" where
  "ins c v = (if c then [v] else [])"

text \<open>The four "still needed" booleans of one DIE (cleared by \<open>std::exchange\<close>).\<close>

record flags =
  need_name :: bool
  need_linkage_name :: bool
  need_decl_file :: bool
  need_decl_line :: bool

text \<open>
  The array \<open>need\<close>: the columns of the header, then the two propagation rules that
  nominate the owner of a shared offsets vector.
\<close>

definition need_columns :: "DwarfColumn list \<Rightarrow> DwarfColumn \<Rightarrow> bool" where
  "need_columns header =
     (let need = (\<lambda>c. c \<in> set header);
          need = (if need COL_ATTR_FORM \<or> need COL_ATTR_INT \<or> need COL_ATTR_STR
                  then need(COL_ATTR_NAME := True) else need);
          need = (if need COL_ANCESTOR_OFFSETS then need(COL_ANCESTOR_TAGS := True) else need)
      in need)"

section \<open>The unit decoder\<close>

subsection \<open>The filename table\<close>

text \<open>
  \<open>parseFilenameTable\<close>: index 0 of the dictionary is the empty string, version 4 and
  older reserve index 1 as well, then one entry per file name of the prologue. The
  dictionary is a \<open>ColumnUnique\<close> created from the column as it stands.
\<close>

definition parseFilenameTable :: "dwarf_sections \<Rightarrow> UnitState \<Rightarrow> u64 \<Rightarrow> error + UnitState" where
  "parseFilenameTable env unit off =
     (if \<not> debug_line_present env
      then Inl (CANNOT_PARSE_DWARF ''There are DW_AT_stmt_list but no .debug_line section'')
      else
        (case prologue_parse env (dwarf_unit unit) off of
           None \<Rightarrow> Inl (CANNOT_PARSE_DWARF ''Failed to parse .debug_line unit prologue: {}'')
         | Some prologue \<Rightarrow>
             (let col = [[]];
                  col = (if getVersion prologue \<le> 4 then col @ [[]] else col);
                  col = col @ map (\<lambda>entry. case entry of None \<Rightarrow> ''<error>'' | Some c_str \<Rightarrow> c_str)
                                  (FileNames prologue)
              in Inr (unit\<lparr>filename_table_size := length col - 1,
                            filename_table := Some col\<rparr>))))"

text \<open>
  \<open>unit.filename_table->getDataAt(idx)\<close>: a read through the table pointer; a null table
  or an index past its end is undefined behaviour in the C++, \<open>None\<close> here.
\<close>

definition getDataAt :: "string list option \<Rightarrow> nat \<Rightarrow> string option" where
  "getDataAt table idx =
     (case table of None \<Rightarrow> None
      | Some col \<Rightarrow> (if idx < length col then Some (col ! idx) else None))"

subsection \<open>The projection of one attribute value\<close>

text \<open>The first group of the switch: a 64-bit value, with the stringifications.\<close>

definition project_integer ::
  "dwarf_sections \<Rightarrow> (DwarfColumn \<Rightarrow> bool) \<Rightarrow> AttributeSpec \<Rightarrow> DWARFFormValue \<Rightarrow> UnitState \<Rightarrow>
   builders \<times> flags \<Rightarrow> error + builders \<times> flags" where
  "project_integer env need attr val unit s =
     (let b = fst s; fl = snd s;
          b = b\<lparr>col_attr_int := col_attr_int b @ ins (need COL_ATTR_INT) (getRawUValue val)\<rparr>;
          b = b\<lparr>col_decl_line := col_decl_line b @
                 ins (Attr attr = DW_AT_decl_line \<and> need_decl_line fl) (ucast (getRawUValue val))\<rparr>;
          fl = (if Attr attr = DW_AT_decl_line then fl\<lparr>need_decl_line := False\<rparr> else fl)
      in if (Attr attr = DW_AT_decl_file \<or> Attr attr = DW_AT_call_file) \<and>
            unat (getRawUValue val) < filename_table_size unit
         then
           (let idx = getRawUValue val + 1;
                b = b\<lparr>col_decl_file := col_decl_file b @
                       ins (Attr attr = DW_AT_decl_file \<and> need_decl_file fl) idx\<rparr>;
                fl = (if Attr attr = DW_AT_decl_file then fl\<lparr>need_decl_file := False\<rparr> else fl)
            in if need COL_ATTR_STR
               then (case getDataAt (filename_table unit) (unat idx) of
                       None \<Rightarrow> Inl NULL_DEREFERENCE
                     | Some data \<Rightarrow> Inr (b\<lparr>col_attr_str := col_attr_str b @ [data]\<rparr>, fl))
               else Inr (b, fl))
         else
           Inr (b\<lparr>col_attr_str := col_attr_str b @ ins (need COL_ATTR_STR)
                  (if Attr attr = DW_AT_language
                   then removePrefix (LanguageString env (ucast (getRawUValue val))) (length ''DW_LANG_'')
                   else if Attr attr = DW_AT_encoding
                   then removePrefix (AttributeEncodingString env (ucast (getRawUValue val))) (length ''DW_ATE_'')
                   else [])\<rparr>, fl))"

text \<open>An address.\<close>

definition project_address ::
  "(DwarfColumn \<Rightarrow> bool) \<Rightarrow> DWARFFormValue \<Rightarrow> builders \<Rightarrow> builders" where
  "project_address need val b =
     b\<lparr>col_attr_int := col_attr_int b @
          ins (need COL_ATTR_INT) (case getAsAddress val of None \<Rightarrow> 0 | Some a \<Rightarrow> a),
       col_attr_str := col_attr_str b @ ins (need COL_ATTR_STR) []\<rparr>"

text \<open>A byte string.\<close>

definition project_block ::
  "(DwarfColumn \<Rightarrow> bool) \<Rightarrow> DWARFFormValue \<Rightarrow> builders \<Rightarrow> builders" where
  "project_block need val b =
     (let slice = (case getAsBlock val of None \<Rightarrow> [] | Some bytes \<Rightarrow> bytes)
      in b\<lparr>col_attr_str := col_attr_str b @ ins (need COL_ATTR_STR) slice,
           col_attr_int := col_attr_int b @ ins (need COL_ATTR_INT) 0\<rparr>)"

text \<open>A text string; it also fills the name columns and the unit name.\<close>

definition project_string ::
  "(DwarfColumn \<Rightarrow> bool) \<Rightarrow> u16 \<Rightarrow> AttributeSpec \<Rightarrow> DWARFFormValue \<Rightarrow>
   UnitState \<times> builders \<times> flags \<Rightarrow> error + UnitState \<times> builders \<times> flags" where
  "project_string need tag attr val s =
     (case getAsCString val of
        None \<Rightarrow> Inl (CANNOT_PARSE_DWARF ''Error parsing string attribute: {}'')
      | Some res \<Rightarrow>
          (let unit = fst s; b = fst (snd s); fl = snd (snd s);
               b = b\<lparr>col_name := col_name b @ ins (Attr attr = DW_AT_name \<and> need_name fl) res\<rparr>;
               fl = (if Attr attr = DW_AT_name then fl\<lparr>need_name := False\<rparr> else fl);
               unit = (if Attr attr = DW_AT_name \<and> tag = DW_TAG_compile_unit
                       then unit\<lparr>unit_name := res\<rparr> else unit);
               b = b\<lparr>col_linkage_name := col_linkage_name b @
                      ins (Attr attr = DW_AT_linkage_name \<and> need_linkage_name fl) res\<rparr>;
               fl = (if Attr attr = DW_AT_linkage_name then fl\<lparr>need_linkage_name := False\<rparr> else fl);
               b = b\<lparr>col_attr_str := col_attr_str b @ ins (need COL_ATTR_STR) res,
                     col_attr_int := col_attr_int b @ ins (need COL_ATTR_INT) 0\<rparr>
           in Inr (unit, b, fl)))"

text \<open>The offset of another entry in \<open>.debug_info\<close>.\<close>

definition project_reference ::
  "(DwarfColumn \<Rightarrow> bool) \<Rightarrow> DWARFUnit \<Rightarrow> DWARFFormValue \<Rightarrow> builders \<Rightarrow> builders" where
  "project_reference need u val b =
     b\<lparr>col_attr_int := col_attr_int b @
          ins (need COL_ATTR_INT) (case getAsReference u val of None \<Rightarrow> 0 | Some r \<Rightarrow> r),
       col_attr_str := col_attr_str b @ ins (need COL_ATTR_STR) []\<rparr>"

text \<open>The default label of the switch.\<close>

definition project_default :: "(DwarfColumn \<Rightarrow> bool) \<Rightarrow> builders \<Rightarrow> builders" where
  "project_default need b =
     b\<lparr>col_attr_int := col_attr_int b @ ins (need COL_ATTR_INT) 0,
       col_attr_str := col_attr_str b @ ins (need COL_ATTR_STR) []\<rparr>"

text \<open>The switch over \<open>val.getForm()\<close>, the form found at extraction.\<close>

definition project_value ::
  "dwarf_sections \<Rightarrow> (DwarfColumn \<Rightarrow> bool) \<Rightarrow> u16 \<Rightarrow> AttributeSpec \<Rightarrow> DWARFFormValue \<Rightarrow>
   UnitState \<times> builders \<times> flags \<Rightarrow> error + UnitState \<times> builders \<times> flags" where
  "project_value env need tag attr val s =
     (let unit = fst s; b = fst (snd s); fl = snd (snd s) in
      if getForm val \<in> set integer_forms then
        (case project_integer env need attr val unit (b, fl) of
           Inl e \<Rightarrow> Inl e
         | Inr (b, fl) \<Rightarrow> Inr (unit, b, fl))
      else if getForm val \<in> set address_forms then Inr (unit, project_address need val b, fl)
      else if getForm val \<in> set block_forms then Inr (unit, project_block need val b, fl)
      else if getForm val \<in> set string_forms then project_string need tag attr val s
      else if getForm val \<in> set reference_forms
        then Inr (unit, project_reference need (dwarf_unit unit) val b, fl)
      else Inr (unit, project_default need b, fl))"

text \<open>One iteration of the loop over \<open>abbrev->attributes()\<close>.\<close>

definition parse_attribute ::
  "dwarf_sections \<Rightarrow> (DwarfColumn \<Rightarrow> bool) \<Rightarrow> u16 \<Rightarrow> AttributeSpec \<Rightarrow>
   UnitState \<times> builders \<times> flags \<Rightarrow> error + UnitState \<times> builders \<times> flags" where
  "parse_attribute env need tag attr s =
     (let unit = fst s; b = fst (snd s); fl = snd (snd s) in
      case extractValue env (dwarf_unit unit) (Form attr)
             (case ImplicitConst attr of Some c \<Rightarrow> c | None \<Rightarrow> 0) (offset unit) of
        None \<Rightarrow> Inl (CANNOT_PARSE_DWARF ''Failed to parse attribute {} of form {} at offset {}'')
      | Some (val, pos) \<Rightarrow>
          (let unit = unit\<lparr>offset := pos\<rparr>;
               b = b\<lparr>col_attr_name := col_attr_name b @ ins (need COL_ATTR_NAME) (Attr attr)\<rparr>;
               b = b\<lparr>col_attr_form := col_attr_form b @ ins (need COL_ATTR_FORM) (Form attr)\<rparr>
           in case (if Attr attr = DW_AT_stmt_list \<and> filename_table unit = None
                    then (case getAsSectionOffset val of
                            Some off \<Rightarrow> parseFilenameTable env unit off
                          | None \<Rightarrow> Inr unit)
                    else Inr unit) of
                Inl e \<Rightarrow> Inl e
              | Inr unit \<Rightarrow> project_value env need tag attr val (unit, b, fl)))"

fun parse_attributes ::
  "dwarf_sections \<Rightarrow> (DwarfColumn \<Rightarrow> bool) \<Rightarrow> u16 \<Rightarrow> AttributeSpec list \<Rightarrow>
   UnitState \<times> builders \<times> flags \<Rightarrow> error + UnitState \<times> builders \<times> flags" where
  "parse_attributes env need tag [] s = Inr s"
| "parse_attributes env need tag (attr # attrs) s =
     (case parse_attribute env need tag attr s of
        Inl e \<Rightarrow> Inl e
      | Inr s' \<Rightarrow> parse_attributes env need tag attrs s')"

subsection \<open>One debugging information entry\<close>

text \<open>Abbreviation code 0: the terminator of a sibling list.\<close>

definition parse_null_entry ::
  "(DwarfColumn \<Rightarrow> bool) \<Rightarrow> UnitState \<Rightarrow> u64 \<Rightarrow> builders \<Rightarrow> error + UnitState \<times> builders" where
  "parse_null_entry need unit die_offset b =
     (let b = b\<lparr>col_size := col_size b @ ins (need COL_SIZE) (ucast (offset unit - die_offset))\<rparr>;
          b = b\<lparr>col_tag := col_tag b @ ins (need COL_TAG) 0\<rparr>;
          b = b\<lparr>col_name := col_name b @ ins (need COL_NAME) []\<rparr>;
          b = b\<lparr>col_linkage_name := col_linkage_name b @ ins (need COL_LINKAGE_NAME) []\<rparr>;
          b = b\<lparr>col_decl_file := col_decl_file b @ ins (need COL_DECL_FILE) 0\<rparr>;
          b = b\<lparr>col_decl_line := col_decl_line b @ ins (need COL_DECL_LINE) 0\<rparr>;
          b = b\<lparr>col_attr_offsets := col_attr_offsets b @
                 ins (need COL_ATTR_NAME) (length (col_attr_name b))\<rparr>
      in if stack unit = [] then Inl (CANNOT_PARSE_DWARF ''Stack underflow'')
         else Inr (unit\<lparr>stack := butlast (stack unit)\<rparr>, b))"

text \<open>A real entry: its abbreviation, its attributes, then the row's remaining columns.\<close>

definition parse_real_entry ::
  "dwarf_sections \<Rightarrow> (DwarfColumn \<Rightarrow> bool) \<Rightarrow> UnitState \<Rightarrow> u64 \<Rightarrow> u64 \<Rightarrow> builders \<Rightarrow>
   error + UnitState \<times> builders" where
  "parse_real_entry env need unit die_offset abbrev_code b =
     (case unit_abbrevs unit (ucast abbrev_code) of
        None \<Rightarrow> Inl (CANNOT_PARSE_DWARF ''Abbrev code in DIE header is out of bounds: {}, offset {}'')
      | Some abbrev \<Rightarrow>
          if abbrev_code > 0xFFFFFFFF
          then Inl (CANNOT_PARSE_DWARF ''Abbrev code in DIE header is out of bounds: {}, offset {}'')
          else
            (let tag = getTag abbrev;
                 b = b\<lparr>col_tag := col_tag b @ ins (need COL_TAG) tag\<rparr>;
                 fl = \<lparr>need_name = need COL_NAME, need_linkage_name = need COL_LINKAGE_NAME,
                       need_decl_file = need COL_DECL_FILE, need_decl_line = need COL_DECL_LINE\<rparr>
             in case parse_attributes env need tag (attributes abbrev) (unit, b, fl) of
                  Inl e \<Rightarrow> Inl e
                | Inr (unit, b, fl) \<Rightarrow>
                    (let b = b\<lparr>col_size := col_size b @
                                ins (need COL_SIZE) (ucast (offset unit - die_offset))\<rparr>;
                         b = b\<lparr>col_attr_offsets := col_attr_offsets b @
                                ins (need COL_ATTR_NAME) (length (col_attr_name b))\<rparr>;
                         b = b\<lparr>col_name := col_name b @ ins (need_name fl) []\<rparr>;
                         b = b\<lparr>col_linkage_name := col_linkage_name b @ ins (need_linkage_name fl) []\<rparr>;
                         b = b\<lparr>col_decl_file := col_decl_file b @ ins (need_decl_file fl) 0\<rparr>;
                         b = b\<lparr>col_decl_line := col_decl_line b @ ins (need_decl_line fl) 0\<rparr>;
                         unit = (if hasChildren abbrev
                                 then unit\<lparr>stack := stack unit @
                                        [\<lparr>entry_offset = die_offset, entry_tag = tag\<rparr>]\<rparr>
                                 else unit)
                     in Inr (unit, b))))"

text \<open>
  The body of the while loop up to the test of the stack: the offset and the ancestors
  (the stack from its top down), the abbreviation code, then one of the two cases.
\<close>

definition parse_die ::
  "dwarf_sections \<Rightarrow> (DwarfColumn \<Rightarrow> bool) \<Rightarrow> UnitState \<Rightarrow> builders \<Rightarrow> error + UnitState \<times> builders" where
  "parse_die env need unit b =
     (let die_offset = offset unit;
          b = b\<lparr>col_offset := col_offset b @ ins (need COL_OFFSET) die_offset\<rparr>;
          b = b\<lparr>col_ancestor_tags := col_ancestor_tags b @
                 (if need COL_ANCESTOR_TAGS then map entry_tag (rev (stack unit)) else []),
                col_ancestor_dwarf_offsets := col_ancestor_dwarf_offsets b @
                 (if need COL_ANCESTOR_TAGS \<and> need COL_ANCESTOR_OFFSETS
                  then map entry_offset (rev (stack unit)) else [])\<rparr>;
          b = b\<lparr>col_ancestor_array_offsets := col_ancestor_array_offsets b @
                 ins (need COL_ANCESTOR_TAGS) (length (col_ancestor_tags b))\<rparr>
      in case getULEB128 env die_offset of
           None \<Rightarrow> Inl (CANNOT_PARSE_DWARF ''Failed to parse {}: {}'')
         | Some (abbrev_code, pos) \<Rightarrow>
             (let unit = unit\<lparr>offset := pos\<rparr>
              in if abbrev_code = 0 then parse_null_entry need unit die_offset b
                 else parse_real_entry env need unit die_offset abbrev_code b))"

subsection \<open>The loop and the chunk\<close>

text \<open>
  \<^verbatim>\<open>while (num_rows < 65536)\<close>: every iteration counts its row first; the loop ends at
  the cap, or when the stack is empty after a row, where the unit must be at its end.
\<close>

function parse_loop ::
  "dwarf_sections \<Rightarrow> (DwarfColumn \<Rightarrow> bool) \<Rightarrow> UnitState \<Rightarrow> builders \<Rightarrow> nat \<Rightarrow>
   error + UnitState \<times> builders \<times> nat" where
  "parse_loop env need unit b num_rows =
     (if num_rows < 65536 then
        (case parse_die env need unit b of
           Inl e \<Rightarrow> Inl e
         | Inr (unit', b') \<Rightarrow>
             if stack unit' = [] then
               (if \<not> eof unit'
                then Inl (CANNOT_PARSE_DWARF ''Unexpected end of DIE tree at offset {} != {}'')
                else Inr (unit', b', Suc num_rows))
             else parse_loop env need unit' b' (Suc num_rows))
      else Inr (unit, b, num_rows))"
  by pat_completeness auto
termination
  by (relation "measure (\<lambda>(env, need, unit, b, num_rows). 65536 - num_rows)") auto

declare parse_loop.simps [simp del]

text \<open>
  Columns of a chunk. A low-cardinality column is a dictionary (a null pointer is \<open>None\<close>)
  and a column of positions; the three registry dictionaries are shared by name. An array
  column is a data column and an offsets vector.
\<close>

datatype dictionary =
    tag_dict_column
  | attr_name_dict_column
  | attr_form_dict_column
  | ColumnUniqueString "string list"
  | ColumnUniqueUInt64 "u64 list"

datatype column =
    ColumnUInt64 "u64 list"
  | ColumnUInt32 "u32 list"
  | ColumnUInt16 "u16 list"
  | ColumnUInt8 "u8 list"
  | ColumnString "string list"
  | ColumnLowCardinality "dictionary option" column
  | ColumnLowCardinalityStrings "string list"
  | ColumnArray column "nat list"

record Chunk =
  columns :: "column list"
  chunk_rows :: nat

text \<open>
  Chunk assembly, one column per name of the header. The header of a block names each
  column once, so every \<open>std::exchange\<close> moves a live builder. The default label of the
  switch (\<open>LOGICAL_ERROR\<close>) has no value of \<open>DwarfColumn\<close>.
\<close>

definition assemble_column :: "UnitState \<Rightarrow> builders \<Rightarrow> nat \<Rightarrow> DwarfColumn \<Rightarrow> column" where
  "assemble_column unit b num_rows c =
     (case c of
        COL_OFFSET \<Rightarrow> ColumnUInt64 (col_offset b)
      | COL_SIZE \<Rightarrow> ColumnUInt32 (col_size b)
      | COL_TAG \<Rightarrow> ColumnLowCardinality (Some tag_dict_column) (ColumnUInt16 (col_tag b))
      | COL_UNIT_NAME \<Rightarrow>
          ColumnLowCardinality (Some (ColumnUniqueString [[], unit_name unit]))
            (ColumnUInt8 (replicate num_rows 1))
      | COL_UNIT_OFFSET \<Rightarrow>
          ColumnLowCardinality (Some (ColumnUniqueUInt64 [0, getOffset (dwarf_unit unit)]))
            (ColumnUInt8 (replicate num_rows 1))
      | COL_ANCESTOR_TAGS \<Rightarrow>
          ColumnArray (ColumnLowCardinality (Some tag_dict_column) (ColumnUInt16 (col_ancestor_tags b)))
            (col_ancestor_array_offsets b)
      | COL_ANCESTOR_OFFSETS \<Rightarrow>
          ColumnArray (ColumnUInt64 (col_ancestor_dwarf_offsets b)) (col_ancestor_array_offsets b)
      | COL_NAME \<Rightarrow> ColumnString (col_name b)
      | COL_LINKAGE_NAME \<Rightarrow> ColumnString (col_linkage_name b)
      | COL_DECL_FILE \<Rightarrow>
          ColumnLowCardinality (map_option ColumnUniqueString (filename_table unit))
            (ColumnUInt64 (col_decl_file b))
      | COL_DECL_LINE \<Rightarrow> ColumnUInt32 (col_decl_line b)
      | COL_ATTR_NAME \<Rightarrow>
          ColumnArray (ColumnLowCardinality (Some attr_name_dict_column) (ColumnUInt16 (col_attr_name b)))
            (col_attr_offsets b)
      | COL_ATTR_FORM \<Rightarrow>
          ColumnArray (ColumnLowCardinality (Some attr_form_dict_column) (ColumnUInt16 (col_attr_form b)))
            (col_attr_offsets b)
      | COL_ATTR_INT \<Rightarrow> ColumnArray (ColumnUInt64 (col_attr_int b)) (col_attr_offsets b)
      | COL_ATTR_STR \<Rightarrow> ColumnArray (ColumnLowCardinalityStrings (col_attr_str b)) (col_attr_offsets b))"

definition parseEntries ::
  "dwarf_sections \<Rightarrow> DwarfColumn list \<Rightarrow> UnitState \<Rightarrow> error + Chunk \<times> UnitState" where
  "parseEntries env header unit =
     (case parse_loop env (need_columns header) unit empty_builders 0 of
        Inl e \<Rightarrow> Inl e
      | Inr (unit', b, num_rows) \<Rightarrow>
          Inr (\<lparr>columns = map (assemble_column unit' b num_rows) header, chunk_rows = num_rows\<rparr>,
               unit'))"

section \<open>The parallel scheduler and the generator\<close>

text \<open>
  The state that the mutex guards, with \<open>elf\<close> (whether \<open>initializeIfNeeded\<close> has opened
  the file) and the threads of the pool. A thread of the pool is at one of these points:
  \<^item> \<open>Ready\<close>: started, before it takes the mutex for the first time;
  \<^item> \<open>Waiting\<close>: in \<open>wake_up_threads.wait\<close>;
  \<^item> \<open>Parsing unit\<close>: the mutex released, in \<open>parseEntries\<close> on the unit it took;
  \<^item> \<open>Finished\<close>: past the loop; \<open>Failed\<close>: past the catch block.
  Every step of a thread is one critical section of the mutex, so the threads interleave
  step by step. Notifications are not part of the state: a waiting thread may resume at
  any time, which covers both a notification and a spurious wake-up.
\<close>

datatype worker = Ready | Waiting | Parsing UnitState | Finished | Failed

record format_state =
  elf :: bool
  units_queue :: "UnitState list"
  delivery_queue :: "(Chunk \<times> u64) list"
  units_in_progress :: nat
  is_stopped :: bool
  background_exception :: "error option"
  approx_bytes_read_for_chunk :: u64
  pool :: "worker list"

text \<open>The format as its constructor leaves it (and as \<open>resetParser\<close> leaves it again).\<close>

definition new_format :: format_state where
  "new_format = \<lparr>elf = False, units_queue = [], delivery_queue = [], units_in_progress = 0,
     is_stopped = False, background_exception = None, approx_bytes_read_for_chunk = 0,
     pool = []\<rparr>"

text \<open>
  The loop of \<open>initializeIfNeeded\<close> over the units of \<open>.debug_info\<close>: each unit state is
  constructed and enqueued; the constructor may throw, and the units enqueued before
  stay in the queue.
\<close>

fun enqueue_units :: "DWARFUnit list \<Rightarrow> UnitState list \<Rightarrow> error option \<times> UnitState list" where
  "enqueue_units [] queue = (None, queue)"
| "enqueue_units (u # us) queue =
     (case UnitState_of u of
        Inl e \<Rightarrow> (Some e, queue)
      | Inr unit \<Rightarrow> enqueue_units us (queue @ [unit]))"

text \<open>
  \<open>initializeIfNeeded\<close>: the exception it throws, if any, and the state it leaves. The ELF
  loader and the thread pool are not part of the sources: opening the file and
  scheduling the threads succeed here. The pool starts \<open>num_threads\<close> threads.
\<close>

definition initializeIfNeeded ::
  "dwarf_sections \<Rightarrow> nat \<Rightarrow> format_state \<Rightarrow> error option \<times> format_state" where
  "initializeIfNeeded env num_threads s =
     (if elf s then (None, s)
      else
        (let s = s\<lparr>elf := True\<rparr> in
         if is_stopped s then (None, s)
         else if \<not> debug_info_present env
           then (Some (CANNOT_PARSE_ELF ''No .debug_info section''), s)
         else if \<not> debug_abbrev_present env
           then (Some (CANNOT_PARSE_ELF ''No .debug_abbrev section''), s)
         else
           (case enqueue_units (info_section_units env) (units_queue s) of
              (Some e, queue) \<Rightarrow> (Some e, s\<lparr>units_queue := queue\<rparr>)
            | (None, queue) \<Rightarrow>
                (None, s\<lparr>units_queue := queue, pool := replicate num_threads Ready\<rparr>))))"

text \<open>
  Modelled from the spec: \<open>Chunk::operator bool\<close> is not part of the sources. The spec:
  "If a non-empty chunk was produced, push (chunk, bytes_consumed) to delivery_queue".
\<close>

definition chunk_nonempty :: "Chunk \<Rightarrow> bool" where
  "chunk_nonempty chunk = (chunk_rows chunk > 0 \<or> columns chunk \<noteq> [])"

text \<open>
  The head of the loop of a thread, with the mutex held: the test of the while loop, the
  back-pressure test, and the unit taken from the front of the queue. Thread \<open>i\<close> goes
  on to wait, to parse (releasing the mutex), or leaves the loop.
\<close>

definition loop_head :: "nat \<Rightarrow> nat \<Rightarrow> format_state \<Rightarrow> format_state" where
  "loop_head num_threads i s =
     (if units_queue s \<noteq> [] \<and> \<not> is_stopped s then
        (if length (delivery_queue s) > num_threads
         then s\<lparr>pool := (pool s)[i := Waiting]\<rparr>
         else s\<lparr>units_queue := tl (units_queue s),
                units_in_progress := units_in_progress s + 1,
                pool := (pool s)[i := Parsing (hd (units_queue s))]\<rparr>)
      else s\<lparr>pool := (pool s)[i := Finished]\<rparr>)"

text \<open>
  The end of the body of the loop, with the mutex again: the unit is no longer in
  progress, the chunk is published, and a unit that is not at its end goes back to the
  front of the queue.
\<close>

definition publish :: "UnitState \<Rightarrow> Chunk \<Rightarrow> UnitState \<Rightarrow> format_state \<Rightarrow> format_state" where
  "publish unit chunk unit' s =
     (let s = s\<lparr>units_in_progress := units_in_progress s - 1\<rparr>;
          s = (if chunk_nonempty chunk
               then s\<lparr>delivery_queue := delivery_queue s @ [(chunk, offset unit' - offset unit)]\<rparr>
               else s);
          s = (if \<not> eof unit' then s\<lparr>units_queue := unit' # units_queue s\<rparr> else s)
      in s)"

text \<open>
  One step of thread \<open>i\<close> of the pool: the lambda of \<open>initializeIfNeeded\<close>, from one point
  where it takes the mutex to the next point where it gives it up. A thread that starts,
  or that wakes up from its wait, is at the head of the loop. A thread that comes back
  from \<open>parseEntries\<close> publishes and is at the head of the loop again, in the same
  critical section; if \<open>parseEntries\<close> threw, the catch block stores the exception and
  the thread ends.
\<close>

definition worker_step ::
  "dwarf_sections \<Rightarrow> DwarfColumn list \<Rightarrow> nat \<Rightarrow> nat \<Rightarrow> format_state \<Rightarrow> format_state" where
  "worker_step env header num_threads i s =
     (if i \<ge> length (pool s) then s
      else
        (case pool s ! i of
           Ready \<Rightarrow> loop_head num_threads i s
         | Waiting \<Rightarrow> loop_head num_threads i s
         | Parsing unit \<Rightarrow>
             (case parseEntries env header unit of
                Inl e \<Rightarrow> s\<lparr>background_exception := Some e, pool := (pool s)[i := Failed]\<rparr>
              | Inr (chunk, unit') \<Rightarrow> loop_head num_threads i (publish unit chunk unit' s))
         | Finished \<Rightarrow> s
         | Failed \<Rightarrow> s))"

text \<open>
  \<open>generate\<close>: what the call does from its start, or from a wake-up of
  \<open>deliver_chunk.wait\<close>, to its return or to its next wait. An exception of
  \<open>initializeIfNeeded\<close> leaves before the scope guard exists. Under the guard, every exit
  but the return of a chunk sets \<open>is_stopped\<close>. On \<open>WaitForChunk\<close> the call has not
  returned: it runs again from the state it finds when it wakes up
  (\<open>initializeIfNeeded\<close> does nothing then).
\<close>

datatype generated = ReturnChunk Chunk | EndOfStream | Rethrow error | WaitForChunk

definition generate :: "dwarf_sections \<Rightarrow> nat \<Rightarrow> format_state \<Rightarrow> generated \<times> format_state" where
  "generate env num_threads s =
     (case initializeIfNeeded env num_threads s of
        (Some e, s) \<Rightarrow> (Rethrow e, s)
      | (None, s) \<Rightarrow>
          if is_stopped s then (EndOfStream, s\<lparr>is_stopped := True\<rparr>)
          else
            (case background_exception s of
               Some e \<Rightarrow> (Rethrow e, s\<lparr>is_stopped := True\<rparr>)
             | None \<Rightarrow>
                 (case delivery_queue s of
                    (chunk, bytes) # rest \<Rightarrow>
                      (ReturnChunk chunk,
                       s\<lparr>delivery_queue := rest, approx_bytes_read_for_chunk := bytes\<rparr>)
                  | [] \<Rightarrow>
                      if units_queue s = [] \<and> units_in_progress s = 0
                      then (EndOfStream, s\<lparr>is_stopped := True\<rparr>)
                      else (WaitForChunk, s))))"

text \<open>
  The states the format goes through from a state \<open>s\<close>: any interleaving of steps of
  the threads of the pool and of \<open>generate\<close> (without \<open>resetParser\<close>).
\<close>

inductive evolves ::
  "dwarf_sections \<Rightarrow> DwarfColumn list \<Rightarrow> nat \<Rightarrow> format_state \<Rightarrow> format_state \<Rightarrow> bool" where
  start: "evolves env header num_threads s s"
| worker: "evolves env header num_threads s t \<Longrightarrow>
     evolves env header num_threads s (worker_step env header num_threads i t)"
| consumer: "evolves env header num_threads s t \<Longrightarrow>
     evolves env header num_threads s (snd (generate env num_threads t))"

definition reachable :: "dwarf_sections \<Rightarrow> DwarfColumn list \<Rightarrow> nat \<Rightarrow> format_state \<Rightarrow> bool" where
  "reachable env header num_threads s = evolves env header num_threads new_format s"


section \<open>Auxiliary notions for the statements\<close>

text \<open>The row-level builders, which the loop over the attributes of an entry leaves alone.\<close>

definition row_columns ::
  "builders \<Rightarrow> u64 list \<times> u32 list \<times> u16 list \<times> u16 list \<times> u64 list \<times> nat list \<times> nat list" where
  "row_columns b = (col_offset b, col_size b, col_tag b, col_ancestor_tags b,
     col_ancestor_dwarf_offsets b, col_ancestor_array_offsets b, col_attr_offsets b)"

text \<open>The parts of a unit state that attribute extraction leaves alone.\<close>

definition unit_frame ::
  "UnitState \<Rightarrow> StackEntry list \<times> u64 \<times> DWARFUnit \<times> (u32 \<Rightarrow> DWARFAbbreviationDeclaration option)" where
  "unit_frame u = (stack u, end_offset u, dwarf_unit u, unit_abbrevs u)"

text \<open>The two propagation rules, as a property of the array \<open>need\<close>.\<close>

definition owner_needed :: "(DwarfColumn \<Rightarrow> bool) \<Rightarrow> bool" where
  "owner_needed need =
     ((need COL_ATTR_FORM \<or> need COL_ATTR_INT \<or> need COL_ATTR_STR \<longrightarrow> need COL_ATTR_NAME) \<and>
      (need COL_ANCESTOR_OFFSETS \<longrightarrow> need COL_ANCESTOR_TAGS))"

text \<open>
  The projection table of the spec (section 4.E), for comparison with the switch of the
  source: the class of a form, then the integer and the string projection of a value
  by the class of its form. Neither takes the form declared in the abbreviation.
\<close>

datatype form_class =
  IntegerClass | AddressClass | BlockClass | StringClass | ReferenceClass | OtherClass

definition projection_class :: "u16 \<Rightarrow> form_class" where
  "projection_class form =
     (if form \<in> set integer_forms then IntegerClass
      else if form \<in> set address_forms then AddressClass
      else if form \<in> set block_forms then BlockClass
      else if form \<in> set string_forms then StringClass
      else if form \<in> set reference_forms then ReferenceClass
      else OtherClass)"

definition spec_attr_int :: "DWARFUnit \<Rightarrow> DWARFFormValue \<Rightarrow> u64" where
  "spec_attr_int u val =
     (case projection_class (getForm val) of
        IntegerClass \<Rightarrow> getRawUValue val
      | AddressClass \<Rightarrow> (case getAsAddress val of None \<Rightarrow> 0 | Some a \<Rightarrow> a)
      | BlockClass \<Rightarrow> 0
      | StringClass \<Rightarrow> 0
      | ReferenceClass \<Rightarrow> (case getAsReference u val of None \<Rightarrow> 0 | Some r \<Rightarrow> r)
      | OtherClass \<Rightarrow> 0)"

definition spec_attr_str :: "dwarf_sections \<Rightarrow> UnitState \<Rightarrow> u16 \<Rightarrow> DWARFFormValue \<Rightarrow> string" where
  "spec_attr_str env unit attr_name val =
     (case projection_class (getForm val) of
        IntegerClass \<Rightarrow>
          (if (attr_name = DW_AT_decl_file \<or> attr_name = DW_AT_call_file) \<and>
              unat (getRawUValue val) < filename_table_size unit
           then (case getDataAt (filename_table unit) (unat (getRawUValue val + 1)) of
                   None \<Rightarrow> [] | Some data \<Rightarrow> data)
           else if attr_name = DW_AT_language
           then removePrefix (LanguageString env (ucast (getRawUValue val))) (length ''DW_LANG_'')
           else if attr_name = DW_AT_encoding
           then removePrefix (AttributeEncodingString env (ucast (getRawUValue val))) (length ''DW_ATE_'')
           else [])
      | AddressClass \<Rightarrow> []
      | BlockClass \<Rightarrow> (case getAsBlock val of None \<Rightarrow> [] | Some bytes \<Rightarrow> bytes)
      | StringClass \<Rightarrow> (case getAsCString val of None \<Rightarrow> [] | Some s \<Rightarrow> s)
      | ReferenceClass \<Rightarrow> []
      | OtherClass \<Rightarrow> [])"

text \<open>
  The value vectors of the attribute arrays are aligned with their owner \<open>attr_name\<close>,
  and the ancestor offsets with \<open>ancestor_tags\<close>.
\<close>

definition attrs_aligned :: "(DwarfColumn \<Rightarrow> bool) \<Rightarrow> builders \<Rightarrow> bool" where
  "attrs_aligned need b =
     ((need COL_ATTR_FORM \<longrightarrow> length (col_attr_form b) = length (col_attr_name b)) \<and>
      (need COL_ATTR_INT \<longrightarrow> length (col_attr_int b) = length (col_attr_name b)) \<and>
      (need COL_ATTR_STR \<longrightarrow> length (col_attr_str b) = length (col_attr_name b)) \<and>
      (need COL_ANCESTOR_OFFSETS \<longrightarrow>
         length (col_ancestor_dwarf_offsets b) = length (col_ancestor_tags b)))"

text \<open>
  What the primitives of the DWARF library guarantee about the cursor: reading an
  abbreviation code consumes at least one byte, and extracting a value never moves the
  cursor back.
\<close>

definition extractor_advances :: "dwarf_sections \<Rightarrow> bool" where
  "extractor_advances env =
     ((\<forall>off v pos. getULEB128 env off = Some (v, pos) \<longrightarrow> off < pos) \<and>
      (\<forall>u form c off val pos. extractValue env u form c off = Some (val, pos) \<longrightarrow> off \<le> pos))"

text \<open>A unit none of whose abbreviations declares a \<open>DW_AT_stmt_list\<close>.\<close>

definition no_stmt_list :: "UnitState \<Rightarrow> bool" where
  "no_stmt_list unit =
     (\<forall>code decl. unit_abbrevs unit code = Some decl \<longrightarrow>
        (\<forall>a \<in> set (attributes decl). Attr a \<noteq> DW_AT_stmt_list))"

text \<open>The column of a chunk under its name of the header, and the number of its rows.\<close>

definition chunk_column :: "DwarfColumn list \<Rightarrow> Chunk \<Rightarrow> DwarfColumn \<Rightarrow> column option" where
  "chunk_column header chunk c = map_of (zip header (columns chunk)) c"

fun column_size :: "column \<Rightarrow> nat" where
  "column_size (ColumnUInt64 xs) = length xs"
| "column_size (ColumnUInt32 xs) = length xs"
| "column_size (ColumnUInt16 xs) = length xs"
| "column_size (ColumnUInt8 xs) = length xs"
| "column_size (ColumnString xs) = length xs"
| "column_size (ColumnLowCardinality dict positions) = column_size positions"
| "column_size (ColumnLowCardinalityStrings xs) = length xs"
| "column_size (ColumnArray values offsets) = length offsets"

text \<open>
  The chunks of one unit: the worker decodes a chunk and decodes again from the state it
  left while the unit is not at its end.
\<close>

inductive unit_chunks ::
  "dwarf_sections \<Rightarrow> DwarfColumn list \<Rightarrow> UnitState \<Rightarrow> Chunk list \<Rightarrow> UnitState \<Rightarrow> bool" where
  last_chunk: "parseEntries env header unit = Inr (chunk, unit') \<Longrightarrow> eof unit' \<Longrightarrow>
     unit_chunks env header unit [chunk] unit'"
| next_chunk: "parseEntries env header unit = Inr (chunk, unit1) \<Longrightarrow> \<not> eof unit1 \<Longrightarrow>
     unit_chunks env header unit1 chunks unit' \<Longrightarrow>
     unit_chunks env header unit (chunk # chunks) unit'"

text \<open>The values of the size column and of the offset column of a chunk.\<close>

definition size_values :: "DwarfColumn list \<Rightarrow> Chunk \<Rightarrow> u32 list" where
  "size_values header chunk =
     (case chunk_column header chunk COL_SIZE of Some (ColumnUInt32 xs) \<Rightarrow> xs | _ \<Rightarrow> [])"

definition offset_values :: "DwarfColumn list \<Rightarrow> Chunk \<Rightarrow> u64 list" where
  "offset_values header chunk =
     (case chunk_column header chunk COL_OFFSET of Some (ColumnUInt64 xs) \<Rightarrow> xs | _ \<Rightarrow> [])"

text \<open>A thread that took a unit and has not given it back: it counts in \<open>units_in_progress\<close>.\<close>

fun busy :: "worker \<Rightarrow> bool" where
  "busy (Parsing unit) = True"
| "busy Failed = True"
| "busy w = False"

text \<open>The back-pressure invariant of the scheduler with \<open>num_threads\<close> threads.\<close>

definition backpressure :: "nat \<Rightarrow> format_state \<Rightarrow> bool" where
  "backpressure num_threads s =
     (length (pool s) \<le> num_threads \<and>
      units_in_progress s = length (filter busy (pool s)) \<and>
      length (delivery_queue s) + units_in_progress s \<le> 2 * num_threads)"

text \<open>
  The strings of the rows of a low-cardinality string column: every position is looked
  up in the dictionary. A column without a dictionary (a null pointer), or with a position
  outside of it, has no row values.
\<close>

fun dictionary_strings :: "dictionary option \<Rightarrow> u64 list \<Rightarrow> string list option" where
  "dictionary_strings (Some (ColumnUniqueString dict)) positions =
     (if \<forall>p \<in> set positions. unat p < length dict
      then Some (map (\<lambda>p. dict ! unat p) positions) else None)"
| "dictionary_strings other positions = None"

fun row_strings :: "column \<Rightarrow> string list option" where
  "row_strings (ColumnLowCardinality dict (ColumnUInt64 positions)) =
     dictionary_strings dict positions"
| "row_strings other = None"

text \<open>
  What the decoder has in hand after the extraction of one attribute, before the switch
  over the form: the value, and the unit with its cursor after the value and with its
  filename table, which a \<open>DW_AT_stmt_list\<close> builds at this point when the unit has none.
\<close>

definition after_attribute ::
  "dwarf_sections \<Rightarrow> UnitState \<Rightarrow> AttributeSpec \<Rightarrow> (DWARFFormValue \<times> UnitState) option" where
  "after_attribute env unit attr =
     (case extractValue env (dwarf_unit unit) (Form attr)
             (case ImplicitConst attr of Some c \<Rightarrow> c | None \<Rightarrow> 0) (offset unit) of
        None \<Rightarrow> None
      | Some (val, pos) \<Rightarrow>
          (case (if Attr attr = DW_AT_stmt_list \<and> filename_table unit = None
                 then (case getAsSectionOffset val of
                         Some off \<Rightarrow> parseFilenameTable env (unit\<lparr>offset := pos\<rparr>) off
                       | None \<Rightarrow> Inr (unit\<lparr>offset := pos\<rparr>))
                 else Inr (unit\<lparr>offset := pos\<rparr>)) of
             Inl e \<Rightarrow> None
           | Inr unit1 \<Rightarrow> Some (val, unit1)))"

text \<open>
  The attributes of one entry as the decoder meets them, from the unit state after the
  abbreviation code: each specification with the value extracted for it and the size of
  the filename table at that attribute.
\<close>

fun attribute_values ::
  "dwarf_sections \<Rightarrow> UnitState \<Rightarrow> AttributeSpec list \<Rightarrow> (AttributeSpec \<times> DWARFFormValue \<times> nat) list" where
  "attribute_values env unit [] = []"
| "attribute_values env unit (attr # attrs) =
     (case after_attribute env unit attr of
        None \<Rightarrow> []
      | Some (val, unit1) \<Rightarrow>
          (attr, val, filename_table_size unit1) # attribute_values env unit1 attrs)"

text \<open>
  An attribute that names a file of the table: a \<open>DW_AT_decl_file\<close> whose extracted form is
  in the integer group and whose raw value is below the size of the table. The decl_file
  position of an entry is the raw value plus one of the first such attribute, and 0 when
  the entry has none.
\<close>

definition names_file :: "AttributeSpec \<times> DWARFFormValue \<times> nat \<Rightarrow> bool" where
  "names_file x =
     (case x of (attr, val, table_size) \<Rightarrow>
        Attr attr = DW_AT_decl_file \<and> getForm val \<in> set integer_forms \<and>
        unat (getRawUValue val) < table_size)"

definition decl_file_index :: "(AttributeSpec \<times> DWARFFormValue \<times> nat) list \<Rightarrow> u64" where
  "decl_file_index values =
     (case find names_file values of
        None \<Rightarrow> 0
      | Some (attr, val, table_size) \<Rightarrow> getRawUValue val + 1)"

text \<open>Two unit states that extraction cannot tell apart.\<close>

definition same_cursor :: "UnitState \<Rightarrow> UnitState \<Rightarrow> bool" where
  "same_cursor u v = (dwarf_unit u = dwarf_unit v \<and> offset u = offset v \<and>
     filename_table u = filename_table v \<and> filename_table_size u = filename_table_size v)"

section \<open>Concrete inputs\<close>

text \<open>
  The smallest unit of the spec's first scenario: a compile unit entry with children at
  offset 11 (after an 11-byte unit header), a subprogram entry at offset 12, and the
  terminator of the sibling list at offset 13; the unit ends at offset 14.
\<close>

definition demo_abbrevs :: "u32 \<Rightarrow> DWARFAbbreviationDeclaration option" where
  "demo_abbrevs code =
     (if code = 1 then Some \<lparr>getTag = 0x11, hasChildren = True, attributes = []\<rparr>
      else if code = 2 then Some \<lparr>getTag = 0x2e, hasChildren = False, attributes = []\<rparr>
      else None)"

definition demo_unit :: DWARFUnit where
  "demo_unit = \<lparr>getOffset = 0, getHeaderSize = 11, getNextUnitOffset = 14,
     getAbbreviations = Some demo_abbrevs, tryExtractDIEsIfNeeded = None\<rparr>"

definition demo_sections :: dwarf_sections where
  "demo_sections = \<lparr>debug_info_present = True, debug_abbrev_present = True,
     debug_line_present = False, info_section_units = [demo_unit],
     getULEB128 = (\<lambda>off. if off = 11 then Some (1, 12) else if off = 12 then Some (2, 13)
                          else if off = 13 then Some (0, 14) else None),
     extractValue = (\<lambda>u form c off. None),
     prologue_parse = (\<lambda>u off. None),
     LanguageString = (\<lambda>code. []),
     AttributeEncodingString = (\<lambda>code. [])\<rparr>"

definition demo_state :: UnitState where
  "demo_state = \<lparr>dwarf_unit = demo_unit, unit_abbrevs = demo_abbrevs, end_offset = 14,
     offset = 11, stack = [], unit_name = [], filename_table = None, filename_table_size = 0\<rparr>"

text \<open>The state of that unit before its terminator: the compile unit entry is on the stack.\<close>

definition demo_state_at_terminator :: UnitState where
  "demo_state_at_terminator =
     demo_state\<lparr>offset := 13, stack := [\<lparr>entry_offset = 11, entry_tag = 0x11\<rparr>]\<rparr>"

text \<open>
  A unit at offset 0x1000 of \<open>.debug_info\<close> with one variable entry at 0x100b. Its
  abbreviation declares a \<open>DW_AT_type\<close> of form \<open>ref4\<close>, whose payload is 0x10, and a
  \<open>DW_AT_const_value\<close> of form \<open>indirect\<close>, which the stream resolves to \<open>udata\<close> 42.
\<close>

definition type_attr :: AttributeSpec where
  "type_attr = \<lparr>Attr = 0x49, Form = DW_FORM_ref4, ImplicitConst = None\<rparr>"

definition const_attr :: AttributeSpec where
  "const_attr = \<lparr>Attr = 0x1c, Form = DW_FORM_indirect, ImplicitConst = None\<rparr>"

definition typed_abbrevs :: "u32 \<Rightarrow> DWARFAbbreviationDeclaration option" where
  "typed_abbrevs code =
     (if code = 1
      then Some \<lparr>getTag = 0x34, hasChildren = False, attributes = [type_attr, const_attr]\<rparr>
      else None)"

definition typed_unit :: DWARFUnit where
  "typed_unit = \<lparr>getOffset = 0x1000, getHeaderSize = 11, getNextUnitOffset = 0x1012,
     getAbbreviations = Some typed_abbrevs, tryExtractDIEsIfNeeded = None\<rparr>"

definition ref4_value :: DWARFFormValue where
  "ref4_value = \<lparr>getForm = DW_FORM_ref4, getRawUValue = 0x10, getAsSectionOffset = None,
     getAsAddress = None, getAsBlock = None, getAsCString = None\<rparr>"

definition udata_value :: DWARFFormValue where
  "udata_value = \<lparr>getForm = DW_FORM_udata, getRawUValue = 42, getAsSectionOffset = None,
     getAsAddress = None, getAsBlock = None, getAsCString = None\<rparr>"

definition typed_sections :: dwarf_sections where
  "typed_sections = \<lparr>debug_info_present = True, debug_abbrev_present = True,
     debug_line_present = False, info_section_units = [typed_unit],
     getULEB128 = (\<lambda>off. if off = 0x100b then Some (1, 0x100c) else None),
     extractValue = (\<lambda>u form c off.
        if off = 0x100c \<and> form = DW_FORM_ref4 then Some (ref4_value, 0x1010)
        else if off = 0x1010 \<and> form = DW_FORM_indirect then Some (udata_value, 0x1012)
        else None),
     prologue_parse = (\<lambda>u off. None),
     LanguageString = (\<lambda>code. []),
     AttributeEncodingString = (\<lambda>code. [])\<rparr>"

definition typed_state :: UnitState where
  "typed_state = \<lparr>dwarf_unit = typed_unit, unit_abbrevs = typed_abbrevs, end_offset = 0x1012,
     offset = 0x100c, stack = [], unit_name = [], filename_table = None,
     filename_table_size = 0\<rparr>"

definition all_flags :: flags where
  "all_flags = \<lparr>need_name = True, need_linkage_name = True, need_decl_file = True,
     need_decl_line = True\<rparr>"

text \<open>
  A unit with a line table: the compile unit entry at offset 11 has a \<open>DW_AT_stmt_list\<close>
  (form \<open>sec_offset\<close>, value 0), its child at offset 16 a \<open>DW_AT_decl_file\<close> of form
  \<open>data1\<close> with raw value 0, and offset 18 holds the terminator. The prologue of the line
  table, of the version given, lists the files a.c and b.c.
\<close>

definition stmt_list_attr :: AttributeSpec where
  "stmt_list_attr = \<lparr>Attr = DW_AT_stmt_list, Form = DW_FORM_sec_offset, ImplicitConst = None\<rparr>"

definition decl_file_attr :: AttributeSpec where
  "decl_file_attr = \<lparr>Attr = DW_AT_decl_file, Form = DW_FORM_data1, ImplicitConst = None\<rparr>"

definition lines_abbrevs :: "u32 \<Rightarrow> DWARFAbbreviationDeclaration option" where
  "lines_abbrevs code =
     (if code = 1 then Some \<lparr>getTag = 0x11, hasChildren = True, attributes = [stmt_list_attr]\<rparr>
      else if code = 2 then Some \<lparr>getTag = 0x34, hasChildren = False, attributes = [decl_file_attr]\<rparr>
      else None)"

definition lines_unit :: DWARFUnit where
  "lines_unit = \<lparr>getOffset = 0, getHeaderSize = 11, getNextUnitOffset = 19,
     getAbbreviations = Some lines_abbrevs, tryExtractDIEsIfNeeded = None\<rparr>"

definition sec_offset_value :: DWARFFormValue where
  "sec_offset_value = \<lparr>getForm = DW_FORM_sec_offset, getRawUValue = 0,
     getAsSectionOffset = Some 0, getAsAddress = None, getAsBlock = None, getAsCString = None\<rparr>"

definition data1_value :: DWARFFormValue where
  "data1_value = \<lparr>getForm = DW_FORM_data1, getRawUValue = 0, getAsSectionOffset = None,
     getAsAddress = None, getAsBlock = None, getAsCString = None\<rparr>"

definition lines_prologue :: "u16 \<Rightarrow> Prologue" where
  "lines_prologue version = \<lparr>getVersion = version, FileNames = [Some ''a.c'', Some ''b.c'']\<rparr>"

definition lines_sections :: "u16 \<Rightarrow> dwarf_sections" where
  "lines_sections version = \<lparr>debug_info_present = True, debug_abbrev_present = True,
     debug_line_present = True, info_section_units = [lines_unit],
     getULEB128 = (\<lambda>off. if off = 11 then Some (1, 12) else if off = 16 then Some (2, 17)
                          else if off = 18 then Some (0, 19) else None),
     extractValue = (\<lambda>u form c off.
        if off = 12 \<and> form = DW_FORM_sec_offset then Some (sec_offset_value, 16)
        else if off = 17 \<and> form = DW_FORM_data1 then Some (data1_value, 18)
        else None),
     prologue_parse = (\<lambda>u off. if off = 0 then Some (lines_prologue version) else None),
     LanguageString = (\<lambda>code. []),
     AttributeEncodingString = (\<lambda>code. [])\<rparr>"

definition lines_state :: UnitState where
  "lines_state = \<lparr>dwarf_unit = lines_unit, unit_abbrevs = lines_abbrevs, end_offset = 19,
     offset = 11, stack = [], unit_name = [], filename_table = None, filename_table_size = 0\<rparr>"

text \<open>
  A unit whose only entry is 4 GiB long: one byte of abbreviation code at offset 11, then
  a \<open>DW_AT_const_value\<close> of form \<open>block\<close>, five bytes of length and 4294967290 bytes of
  data, up to the end of the unit at offset 11 + 4294967296.
\<close>

definition big_block_bytes :: string where
  "big_block_bytes = replicate 4294967290 (CHR 0x00)"

definition big_block_value :: DWARFFormValue where
  "big_block_value = \<lparr>getForm = DW_FORM_block, getRawUValue = 4294967290,
     getAsSectionOffset = None, getAsAddress = None, getAsBlock = Some big_block_bytes,
     getAsCString = None\<rparr>"

definition big_abbrevs :: "u32 \<Rightarrow> DWARFAbbreviationDeclaration option" where
  "big_abbrevs code =
     (if code = 1
      then Some \<lparr>getTag = 0x34, hasChildren = False,
                 attributes = [\<lparr>Attr = 0x1c, Form = DW_FORM_block, ImplicitConst = None\<rparr>]\<rparr>
      else None)"

definition big_unit :: DWARFUnit where
  "big_unit = \<lparr>getOffset = 0, getHeaderSize = 11, getNextUnitOffset = 4294967307,
     getAbbreviations = Some big_abbrevs, tryExtractDIEsIfNeeded = None\<rparr>"

definition big_sections :: dwarf_sections where
  "big_sections = \<lparr>debug_info_present = True, debug_abbrev_present = True,
     debug_line_present = False, info_section_units = [big_unit],
     getULEB128 = (\<lambda>off. if off = 11 then Some (1, 12) else None),
     extractValue = (\<lambda>u form c off.
        if off = 12 \<and> form = DW_FORM_block then Some (big_block_value, 4294967307) else None),
     prologue_parse = (\<lambda>u off. None),
     LanguageString = (\<lambda>code. []),
     AttributeEncodingString = (\<lambda>code. [])\<rparr>"

definition big_state :: UnitState where
  "big_state = \<lparr>dwarf_unit = big_unit, unit_abbrevs = big_abbrevs, end_offset = 4294967307,
     offset = 11, stack = [], unit_name = [], filename_table = None, filename_table_size = 0\<rparr>"

text \<open>
  Four units of twelve bytes, each an 11-byte header and one childless entry without
  attributes; the state of a format with two threads after its initialization, and its
  state when both threads have left their loops and the delivery queue holds the chunk
  of each unit.
\<close>

definition quad_abbrevs :: "u32 \<Rightarrow> DWARFAbbreviationDeclaration option" where
  "quad_abbrevs code =
     (if code = 1 then Some \<lparr>getTag = 0x11, hasChildren = False, attributes = []\<rparr> else None)"

definition quad_unit :: "u64 \<Rightarrow> DWARFUnit" where
  "quad_unit base = \<lparr>getOffset = base, getHeaderSize = 11, getNextUnitOffset = base + 12,
     getAbbreviations = Some quad_abbrevs, tryExtractDIEsIfNeeded = None\<rparr>"

definition quad_sections :: dwarf_sections where
  "quad_sections = \<lparr>debug_info_present = True, debug_abbrev_present = True,
     debug_line_present = False,
     info_section_units = [quad_unit 0, quad_unit 12, quad_unit 24, quad_unit 36],
     getULEB128 = (\<lambda>off. if off = 11 \<or> off = 23 \<or> off = 35 \<or> off = 47
                          then Some (1, off + 1) else None),
     extractValue = (\<lambda>u form c off. None),
     prologue_parse = (\<lambda>u off. None),
     LanguageString = (\<lambda>code. []),
     AttributeEncodingString = (\<lambda>code. [])\<rparr>"

definition quad_state :: "u64 \<Rightarrow> UnitState" where
  "quad_state base = \<lparr>dwarf_unit = quad_unit base, unit_abbrevs = quad_abbrevs,
     end_offset = base + 12, offset = base + 11, stack = [], unit_name = [],
     filename_table = None, filename_table_size = 0\<rparr>"

definition quad_chunk :: "u64 \<Rightarrow> Chunk" where
  "quad_chunk base = \<lparr>columns = [ColumnUInt64 [base + 11]], chunk_rows = 1\<rparr>"

definition quad_started :: format_state where
  "quad_started = \<lparr>elf = True,
     units_queue = [quad_state 0, quad_state 12, quad_state 24, quad_state 36],
     delivery_queue = [], units_in_progress = 0, is_stopped = False,
     background_exception = None, approx_bytes_read_for_chunk = 0, pool = [Ready, Ready]\<rparr>"

definition quad_full :: format_state where
  "quad_full = \<lparr>elf = True, units_queue = [],
     delivery_queue = [(quad_chunk 0, 1), (quad_chunk 12, 1), (quad_chunk 24, 1),
                       (quad_chunk 36, 1)],
     units_in_progress = 0, is_stopped = False,
     background_exception = None, approx_bytes_read_for_chunk = 0,
     pool = [Finished, Finished]\<rparr>"

text \<open>
  The state of the same format when the second thread alone has decoded three units and
  waits, and the first thread has not yet taken the mutex.
\<close>

definition quad_backlog :: format_state where
  "quad_backlog = \<lparr>elf = True, units_queue = [quad_state 36],
     delivery_queue = [(quad_chunk 0, 1), (quad_chunk 12, 1), (quad_chunk 24, 1)],
     units_in_progress = 0, is_stopped = False,
     background_exception = None, approx_bytes_read_for_chunk = 0,
     pool = [Ready, Waiting]\<rparr>"

text \<open>
  An image whose second unit has no abbreviation set: the constructor of its unit state
  throws while \<open>initializeIfNeeded\<close> fills the queue, after the first unit is enqueued.
\<close>

definition broken_unit :: DWARFUnit where
  "broken_unit = \<lparr>getOffset = 14, getHeaderSize = 11, getNextUnitOffset = 28,
     getAbbreviations = None, tryExtractDIEsIfNeeded = None\<rparr>"

definition broken_sections :: dwarf_sections where
  "broken_sections = demo_sections\<lparr>info_section_units := [demo_unit, broken_unit]\<rparr>"

text \<open>
  A format whose four chunks are undelivered when a thread of the pool has stored an
  exception.
\<close>

definition quad_failed :: format_state where
  "quad_failed = quad_full\<lparr>background_exception := Some (CANNOT_PARSE_DWARF ''Stack underflow''),
     units_in_progress := 1, pool := [Finished, Failed]\<rparr>"

text \<open>
  A unit with a version 5 line table that lists a.c and b.c (the table has size 2). The
  compile unit entry at offset 11 has the \<open>DW_AT_stmt_list\<close>; its first child, at offset
  16, has a \<open>DW_AT_decl_file\<close> of raw value 5, outside of the table; its second child, at
  offset 18, has two \<open>DW_AT_decl_file\<close> attributes, of raw values 5 and 0; offset 21
  holds the terminator.
\<close>

definition data1_five :: DWARFFormValue where
  "data1_five = \<lparr>getForm = DW_FORM_data1, getRawUValue = 5, getAsSectionOffset = None,
     getAsAddress = None, getAsBlock = None, getAsCString = None\<rparr>"

definition files_abbrevs :: "u32 \<Rightarrow> DWARFAbbreviationDeclaration option" where
  "files_abbrevs code =
     (if code = 1 then Some \<lparr>getTag = 0x11, hasChildren = True, attributes = [stmt_list_attr]\<rparr>
      else if code = 2 then Some \<lparr>getTag = 0x34, hasChildren = False, attributes = [decl_file_attr]\<rparr>
      else if code = 3
      then Some \<lparr>getTag = 0x34, hasChildren = False, attributes = [decl_file_attr, decl_file_attr]\<rparr>
      else None)"

definition files_unit :: DWARFUnit where
  "files_unit = \<lparr>getOffset = 0, getHeaderSize = 11, getNextUnitOffset = 22,
     getAbbreviations = Some files_abbrevs, tryExtractDIEsIfNeeded = None\<rparr>"

definition files_sections :: dwarf_sections where
  "files_sections = \<lparr>debug_info_present = True, debug_abbrev_present = True,
     debug_line_present = True, info_section_units = [files_unit],
     getULEB128 = (\<lambda>off. if off = 11 then Some (1, 12) else if off = 16 then Some (2, 17)
                          else if off = 18 then Some (3, 19)
                          else if off = 21 then Some (0, 22) else None),
     extractValue = (\<lambda>u form c off.
        if off = 12 \<and> form = DW_FORM_sec_offset then Some (sec_offset_value, 16)
        else if off = 17 \<and> form = DW_FORM_data1 then Some (data1_five, 18)
        else if off = 19 \<and> form = DW_FORM_data1 then Some (data1_five, 20)
        else if off = 20 \<and> form = DW_FORM_data1 then Some (data1_value, 21)
        else None),
     prologue_parse = (\<lambda>u off. if off = 0 then Some (lines_prologue 5) else None),
     LanguageString = (\<lambda>code. []),
     AttributeEncodingString = (\<lambda>code. [])\<rparr>"

definition files_state :: UnitState where
  "files_state = \<lparr>dwarf_unit = files_unit, unit_abbrevs = files_abbrevs, end_offset = 22,
     offset = 11, stack = [], unit_name = [], filename_table = None, filename_table_size = 0\<rparr>"

text \<open>The state of that unit at its second child, the table built.\<close>

definition files_state_at_second_child :: UnitState where
  "files_state_at_second_child =
     files_state\<lparr>offset := 18, stack := [\<lparr>entry_offset = 11, entry_tag = 0x11\<rparr>],
       filename_table := Some [[], ''a.c'', ''b.c''], filename_table_size := 2\<rparr>"

text \<open>
  A unit of 65538 entries of one byte each: the compile unit entry at offset 11, its
  65536 childless children at offsets 12 to 65547, and the terminator at offset 65548.
  The first chunk of the unit holds the 65536 entries from offset 11 to offset 65546;
  the second chunk holds the last child and the terminator.
\<close>

definition long_abbrevs :: "u32 \<Rightarrow> DWARFAbbreviationDeclaration option" where
  "long_abbrevs code =
     (if code = 1 then Some \<lparr>getTag = 0x11, hasChildren = True, attributes = []\<rparr>
      else if code = 2 then Some \<lparr>getTag = 0x34, hasChildren = False, attributes = []\<rparr>
      else None)"

definition long_unit :: DWARFUnit where
  "long_unit = \<lparr>getOffset = 0, getHeaderSize = 11, getNextUnitOffset = 65549,
     getAbbreviations = Some long_abbrevs, tryExtractDIEsIfNeeded = None\<rparr>"

definition long_sections :: dwarf_sections where
  "long_sections = \<lparr>debug_info_present = True, debug_abbrev_present = True,
     debug_line_present = False, info_section_units = [long_unit],
     getULEB128 = (\<lambda>off. if off = 11 then Some (1, 12)
                          else if 12 \<le> off \<and> off \<le> 65547 then Some (2, off + 1)
                          else if off = 65548 then Some (0, 65549) else None),
     extractValue = (\<lambda>u form c off. None),
     prologue_parse = (\<lambda>u off. None),
     LanguageString = (\<lambda>code. []),
     AttributeEncodingString = (\<lambda>code. [])\<rparr>"

definition long_state :: UnitState where
  "long_state = \<lparr>dwarf_unit = long_unit, unit_abbrevs = long_abbrevs, end_offset = 65549,
     offset = 11, stack = [], unit_name = [], filename_table = None, filename_table_size = 0\<rparr>"

text \<open>The state of that unit at a child: the compile unit entry is on the stack.\<close>

definition long_state_at :: "nat \<Rightarrow> UnitState" where
  "long_state_at pos =
     long_state\<lparr>offset := of_nat pos, stack := [\<lparr>entry_offset = 11, entry_tag = 0x11\<rparr>]\<rparr>"

definition long_chunk :: Chunk where
  "long_chunk = \<lparr>columns = [ColumnUInt64 (11 # map of_nat [12..<65547])], chunk_rows = 65536\<rparr>"

definition long_chunk_rest :: Chunk where
  "long_chunk_rest = \<lparr>columns = [ColumnUInt64 [65547, 65548]], chunk_rows = 2\<rparr>"

text \<open>
  The format with two threads on the image of that unit, when the first thread has taken
  the unit from the queue.
\<close>

definition long_parsing :: format_state where
  "long_parsing = \<lparr>elf = True, units_queue = [], delivery_queue = [], units_in_progress = 1,
     is_stopped = False, background_exception = None, approx_bytes_read_for_chunk = 0,
     pool = [Parsing long_state, Ready]\<rparr>"

section \<open>Lemmas about the decoder\<close>

lemma ins_simps [simp]: "ins False v = []" "ins True v = [v]"
  by (simp_all add: ins_def)

lemma length_ins: "length (ins c v) = (if c then 1 else 0)"
  by (simp add: ins_def)

lemma owner_needed_need_columns: "owner_needed (need_columns header)"
  by (simp add: owner_needed_def need_columns_def Let_def)

text \<open>What one projection does to the builders, the flags and the unit.\<close>

lemma project_integer_cols:
  assumes "project_integer env need attr val unit (b, fl) = Inr (b', fl')"
  shows "row_columns b' = row_columns b \<and>
    col_attr_name b' = col_attr_name b \<and> col_attr_form b' = col_attr_form b \<and>
    col_attr_int b' = col_attr_int b @ ins (need COL_ATTR_INT) (getRawUValue val) \<and>
    col_attr_str b' = col_attr_str b @ ins (need COL_ATTR_STR)
       (if (Attr attr = DW_AT_decl_file \<or> Attr attr = DW_AT_call_file) \<and>
           unat (getRawUValue val) < filename_table_size unit
        then (case getDataAt (filename_table unit) (unat (getRawUValue val + 1)) of
                None \<Rightarrow> [] | Some data \<Rightarrow> data)
        else if Attr attr = DW_AT_language
        then removePrefix (LanguageString env (ucast (getRawUValue val))) (length ''DW_LANG_'')
        else if Attr attr = DW_AT_encoding
        then removePrefix (AttributeEncodingString env (ucast (getRawUValue val))) (length ''DW_ATE_'')
        else []) \<and>
    col_decl_file b' = col_decl_file b @
       ins (((Attr attr = DW_AT_decl_file \<or> Attr attr = DW_AT_call_file) \<and>
             unat (getRawUValue val) < filename_table_size unit) \<and>
            Attr attr = DW_AT_decl_file \<and> need_decl_file fl) (getRawUValue val + 1) \<and>
    need_decl_file fl' = (need_decl_file fl \<and>
       \<not> (((Attr attr = DW_AT_decl_file \<or> Attr attr = DW_AT_call_file) \<and>
             unat (getRawUValue val) < filename_table_size unit) \<and> Attr attr = DW_AT_decl_file))"
proof -
  define tab where "tab = ((Attr attr = DW_AT_decl_file \<or> Attr attr = DW_AT_call_file) \<and>
               unat (getRawUValue val) < filename_table_size unit)"
  define entry where "entry = getDataAt (filename_table unit) (unat (getRawUValue val + 1))"
  note run = assms [unfolded project_integer_def Let_def fst_conv snd_conv, folded tab_def entry_def]
  have "row_columns b' = row_columns b \<and>
    col_attr_name b' = col_attr_name b \<and> col_attr_form b' = col_attr_form b \<and>
    col_attr_int b' = col_attr_int b @ ins (need COL_ATTR_INT) (getRawUValue val) \<and>
    col_attr_str b' = col_attr_str b @ ins (need COL_ATTR_STR)
       (if tab then (case entry of None \<Rightarrow> [] | Some data \<Rightarrow> data)
        else if Attr attr = DW_AT_language
        then removePrefix (LanguageString env (ucast (getRawUValue val))) (length ''DW_LANG_'')
        else if Attr attr = DW_AT_encoding
        then removePrefix (AttributeEncodingString env (ucast (getRawUValue val))) (length ''DW_ATE_'')
        else []) \<and>
    col_decl_file b' = col_decl_file b @
       ins (tab \<and> Attr attr = DW_AT_decl_file \<and> need_decl_file fl) (getRawUValue val + 1) \<and>
    need_decl_file fl' = (need_decl_file fl \<and> \<not> (tab \<and> Attr attr = DW_AT_decl_file))"
  proof (cases tab)
    case False
    with run show ?thesis by (auto simp: Let_def row_columns_def split: if_splits)
  next
    case True
    show ?thesis
    proof (cases "need COL_ATTR_STR")
      case False
      with True run show ?thesis by (auto simp: Let_def row_columns_def split: if_splits)
    next
      case str: True
      show ?thesis
      proof (cases entry)
        case None
        with True str run show ?thesis by (simp add: Let_def)
      next
        case (Some data)
        with True str run show ?thesis by (auto simp: Let_def row_columns_def split: if_splits)
      qed
    qed
  qed
  then show ?thesis unfolding tab_def entry_def .
qed

lemma project_string_cols:
  assumes "project_string need tag attr val (unit, b, fl) = Inr (unit', b', fl')"
  shows "row_columns b' = row_columns b \<and>
    col_attr_name b' = col_attr_name b \<and> col_attr_form b' = col_attr_form b \<and>
    col_attr_int b' = col_attr_int b @ ins (need COL_ATTR_INT) 0 \<and>
    col_attr_str b' = col_attr_str b @ ins (need COL_ATTR_STR)
       (case getAsCString val of None \<Rightarrow> [] | Some s \<Rightarrow> s) \<and>
    col_decl_file b' = col_decl_file b \<and> need_decl_file fl' = need_decl_file fl \<and>
    unit_frame unit' = unit_frame unit \<and> offset unit' = offset unit \<and>
    filename_table unit' = filename_table unit \<and>
    filename_table_size unit' = filename_table_size unit"
  using assms
  by (auto simp: project_string_def row_columns_def unit_frame_def Let_def
      split: if_splits option.splits)

lemma form_classes:
  "form \<in> set integer_forms \<Longrightarrow> projection_class form = IntegerClass"
  "form \<notin> set integer_forms \<Longrightarrow> form \<in> set address_forms \<Longrightarrow> projection_class form = AddressClass"
  "form \<notin> set integer_forms \<Longrightarrow> form \<notin> set address_forms \<Longrightarrow> form \<in> set block_forms
     \<Longrightarrow> projection_class form = BlockClass"
  "form \<notin> set integer_forms \<Longrightarrow> form \<notin> set address_forms \<Longrightarrow> form \<notin> set block_forms
     \<Longrightarrow> form \<in> set string_forms \<Longrightarrow> projection_class form = StringClass"
  "form \<notin> set integer_forms \<Longrightarrow> form \<notin> set address_forms \<Longrightarrow> form \<notin> set block_forms
     \<Longrightarrow> form \<notin> set string_forms \<Longrightarrow> form \<in> set reference_forms
     \<Longrightarrow> projection_class form = ReferenceClass"
  "form \<notin> set integer_forms \<Longrightarrow> form \<notin> set address_forms \<Longrightarrow> form \<notin> set block_forms
     \<Longrightarrow> form \<notin> set string_forms \<Longrightarrow> form \<notin> set reference_forms
     \<Longrightarrow> projection_class form = OtherClass"
  by (simp_all add: projection_class_def)

lemma project_value_cols:
  assumes "project_value env need tag attr val (unit, b, fl) = Inr (unit', b', fl')"
  shows "row_columns b' = row_columns b \<and>
    col_attr_name b' = col_attr_name b \<and> col_attr_form b' = col_attr_form b \<and>
    col_attr_int b' = col_attr_int b @ ins (need COL_ATTR_INT) (spec_attr_int (dwarf_unit unit) val) \<and>
    col_attr_str b' = col_attr_str b @ ins (need COL_ATTR_STR) (spec_attr_str env unit (Attr attr) val) \<and>
    col_decl_file b' = col_decl_file b @
       ins (getForm val \<in> set integer_forms \<and> Attr attr = DW_AT_decl_file \<and>
            unat (getRawUValue val) < filename_table_size unit \<and> need_decl_file fl)
           (getRawUValue val + 1) \<and>
    need_decl_file fl' = (need_decl_file fl \<and>
       \<not> (getForm val \<in> set integer_forms \<and> Attr attr = DW_AT_decl_file \<and>
            unat (getRawUValue val) < filename_table_size unit)) \<and>
    unit_frame unit' = unit_frame unit \<and> offset unit' = offset unit \<and>
    filename_table unit' = filename_table unit \<and>
    filename_table_size unit' = filename_table_size unit"
proof -
  consider (i) "getForm val \<in> set integer_forms"
    | (a) "getForm val \<notin> set integer_forms" "getForm val \<in> set address_forms"
    | (b) "getForm val \<notin> set integer_forms" "getForm val \<notin> set address_forms"
          "getForm val \<in> set block_forms"
    | (s) "getForm val \<notin> set integer_forms" "getForm val \<notin> set address_forms"
          "getForm val \<notin> set block_forms" "getForm val \<in> set string_forms"
    | (r) "getForm val \<notin> set integer_forms" "getForm val \<notin> set address_forms"
          "getForm val \<notin> set block_forms" "getForm val \<notin> set string_forms"
          "getForm val \<in> set reference_forms"
    | (d) "getForm val \<notin> set integer_forms" "getForm val \<notin> set address_forms"
          "getForm val \<notin> set block_forms" "getForm val \<notin> set string_forms"
          "getForm val \<notin> set reference_forms"
    by blast
  then show ?thesis
  proof cases
    case i
    with assms have "project_integer env need attr val unit (b, fl) = Inr (b', fl')" "unit' = unit"
      by (auto simp: project_value_def split: sum.splits)
    then show ?thesis using project_integer_cols[of env need attr val unit b fl b' fl'] i
      by (cases "Attr attr = DW_AT_decl_file";
          cases "unat (getRawUValue val) < filename_table_size unit")
         (simp_all add: spec_attr_int_def spec_attr_str_def form_classes)
  next
    case a
    with assms show ?thesis
      by (auto simp: project_value_def project_address_def row_columns_def
          spec_attr_int_def spec_attr_str_def form_classes)
  next
    case b
    with assms show ?thesis
      by (auto simp: project_value_def project_block_def row_columns_def Let_def
          spec_attr_int_def spec_attr_str_def form_classes)
  next
    case s
    with assms have "project_string need tag attr val (unit, b, fl) = Inr (unit', b', fl')"
      by (simp add: project_value_def)
    then show ?thesis using project_string_cols[of need tag attr val unit b fl unit' b' fl'] s
      by (simp add: spec_attr_int_def spec_attr_str_def form_classes)
  next
    case r
    with assms show ?thesis
      by (auto simp: project_value_def project_reference_def row_columns_def
          spec_attr_int_def spec_attr_str_def form_classes)
  next
    case d
    with assms show ?thesis
      by (auto simp: project_value_def project_default_def row_columns_def
          spec_attr_int_def spec_attr_str_def form_classes)
  qed
qed

lemma parseFilenameTable_frame:
  assumes "parseFilenameTable env unit off = Inr unit'"
  shows "unit_frame unit' = unit_frame unit \<and> offset unit' = offset unit"
  using assms
  by (auto simp: parseFilenameTable_def unit_frame_def Let_def split: if_splits option.splits)

text \<open>
  One attribute: the name and the declared form are appended, the value is projected by
  its extracted form on the unit as it is after the filename table was built (if this is
  the attribute that builds it), and the cursor is where the extraction left it.
\<close>

lemma parse_attribute_cols:
  assumes "parse_attribute env need tag attr (unit, b, fl) = Inr (unit', b', fl')"
  shows "\<exists>val. extractValue env (dwarf_unit unit) (Form attr)
            (case ImplicitConst attr of Some c \<Rightarrow> c | None \<Rightarrow> 0) (offset unit) = Some (val, offset unit') \<and>
    row_columns b' = row_columns b \<and>
    col_attr_name b' = col_attr_name b @ ins (need COL_ATTR_NAME) (Attr attr) \<and>
    col_attr_form b' = col_attr_form b @ ins (need COL_ATTR_FORM) (Form attr) \<and>
    col_attr_int b' = col_attr_int b @ ins (need COL_ATTR_INT) (spec_attr_int (dwarf_unit unit) val) \<and>
    col_attr_str b' = col_attr_str b @ ins (need COL_ATTR_STR) (spec_attr_str env unit' (Attr attr) val) \<and>
    col_decl_file b' = col_decl_file b @
       ins (getForm val \<in> set integer_forms \<and> Attr attr = DW_AT_decl_file \<and>
            unat (getRawUValue val) < filename_table_size unit' \<and> need_decl_file fl)
           (getRawUValue val + 1) \<and>
    need_decl_file fl' = (need_decl_file fl \<and>
       \<not> (getForm val \<in> set integer_forms \<and> Attr attr = DW_AT_decl_file \<and>
            unat (getRawUValue val) < filename_table_size unit')) \<and>
    unit_frame unit' = unit_frame unit \<and>
    (Attr attr \<noteq> DW_AT_stmt_list \<longrightarrow>
       filename_table unit' = filename_table unit \<and>
       filename_table_size unit' = filename_table_size unit)"
proof -
  from assms obtain val pos where
    ex: "extractValue env (dwarf_unit unit) (Form attr)
            (case ImplicitConst attr of Some c \<Rightarrow> c | None \<Rightarrow> 0) (offset unit) = Some (val, pos)"
    by (auto simp: parse_attribute_def split: option.splits)
  define b1 where "b1 = b\<lparr>col_attr_name := col_attr_name b @ ins (need COL_ATTR_NAME) (Attr attr),
     col_attr_form := col_attr_form b @ ins (need COL_ATTR_FORM) (Form attr)\<rparr>"
  from assms ex obtain u1 where
    u1: "(if Attr attr = DW_AT_stmt_list \<and> filename_table unit = None
          then (case getAsSectionOffset val of
                  Some off \<Rightarrow> parseFilenameTable env (unit\<lparr>offset := pos\<rparr>) off
                | None \<Rightarrow> Inr (unit\<lparr>offset := pos\<rparr>))
          else Inr (unit\<lparr>offset := pos\<rparr>)) = Inr u1"
    and pv: "project_value env need tag attr val (u1, b1, fl) = Inr (unit', b', fl')"
    by (auto simp: parse_attribute_def Let_def b1_def split: sum.splits)
  from u1 have f1: "unit_frame u1 = unit_frame unit \<and> offset u1 = pos"
    by (auto simp: unit_frame_def split: if_splits option.splits dest: parseFilenameTable_frame)
  then have du: "dwarf_unit u1 = dwarf_unit unit" by (simp add: unit_frame_def)
  from u1 have keep: "Attr attr \<noteq> DW_AT_stmt_list \<longrightarrow>
      filename_table u1 = filename_table unit \<and> filename_table_size u1 = filename_table_size unit"
    by auto
  note pvc = project_value_cols[OF pv]
  have tab: "spec_attr_str env u1 (Attr attr) val = spec_attr_str env unit' (Attr attr) val"
    using pvc by (simp only: spec_attr_str_def)
  have sz: "filename_table_size u1 = filename_table_size unit'"
    and tb: "filename_table u1 = filename_table unit'"
    using pvc by simp_all
  have b1s: "row_columns b1 = row_columns b" "col_attr_int b1 = col_attr_int b"
    "col_attr_str b1 = col_attr_str b" "col_decl_file b1 = col_decl_file b"
    "col_attr_name b1 = col_attr_name b @ ins (need COL_ATTR_NAME) (Attr attr)"
    "col_attr_form b1 = col_attr_form b @ ins (need COL_ATTR_FORM) (Form attr)"
    by (simp_all add: b1_def row_columns_def)
  show ?thesis
    apply (rule exI [of _ val])
    using ex pvc f1 keep
    apply (simp only: b1s du tab sz tb)
    done
qed

lemmas DW_FORM_defs =
  DW_FORM_addr_def DW_FORM_block2_def DW_FORM_block4_def DW_FORM_data2_def DW_FORM_data4_def
  DW_FORM_data8_def DW_FORM_string_def DW_FORM_block_def DW_FORM_block1_def DW_FORM_data1_def
  DW_FORM_flag_def DW_FORM_sdata_def DW_FORM_strp_def DW_FORM_udata_def DW_FORM_ref_addr_def
  DW_FORM_ref1_def DW_FORM_ref2_def DW_FORM_ref4_def DW_FORM_ref8_def DW_FORM_ref_udata_def
  DW_FORM_indirect_def DW_FORM_sec_offset_def DW_FORM_exprloc_def DW_FORM_flag_present_def
  DW_FORM_strx_def DW_FORM_addrx_def DW_FORM_ref_sup4_def DW_FORM_strp_sup_def
  DW_FORM_data16_def DW_FORM_line_strp_def DW_FORM_ref_sig8_def DW_FORM_implicit_const_def
  DW_FORM_loclistx_def DW_FORM_rnglistx_def DW_FORM_ref_sup8_def DW_FORM_strx1_def
  DW_FORM_strx2_def DW_FORM_strx3_def DW_FORM_strx4_def DW_FORM_addrx1_def DW_FORM_addrx2_def
  DW_FORM_addrx3_def DW_FORM_addrx4_def DW_FORM_GNU_addr_index_def DW_FORM_GNU_str_index_def
  DW_FORM_GNU_ref_alt_def DW_FORM_GNU_strp_alt_def DW_FORM_LLVM_addrx_offset_def

lemmas form_list_defs =
  integer_forms_def address_forms_def block_forms_def string_forms_def reference_forms_def
  unit_relative_forms_def

lemmas DW_AT_defs =
  DW_AT_name_def DW_AT_stmt_list_def DW_AT_language_def DW_AT_decl_file_def
  DW_AT_decl_line_def DW_AT_encoding_def DW_AT_call_file_def DW_AT_linkage_name_def

lemma reference_forms_class:
  "form \<in> set reference_forms \<Longrightarrow> projection_class form = ReferenceClass"
  by (auto simp: projection_class_def form_list_defs DW_FORM_defs)

lemma getAsReference_reference_forms:
  "getForm val \<in> set reference_forms \<Longrightarrow>
   getAsReference u val =
     Some (if getForm val \<in> set unit_relative_forms then getOffset u + getRawUValue val
           else getRawUValue val)"
  by (simp add: getAsReference_def)

lemma typed_run:
  "parse_attribute typed_sections (need_columns [COL_ATTR_INT, COL_ATTR_STR]) 0x34 type_attr
     (typed_state, empty_builders, all_flags) =
   Inr (typed_state\<lparr>offset := 0x1010\<rparr>,
        empty_builders\<lparr>col_attr_name := [0x49], col_attr_int := [0x1010], col_attr_str := [[]]\<rparr>,
        all_flags)"
  by (simp add: parse_attribute_def project_value_def project_reference_def typed_sections_def
      typed_state_def type_attr_def ref4_value_def need_columns_def empty_builders_def
      getAsReference_def typed_unit_def form_list_defs DW_FORM_defs DW_AT_defs)


lemma indirect_run:
  "parse_attribute typed_sections (need_columns [COL_ATTR_FORM, COL_ATTR_INT, COL_ATTR_STR]) 0x34
     const_attr (typed_state\<lparr>offset := 0x1010\<rparr>, empty_builders, all_flags) =
   Inr (typed_state\<lparr>offset := 0x1012\<rparr>,
        empty_builders\<lparr>col_attr_name := [0x1c], col_attr_form := [DW_FORM_indirect],
          col_attr_int := [42], col_attr_str := [[]]\<rparr>,
        all_flags)"
  by (simp add: parse_attribute_def project_value_def project_integer_def typed_sections_def
      typed_state_def const_attr_def udata_value_def need_columns_def empty_builders_def
      all_flags_def Let_def form_list_defs DW_FORM_defs DW_AT_defs)

lemma parseFilenameTable_table:
  assumes "parseFilenameTable env unit0 off = Inr unit1"
  shows "\<exists>prologue. prologue_parse env (dwarf_unit unit0) off = Some prologue \<and>
     filename_table unit1 =
       Some ([] # (if getVersion prologue \<le> 4 then [[]] else []) @
             map (\<lambda>entry. case entry of None \<Rightarrow> ''<error>'' | Some c_str \<Rightarrow> c_str)
               (FileNames prologue)) \<and>
     filename_table_size unit1 =
       (if getVersion prologue \<le> 4 then 1 else 0) + length (FileNames prologue)"
  using assms
  by (auto simp: parseFilenameTable_def Let_def split: if_splits option.splits)

lemmas lines_defs = lines_sections_def lines_state_def lines_abbrevs_def lines_unit_def
  lines_prologue_def stmt_list_attr_def decl_file_attr_def sec_offset_value_def data1_value_def

lemmas decoder_defs = parse_die_def parse_null_entry_def parse_real_entry_def
  parse_attribute_def project_value_def project_integer_def project_address_def
  project_block_def project_string_def project_reference_def project_default_def
  parseFilenameTable_def getDataAt_def eof_def Let_def

lemma parse_attribute_step:
  assumes "parse_attribute env need tag attr (unit, b, fl) = Inr (unit', b', fl')"
  shows "row_columns b' = row_columns b \<and> unit_frame unit' = unit_frame unit \<and>
    length (col_attr_name b') = length (col_attr_name b) + (if need COL_ATTR_NAME then 1 else 0) \<and>
    length (col_attr_form b') = length (col_attr_form b) + (if need COL_ATTR_FORM then 1 else 0) \<and>
    length (col_attr_int b') = length (col_attr_int b) + (if need COL_ATTR_INT then 1 else 0) \<and>
    length (col_attr_str b') = length (col_attr_str b) + (if need COL_ATTR_STR then 1 else 0) \<and>
    (extractor_advances env \<longrightarrow> offset unit \<le> offset unit') \<and>
    (Attr attr \<noteq> DW_AT_stmt_list \<longrightarrow>
       filename_table unit' = filename_table unit \<and>
       filename_table_size unit' = filename_table_size unit) \<and>
    (Attr attr \<noteq> DW_AT_stmt_list \<and> filename_table_size unit = 0 \<longrightarrow>
       col_decl_file b' = col_decl_file b \<and> need_decl_file fl' = need_decl_file fl)"
proof -
  from parse_attribute_cols [OF assms] obtain val where
    v: "extractValue env (dwarf_unit unit) (Form attr)
            (case ImplicitConst attr of Some c \<Rightarrow> c | None \<Rightarrow> 0) (offset unit) = Some (val, offset unit')"
    and c: "row_columns b' = row_columns b"
      "col_attr_name b' = col_attr_name b @ ins (need COL_ATTR_NAME) (Attr attr)"
      "col_attr_form b' = col_attr_form b @ ins (need COL_ATTR_FORM) (Form attr)"
      "col_attr_int b' = col_attr_int b @ ins (need COL_ATTR_INT) (spec_attr_int (dwarf_unit unit) val)"
      "col_attr_str b' = col_attr_str b @ ins (need COL_ATTR_STR) (spec_attr_str env unit' (Attr attr) val)"
      "unit_frame unit' = unit_frame unit"
    and d: "col_decl_file b' = col_decl_file b @
       ins (getForm val \<in> set integer_forms \<and> Attr attr = DW_AT_decl_file \<and>
            unat (getRawUValue val) < filename_table_size unit' \<and> need_decl_file fl)
           (getRawUValue val + 1)"
      "need_decl_file fl' = (need_decl_file fl \<and>
       \<not> (getForm val \<in> set integer_forms \<and> Attr attr = DW_AT_decl_file \<and>
            unat (getRawUValue val) < filename_table_size unit'))"
    and k: "Attr attr \<noteq> DW_AT_stmt_list \<longrightarrow>
       filename_table unit' = filename_table unit \<and>
       filename_table_size unit' = filename_table_size unit"
    by blast
  have adv: "extractor_advances env \<longrightarrow> offset unit \<le> offset unit'"
    using v unfolding extractor_advances_def by blast
  have z: "Attr attr \<noteq> DW_AT_stmt_list \<and> filename_table_size unit = 0 \<longrightarrow>
       col_decl_file b' = col_decl_file b \<and> need_decl_file fl' = need_decl_file fl"
    using d k by auto
  show ?thesis using c adv k z by (simp add: length_ins)
qed

lemma parse_attributes_step:
  assumes "parse_attributes env need tag attrs (unit, b, fl) = Inr (unit', b', fl')"
  shows "row_columns b' = row_columns b \<and> unit_frame unit' = unit_frame unit \<and>
    length (col_attr_name b') = length (col_attr_name b) + (if need COL_ATTR_NAME then length attrs else 0) \<and>
    length (col_attr_form b') = length (col_attr_form b) + (if need COL_ATTR_FORM then length attrs else 0) \<and>
    length (col_attr_int b') = length (col_attr_int b) + (if need COL_ATTR_INT then length attrs else 0) \<and>
    length (col_attr_str b') = length (col_attr_str b) + (if need COL_ATTR_STR then length attrs else 0) \<and>
    (extractor_advances env \<longrightarrow> offset unit \<le> offset unit') \<and>
    ((\<forall>a \<in> set attrs. Attr a \<noteq> DW_AT_stmt_list) \<longrightarrow>
       filename_table unit' = filename_table unit \<and>
       filename_table_size unit' = filename_table_size unit) \<and>
    ((\<forall>a \<in> set attrs. Attr a \<noteq> DW_AT_stmt_list) \<and> filename_table_size unit = 0 \<longrightarrow>
       col_decl_file b' = col_decl_file b \<and> need_decl_file fl' = need_decl_file fl)"
  using assms
proof (induction attrs arbitrary: unit b fl)
  case Nil
  then show ?case by simp
next
  case (Cons a attrs)
  from Cons.prems obtain u1 b1 fl1 where
    one: "parse_attribute env need tag a (unit, b, fl) = Inr (u1, b1, fl1)"
    and more: "parse_attributes env need tag attrs (u1, b1, fl1) = Inr (unit', b', fl')"
    by (auto split: sum.splits)
  note s1 = parse_attribute_step [OF one]
  note s2 = Cons.IH [OF more]
  show ?case
    using s1 s2 by (simp (no_asm_simp)) (metis order_trans)
qed


lemma parse_null_entry_step:
  assumes "parse_null_entry need unit die_offset b = Inr (unit', b')"
  shows "col_offset b' = col_offset b \<and>
    col_size b' = col_size b @ ins (need COL_SIZE) (ucast (offset unit - die_offset)) \<and>
    unit_frame unit' = (butlast (stack unit), end_offset unit, dwarf_unit unit, unit_abbrevs unit) \<and>
    offset unit' = offset unit \<and>
    filename_table unit' = filename_table unit \<and>
    filename_table_size unit' = filename_table_size unit \<and>
    col_attr_offsets b' = col_attr_offsets b @ ins (need COL_ATTR_NAME) (length (col_attr_name b)) \<and>
    col_attr_name b' = col_attr_name b \<and> col_attr_form b' = col_attr_form b \<and>
    col_attr_int b' = col_attr_int b \<and> col_attr_str b' = col_attr_str b \<and>
    col_ancestor_tags b' = col_ancestor_tags b \<and>
    col_ancestor_dwarf_offsets b' = col_ancestor_dwarf_offsets b \<and>
    col_ancestor_array_offsets b' = col_ancestor_array_offsets b \<and>
    col_decl_file b' = col_decl_file b @ ins (need COL_DECL_FILE) 0"
  using assms
  by (auto simp: parse_null_entry_def Let_def unit_frame_def split: if_splits)

lemma parse_real_entry_step:
  assumes "parse_real_entry env need unit die_offset abbrev_code b = Inr (unit', b')"
  shows "col_offset b' = col_offset b \<and>
    col_size b' = col_size b @ ins (need COL_SIZE) (ucast (offset unit' - die_offset)) \<and>
    end_offset unit' = end_offset unit \<and> dwarf_unit unit' = dwarf_unit unit \<and>
    unit_abbrevs unit' = unit_abbrevs unit \<and>
    col_attr_offsets b' = col_attr_offsets b @ ins (need COL_ATTR_NAME) (length (col_attr_name b')) \<and>
    (\<exists>n. length (col_attr_name b') = length (col_attr_name b) + (if need COL_ATTR_NAME then n else 0) \<and>
         length (col_attr_form b') = length (col_attr_form b) + (if need COL_ATTR_FORM then n else 0) \<and>
         length (col_attr_int b') = length (col_attr_int b) + (if need COL_ATTR_INT then n else 0) \<and>
         length (col_attr_str b') = length (col_attr_str b) + (if need COL_ATTR_STR then n else 0)) \<and>
    col_ancestor_tags b' = col_ancestor_tags b \<and>
    col_ancestor_dwarf_offsets b' = col_ancestor_dwarf_offsets b \<and>
    col_ancestor_array_offsets b' = col_ancestor_array_offsets b \<and>
    (extractor_advances env \<longrightarrow> offset unit \<le> offset unit') \<and>
    (no_stmt_list unit \<and> filename_table_size unit = 0 \<longrightarrow>
       filename_table unit' = filename_table unit \<and> filename_table_size unit' = 0 \<and>
       col_decl_file b' = col_decl_file b @ ins (need COL_DECL_FILE) 0)"
proof -
  from assms obtain abbrev where
    ab: "unit_abbrevs unit (ucast abbrev_code) = Some abbrev"
    by (auto simp: parse_real_entry_def split: option.splits)
  define b1 where "b1 = b\<lparr>col_tag := col_tag b @ ins (need COL_TAG) (getTag abbrev)\<rparr>"
  define fl where "fl = \<lparr>need_name = need COL_NAME, need_linkage_name = need COL_LINKAGE_NAME,
                       need_decl_file = need COL_DECL_FILE, need_decl_line = need COL_DECL_LINE\<rparr>"
  from assms ab obtain u2 b2 fl2 where
    at: "parse_attributes env need (getTag abbrev) (attributes abbrev) (unit, b1, fl) = Inr (u2, b2, fl2)"
    by (auto simp: parse_real_entry_def Let_def b1_def fl_def split: if_splits sum.splits)
  define b3 where "b3 = b2\<lparr>col_size := col_size b2 @ ins (need COL_SIZE) (ucast (offset u2 - die_offset))\<rparr>"
  define b4 where "b4 = b3\<lparr>col_attr_offsets := col_attr_offsets b3 @
                                ins (need COL_ATTR_NAME) (length (col_attr_name b3))\<rparr>"
  from assms ab at have res:
    "b' = b4\<lparr>col_name := col_name b4 @ ins (need_name fl2) [],
            col_linkage_name := col_linkage_name b4 @ ins (need_linkage_name fl2) [],
            col_decl_file := col_decl_file b4 @ ins (need_decl_file fl2) 0,
            col_decl_line := col_decl_line b4 @ ins (need_decl_line fl2) 0\<rparr>"
    and ures: "unit' = (if hasChildren abbrev
                 then u2\<lparr>stack := stack u2 @ [\<lparr>entry_offset = die_offset, entry_tag = getTag abbrev\<rparr>]\<rparr>
                 else u2)"
    by (auto simp: parse_real_entry_def Let_def b1_def fl_def b3_def b4_def split: if_splits)
  note st = parse_attributes_step [OF at]
  have nsl: "no_stmt_list unit \<longrightarrow> (\<forall>a \<in> set (attributes abbrev). Attr a \<noteq> DW_AT_stmt_list)"
    using ab unfolding no_stmt_list_def by blast
  have rc: "row_columns b2 = row_columns b1" using st by simp
  have uf: "unit_frame u2 = unit_frame unit" using st by simp
  have off: "offset unit' = offset u2" using ures by simp
  have "col_offset b' = col_offset b" "col_ancestor_tags b' = col_ancestor_tags b"
    "col_ancestor_dwarf_offsets b' = col_ancestor_dwarf_offsets b"
    "col_ancestor_array_offsets b' = col_ancestor_array_offsets b"
    "col_size b' = col_size b @ ins (need COL_SIZE) (ucast (offset unit' - die_offset))"
    "col_attr_offsets b' = col_attr_offsets b @ ins (need COL_ATTR_NAME) (length (col_attr_name b'))"
    using rc off by (simp_all add: res b4_def b3_def b1_def row_columns_def)
  moreover have "end_offset unit' = end_offset unit" "dwarf_unit unit' = dwarf_unit unit"
    "unit_abbrevs unit' = unit_abbrevs unit"
    using uf by (simp_all add: ures unit_frame_def)
  moreover have "\<exists>n. length (col_attr_name b') = length (col_attr_name b) + (if need COL_ATTR_NAME then n else 0) \<and>
         length (col_attr_form b') = length (col_attr_form b) + (if need COL_ATTR_FORM then n else 0) \<and>
         length (col_attr_int b') = length (col_attr_int b) + (if need COL_ATTR_INT then n else 0) \<and>
         length (col_attr_str b') = length (col_attr_str b) + (if need COL_ATTR_STR then n else 0)"
    using st by (intro exI [of _ "length (attributes abbrev)"]) (simp add: res b4_def b3_def b1_def)
  moreover have "extractor_advances env \<longrightarrow> offset unit \<le> offset unit'"
    using st off by simp
  moreover have "no_stmt_list unit \<and> filename_table_size unit = 0 \<longrightarrow>
       filename_table unit' = filename_table unit \<and> filename_table_size unit' = 0 \<and>
       col_decl_file b' = col_decl_file b @ ins (need COL_DECL_FILE) 0"
  proof
    assume a: "no_stmt_list unit \<and> filename_table_size unit = 0"
    with nsl st have "filename_table u2 = filename_table unit"
      "filename_table_size u2 = filename_table_size unit"
      "col_decl_file b2 = col_decl_file b1" "need_decl_file fl2 = need_decl_file fl"
      by simp_all
    with a show "filename_table unit' = filename_table unit \<and> filename_table_size unit' = 0 \<and>
       col_decl_file b' = col_decl_file b @ ins (need COL_DECL_FILE) 0"
      by (simp add: ures res b4_def b3_def b1_def fl_def)
  qed
  ultimately show ?thesis by blast
qed

lemma parse_die_step:
  assumes "parse_die env need unit b = Inr (unit', b')"
  shows "col_offset b' = col_offset b @ ins (need COL_OFFSET) (offset unit) \<and>
    col_size b' = col_size b @ ins (need COL_SIZE) (ucast (offset unit' - offset unit)) \<and>
    end_offset unit' = end_offset unit \<and> dwarf_unit unit' = dwarf_unit unit \<and>
    unit_abbrevs unit' = unit_abbrevs unit \<and>
    col_attr_offsets b' = col_attr_offsets b @ ins (need COL_ATTR_NAME) (length (col_attr_name b')) \<and>
    (\<exists>n. length (col_attr_name b') = length (col_attr_name b) + (if need COL_ATTR_NAME then n else 0) \<and>
         length (col_attr_form b') = length (col_attr_form b) + (if need COL_ATTR_FORM then n else 0) \<and>
         length (col_attr_int b') = length (col_attr_int b) + (if need COL_ATTR_INT then n else 0) \<and>
         length (col_attr_str b') = length (col_attr_str b) + (if need COL_ATTR_STR then n else 0)) \<and>
    col_ancestor_array_offsets b' = col_ancestor_array_offsets b @
       ins (need COL_ANCESTOR_TAGS) (length (col_ancestor_tags b')) \<and>
    (\<exists>m. length (col_ancestor_tags b') =
            length (col_ancestor_tags b) + (if need COL_ANCESTOR_TAGS then m else 0) \<and>
         length (col_ancestor_dwarf_offsets b') = length (col_ancestor_dwarf_offsets b) +
            (if need COL_ANCESTOR_TAGS \<and> need COL_ANCESTOR_OFFSETS then m else 0)) \<and>
    (extractor_advances env \<longrightarrow> offset unit < offset unit') \<and>
    (no_stmt_list unit \<and> filename_table_size unit = 0 \<longrightarrow>
       filename_table unit' = filename_table unit \<and> filename_table_size unit' = 0 \<and>
       col_decl_file b' = col_decl_file b @ ins (need COL_DECL_FILE) 0)"
proof -
  define b0 where "b0 = b\<lparr>col_offset := col_offset b @ ins (need COL_OFFSET) (offset unit),
     col_ancestor_tags := col_ancestor_tags b @
        (if need COL_ANCESTOR_TAGS then map entry_tag (rev (stack unit)) else []),
     col_ancestor_dwarf_offsets := col_ancestor_dwarf_offsets b @
        (if need COL_ANCESTOR_TAGS \<and> need COL_ANCESTOR_OFFSETS
         then map entry_offset (rev (stack unit)) else []),
     col_ancestor_array_offsets := col_ancestor_array_offsets b @
        ins (need COL_ANCESTOR_TAGS) (length (col_ancestor_tags b @
          (if need COL_ANCESTOR_TAGS then map entry_tag (rev (stack unit)) else [])))\<rparr>"
  from assms obtain abbrev_code pos where
    rd: "getULEB128 env (offset unit) = Some (abbrev_code, pos)"
    by (auto simp: parse_die_def Let_def split: option.splits)
  define u0 where "u0 = unit\<lparr>offset := pos\<rparr>"
  have adv0: "extractor_advances env \<longrightarrow> offset unit < pos"
    using rd unfolding extractor_advances_def by blast
  have b0s: "col_size b0 = col_size b" "col_attr_offsets b0 = col_attr_offsets b"
    "col_attr_name b0 = col_attr_name b" "col_attr_form b0 = col_attr_form b"
    "col_attr_int b0 = col_attr_int b" "col_attr_str b0 = col_attr_str b"
    "col_decl_file b0 = col_decl_file b"
    "col_offset b0 = col_offset b @ ins (need COL_OFFSET) (offset unit)"
    by (simp_all add: b0_def)
  have anc: "col_ancestor_array_offsets b0 = col_ancestor_array_offsets b @
       ins (need COL_ANCESTOR_TAGS) (length (col_ancestor_tags b0))"
    "length (col_ancestor_tags b0) = length (col_ancestor_tags b) +
       (if need COL_ANCESTOR_TAGS then length (stack unit) else 0)"
    "length (col_ancestor_dwarf_offsets b0) = length (col_ancestor_dwarf_offsets b) +
       (if need COL_ANCESTOR_TAGS \<and> need COL_ANCESTOR_OFFSETS then length (stack unit) else 0)"
    by (simp_all add: b0_def)
  have u0s: "offset u0 = pos" "end_offset u0 = end_offset unit" "dwarf_unit u0 = dwarf_unit unit"
    "unit_abbrevs u0 = unit_abbrevs unit" "filename_table u0 = filename_table unit"
    "filename_table_size u0 = filename_table_size unit" "stack u0 = stack unit"
    "no_stmt_list u0 = no_stmt_list unit"
    by (simp_all add: u0_def no_stmt_list_def)
  show ?thesis
  proof (cases "abbrev_code = 0")
    case True
    with assms rd have "parse_null_entry need u0 (offset unit) b0 = Inr (unit', b')"
      by (simp add: parse_die_def Let_def b0_def u0_def)
    note st = parse_null_entry_step [OF this]
    have "\<exists>n. length (col_attr_name b') = length (col_attr_name b) + (if need COL_ATTR_NAME then n else 0) \<and>
         length (col_attr_form b') = length (col_attr_form b) + (if need COL_ATTR_FORM then n else 0) \<and>
         length (col_attr_int b') = length (col_attr_int b) + (if need COL_ATTR_INT then n else 0) \<and>
         length (col_attr_str b') = length (col_attr_str b) + (if need COL_ATTR_STR then n else 0)"
      using st b0s by (intro exI [of _ 0]) simp
    moreover have "\<exists>m. length (col_ancestor_tags b') =
            length (col_ancestor_tags b) + (if need COL_ANCESTOR_TAGS then m else 0) \<and>
         length (col_ancestor_dwarf_offsets b') = length (col_ancestor_dwarf_offsets b) +
            (if need COL_ANCESTOR_TAGS \<and> need COL_ANCESTOR_OFFSETS then m else 0)"
      using st anc by (intro exI [of _ "length (stack unit)"]) simp
    ultimately show ?thesis
      using st b0s anc(1) u0s adv0 by (simp add: unit_frame_def)
  next
    case False
    with assms rd have "parse_real_entry env need u0 (offset unit) abbrev_code b0 = Inr (unit', b')"
      by (simp add: parse_die_def Let_def b0_def u0_def)
    note st = parse_real_entry_step [OF this]
    have "\<exists>n. length (col_attr_name b') = length (col_attr_name b) + (if need COL_ATTR_NAME then n else 0) \<and>
         length (col_attr_form b') = length (col_attr_form b) + (if need COL_ATTR_FORM then n else 0) \<and>
         length (col_attr_int b') = length (col_attr_int b) + (if need COL_ATTR_INT then n else 0) \<and>
         length (col_attr_str b') = length (col_attr_str b) + (if need COL_ATTR_STR then n else 0)"
      using st b0s by simp
    moreover have "\<exists>m. length (col_ancestor_tags b') =
            length (col_ancestor_tags b) + (if need COL_ANCESTOR_TAGS then m else 0) \<and>
         length (col_ancestor_dwarf_offsets b') = length (col_ancestor_dwarf_offsets b) +
            (if need COL_ANCESTOR_TAGS \<and> need COL_ANCESTOR_OFFSETS then m else 0)"
      using st anc by (intro exI [of _ "length (stack unit)"]) simp
    moreover have "extractor_advances env \<longrightarrow> offset unit < offset unit'"
      using st adv0 u0s by auto
    ultimately show ?thesis
      using st b0s anc(1) u0s by simp
  qed
qed

text \<open>The loop: an invariant of the entries holds of what the loop returns.\<close>

lemma parse_loop_rule:
  assumes "parse_loop env need unit b n = Inr (unit', b', n')"
    and "I unit b n"
    and "\<And>u c m u1 c1. I u c m \<Longrightarrow> m < 65536 \<Longrightarrow> parse_die env need u c = Inr (u1, c1)
           \<Longrightarrow> I u1 c1 (Suc m)"
  shows "I unit' b' n'"
  using assms
proof (induction env need unit b n rule: parse_loop.induct)
  case (1 env need unit b num_rows)
  show ?case
  proof (cases "num_rows < 65536")
    case False
    with "1.prems"(1,2) show ?thesis by (simp add: parse_loop.simps)
  next
    case lt: True
    then obtain u1 b1 where die: "parse_die env need unit b = Inr (u1, b1)"
      using "1.prems"(1) by (subst (asm) parse_loop.simps) (auto split: sum.splits)
    have I1: "I u1 b1 (Suc num_rows)" using "1.prems"(3)[OF "1.prems"(2) lt die] .
    show ?thesis
    proof (cases "stack u1 = []")
      case True
      with "1.prems"(1) lt die I1 show ?thesis
        by (subst (asm) parse_loop.simps) (auto split: if_splits)
    next
      case False
      with "1.prems"(1) lt die have "parse_loop env need u1 b1 (Suc num_rows) = Inr (unit', b', n')"
        by (subst (asm) parse_loop.simps) simp
      from "1.IH"[OF lt die refl False this I1 "1.prems"(3)] show ?thesis by simp
    qed
  qed
qed

text \<open>Where the loop ends: at the cap, or at the end of the unit with an empty stack.\<close>

lemma parse_loop_exit:
  assumes "parse_loop env need unit b n = Inr (unit', b', n')" and "n < 65536"
  shows "n < n' \<and> n' \<le> 65536 \<and> (n' < 65536 \<longrightarrow> stack unit' = [] \<and> eof unit')"
  using assms
proof (induction env need unit b n rule: parse_loop.induct)
  case (1 env need unit b num_rows)
  from "1.prems" obtain u1 b1 where die: "parse_die env need unit b = Inr (u1, b1)"
    by (subst (asm) parse_loop.simps) (auto split: sum.splits)
  show ?case
  proof (cases "stack u1 = []")
    case True
    with "1.prems" die show ?thesis
      by (subst (asm) parse_loop.simps) (auto split: if_splits)
  next
    case False
    with "1.prems" die have run: "parse_loop env need u1 b1 (Suc num_rows) = Inr (unit', b', n')"
      by (subst (asm) parse_loop.simps) simp
    show ?thesis
    proof (cases "Suc num_rows < 65536")
      case True
      from "1.IH"[OF "1.prems"(2) die refl False run True] show ?thesis by simp
    next
      case False
      with run "1.prems"(2) show ?thesis by (simp add: parse_loop.simps)
    qed
  qed
qed

text \<open>Casting from 64 to 32 bits commutes with addition and subtraction.\<close>

lemma word_of_int_mod64: "(word_of_int (z mod 2 ^ 64) :: 32 word) = word_of_int z"
proof -
  have "(2::int) ^ 32 dvd 2 ^ 64" by (rule le_imp_power_dvd) simp
  then have "z mod 2 ^ 64 mod 2 ^ 32 = z mod 2 ^ 32" by (rule mod_mod_cancel)
  then show ?thesis by (simp add: word_of_int_eq_iff take_bit_eq_mod)
qed

lemma ucast_down_diff: "(ucast ((a :: 64 word) - b) :: 32 word) = ucast a - ucast b"
proof -
  have u: "uint (a - b) = (uint a - uint b) mod 2 ^ 64"
    using uint_word_ariths(2) [of a b] by simp
  have "(ucast (a - b) :: 32 word) = word_of_int (uint (a - b))" by (rule ucast_eq)
  also have "\<dots> = word_of_int (uint a - uint b)" by (simp only: u word_of_int_mod64)
  also have "\<dots> = (word_of_int (uint a) :: 32 word) - word_of_int (uint b)"
    by (simp only: of_int_diff)
  also have "\<dots> = ucast a - ucast b" by (simp only: ucast_eq)
  finally show ?thesis .
qed

lemma parse_loop_sizes:
  assumes "parse_loop env need unit empty_builders 0 = Inr (unit', b', n')"
  shows "end_offset unit' = end_offset unit \<and> dwarf_unit unit' = dwarf_unit unit \<and>
    unit_abbrevs unit' = unit_abbrevs unit \<and>
    (need COL_OFFSET \<longrightarrow> length (col_offset b') = n') \<and>
    (need COL_SIZE \<longrightarrow> length (col_size b') = n' \<and>
       sum_list (col_size b') = ucast (offset unit' - offset unit)) \<and>
    (need COL_OFFSET \<and> need COL_SIZE \<longrightarrow>
       (\<forall>r < n'. col_size b' ! r =
          ucast ((col_offset b' @ [offset unit']) ! Suc r - col_offset b' ! r)))"
proof (rule parse_loop_rule [OF assms, where I = "\<lambda>u c m.
    end_offset u = end_offset unit \<and> dwarf_unit u = dwarf_unit unit \<and>
    unit_abbrevs u = unit_abbrevs unit \<and>
    (need COL_OFFSET \<longrightarrow> length (col_offset c) = m) \<and>
    (need COL_SIZE \<longrightarrow> length (col_size c) = m \<and>
       sum_list (col_size c) = ucast (offset u - offset unit)) \<and>
    (need COL_OFFSET \<and> need COL_SIZE \<longrightarrow>
       (\<forall>r < m. col_size c ! r = ucast ((col_offset c @ [offset u]) ! Suc r - col_offset c ! r)))"])
  show "end_offset unit = end_offset unit \<and> dwarf_unit unit = dwarf_unit unit \<and>
    unit_abbrevs unit = unit_abbrevs unit \<and>
    (need COL_OFFSET \<longrightarrow> length (col_offset empty_builders) = 0) \<and>
    (need COL_SIZE \<longrightarrow> length (col_size empty_builders) = 0 \<and>
       sum_list (col_size empty_builders) = ucast (offset unit - offset unit)) \<and>
    (need COL_OFFSET \<and> need COL_SIZE \<longrightarrow>
       (\<forall>r < 0. col_size empty_builders ! r =
          ucast ((col_offset empty_builders @ [offset unit]) ! Suc r - col_offset empty_builders ! r)))"
    by (simp add: empty_builders_def)
next
  fix u c m u1 c1
  assume inv: "end_offset u = end_offset unit \<and> dwarf_unit u = dwarf_unit unit \<and>
    unit_abbrevs u = unit_abbrevs unit \<and>
    (need COL_OFFSET \<longrightarrow> length (col_offset c) = m) \<and>
    (need COL_SIZE \<longrightarrow> length (col_size c) = m \<and>
       sum_list (col_size c) = ucast (offset u - offset unit)) \<and>
    (need COL_OFFSET \<and> need COL_SIZE \<longrightarrow>
       (\<forall>r < m. col_size c ! r = ucast ((col_offset c @ [offset u]) ! Suc r - col_offset c ! r)))"
    and die: "parse_die env need u c = Inr (u1, c1)"
  from parse_die_step [OF die] have
    o: "col_offset c1 = col_offset c @ ins (need COL_OFFSET) (offset u)"
    and s: "col_size c1 = col_size c @ ins (need COL_SIZE) (ucast (offset u1 - offset u))"
    and f: "end_offset u1 = end_offset u" "dwarf_unit u1 = dwarf_unit u"
      "unit_abbrevs u1 = unit_abbrevs u"
    by simp_all
  have frame: "end_offset u1 = end_offset unit \<and> dwarf_unit u1 = dwarf_unit unit \<and>
    unit_abbrevs u1 = unit_abbrevs unit" using f inv by simp
  have len: "need COL_OFFSET \<longrightarrow> length (col_offset c1) = Suc m" using o inv by simp
  have sz: "need COL_SIZE \<longrightarrow> length (col_size c1) = Suc m \<and>
       sum_list (col_size c1) = ucast (offset u1 - offset unit)"
    using s inv by (simp add: ucast_down_diff)
  have rows: "need COL_OFFSET \<and> need COL_SIZE \<longrightarrow>
       (\<forall>r < Suc m. col_size c1 ! r = ucast ((col_offset c1 @ [offset u1]) ! Suc r - col_offset c1 ! r))"
  proof (intro impI allI)
    fix r assume n: "need COL_OFFSET \<and> need COL_SIZE" and r: "r < Suc m"
    from n inv have l: "length (col_offset c) = m" "length (col_size c) = m"
      and old: "\<forall>r < m. col_size c ! r = ucast ((col_offset c @ [offset u]) ! Suc r - col_offset c ! r)"
      by simp_all
    show "col_size c1 ! r = ucast ((col_offset c1 @ [offset u1]) ! Suc r - col_offset c1 ! r)"
    proof (cases "r < m")
      case True
      with old have "col_size c ! r = ucast ((col_offset c @ [offset u]) ! Suc r - col_offset c ! r)"
        by simp
      with True l n show ?thesis by (simp add: o s nth_append)
    next
      case False
      with r have "r = m" by simp
      with l n show ?thesis by (simp add: o s nth_append)
    qed
  qed
  show "end_offset u1 = end_offset unit \<and> dwarf_unit u1 = dwarf_unit unit \<and>
    unit_abbrevs u1 = unit_abbrevs unit \<and>
    (need COL_OFFSET \<longrightarrow> length (col_offset c1) = Suc m) \<and>
    (need COL_SIZE \<longrightarrow> length (col_size c1) = Suc m \<and>
       sum_list (col_size c1) = ucast (offset u1 - offset unit)) \<and>
    (need COL_OFFSET \<and> need COL_SIZE \<longrightarrow>
       (\<forall>r < Suc m. col_size c1 ! r =
          ucast ((col_offset c1 @ [offset u1]) ! Suc r - col_offset c1 ! r)))"
    using frame len sz rows by blast
qed

lemma need_columns_header: "c \<in> set header \<Longrightarrow> need_columns header c"
  by (auto simp: need_columns_def Let_def)

lemma parseEntries_chunk:
  assumes "parseEntries env header unit = Inr (chunk, unit')"
  shows "\<exists>b. parse_loop env (need_columns header) unit empty_builders 0
              = Inr (unit', b, chunk_rows chunk) \<and>
             (\<forall>c \<in> set header.
                chunk_column header chunk c = Some (assemble_column unit' b (chunk_rows chunk) c))"
proof -
  from assms obtain b n where
    run: "parse_loop env (need_columns header) unit empty_builders 0 = Inr (unit', b, n)"
    and ch: "chunk = \<lparr>columns = map (assemble_column unit' b n) header, chunk_rows = n\<rparr>"
    by (auto simp: parseEntries_def split: sum.splits)
  have "\<forall>c \<in> set header. chunk_column header chunk c = Some (assemble_column unit' b n c)"
    by (simp add: chunk_column_def ch map_of_zip_map)
  with run ch show ?thesis by auto
qed

lemma parseEntries_sizes:
  assumes "parseEntries env header unit = Inr (chunk, unit')"
    and "COL_OFFSET \<in> set header" and "COL_SIZE \<in> set header"
  shows "length (offset_values header chunk) = chunk_rows chunk \<and>
    length (size_values header chunk) = chunk_rows chunk \<and>
    (\<forall>r < chunk_rows chunk. size_values header chunk ! r =
        ucast ((offset_values header chunk @ [offset unit']) ! Suc r
               - offset_values header chunk ! r)) \<and>
    sum_list (size_values header chunk) = ucast (offset unit' - offset unit) \<and>
    end_offset unit' = end_offset unit \<and>
    (chunk_rows chunk < 65536 \<longrightarrow> eof unit')"
proof -
  from parseEntries_chunk [OF assms(1)] obtain b where
    run: "parse_loop env (need_columns header) unit empty_builders 0
              = Inr (unit', b, chunk_rows chunk)"
    and cols: "\<forall>c \<in> set header.
                chunk_column header chunk c = Some (assemble_column unit' b (chunk_rows chunk) c)"
    by blast
  from cols assms(2,3) have v: "offset_values header chunk = col_offset b"
    "size_values header chunk = col_size b"
    by (simp_all add: offset_values_def size_values_def assemble_column_def)
  from parse_loop_exit [OF run] have "chunk_rows chunk < 65536 \<longrightarrow> eof unit'" by simp
  with parse_loop_sizes [OF run] assms(2,3) show ?thesis
    by (simp add: v need_columns_header)
qed

lemma unit_chunks_sizes:
  assumes "unit_chunks env header unit chunks unit'" and "COL_SIZE \<in> set header"
    and "COL_OFFSET \<in> set header"
  shows "eof unit' \<and> end_offset unit' = end_offset unit \<and>
    sum_list (concat (map (size_values header) chunks)) = ucast (offset unit' - offset unit)"
  using assms
proof (induction rule: unit_chunks.induct)
  case (last_chunk env header unit chunk unit')
  with parseEntries_sizes [OF last_chunk(1)] show ?case by simp
next
  case (next_chunk env header unit chunk unit1 chunks unit')
  from parseEntries_sizes [OF next_chunk(1)] next_chunk.prems have
    "sum_list (size_values header chunk) = ucast (offset unit1 - offset unit)"
    "end_offset unit1 = end_offset unit" by simp_all
  with next_chunk.IH next_chunk.prems show ?case by (simp add: ucast_down_diff)
qed

lemmas demo_defs = demo_sections_def demo_state_def demo_abbrevs_def demo_unit_def

lemma demo_chunk:
  "parseEntries demo_sections [COL_OFFSET, COL_SIZE] demo_state =
     Inr (\<lparr>columns = [ColumnUInt64 [11, 12, 13], ColumnUInt32 [1, 1, 1]], chunk_rows = 3\<rparr>,
          demo_state\<lparr>offset := 14\<rparr>)"
  by (simp add: parseEntries_def parse_loop.simps decoder_defs demo_defs need_columns_def
      empty_builders_def assemble_column_def)

lemmas big_defs = big_sections_def big_state_def big_abbrevs_def big_unit_def big_block_value_def

lemma parse_loop_arrays:
  assumes "parse_loop env need unit empty_builders 0 = Inr (unit', b', n')"
    and own: "owner_needed need"
  shows "attrs_aligned need b' \<and>
    (need COL_ATTR_NAME \<longrightarrow>
       length (col_attr_offsets b') = n' \<and> sorted (col_attr_offsets b') \<and>
       (\<forall>y \<in> set (col_attr_offsets b'). y \<le> length (col_attr_name b')) \<and>
       last (0 # col_attr_offsets b') = length (col_attr_name b')) \<and>
    (need COL_ANCESTOR_TAGS \<longrightarrow>
       length (col_ancestor_array_offsets b') = n' \<and> sorted (col_ancestor_array_offsets b') \<and>
       (\<forall>y \<in> set (col_ancestor_array_offsets b'). y \<le> length (col_ancestor_tags b')) \<and>
       last (0 # col_ancestor_array_offsets b') = length (col_ancestor_tags b'))"
proof (rule parse_loop_rule [OF assms(1), where I = "\<lambda>u c m.
    attrs_aligned need c \<and>
    (need COL_ATTR_NAME \<longrightarrow>
       length (col_attr_offsets c) = m \<and> sorted (col_attr_offsets c) \<and>
       (\<forall>y \<in> set (col_attr_offsets c). y \<le> length (col_attr_name c)) \<and>
       last (0 # col_attr_offsets c) = length (col_attr_name c)) \<and>
    (need COL_ANCESTOR_TAGS \<longrightarrow>
       length (col_ancestor_array_offsets c) = m \<and> sorted (col_ancestor_array_offsets c) \<and>
       (\<forall>y \<in> set (col_ancestor_array_offsets c). y \<le> length (col_ancestor_tags c)) \<and>
       last (0 # col_ancestor_array_offsets c) = length (col_ancestor_tags c))"])
  show "attrs_aligned need empty_builders \<and>
    (need COL_ATTR_NAME \<longrightarrow>
       length (col_attr_offsets empty_builders) = 0 \<and> sorted (col_attr_offsets empty_builders) \<and>
       (\<forall>y \<in> set (col_attr_offsets empty_builders). y \<le> length (col_attr_name empty_builders)) \<and>
       last (0 # col_attr_offsets empty_builders) = length (col_attr_name empty_builders)) \<and>
    (need COL_ANCESTOR_TAGS \<longrightarrow>
       length (col_ancestor_array_offsets empty_builders) = 0 \<and>
       sorted (col_ancestor_array_offsets empty_builders) \<and>
       (\<forall>y \<in> set (col_ancestor_array_offsets empty_builders).
           y \<le> length (col_ancestor_tags empty_builders)) \<and>
       last (0 # col_ancestor_array_offsets empty_builders) = length (col_ancestor_tags empty_builders))"
    by (simp add: empty_builders_def attrs_aligned_def)
next
  fix u c m u1 c1
  assume inv: "attrs_aligned need c \<and>
    (need COL_ATTR_NAME \<longrightarrow>
       length (col_attr_offsets c) = m \<and> sorted (col_attr_offsets c) \<and>
       (\<forall>y \<in> set (col_attr_offsets c). y \<le> length (col_attr_name c)) \<and>
       last (0 # col_attr_offsets c) = length (col_attr_name c)) \<and>
    (need COL_ANCESTOR_TAGS \<longrightarrow>
       length (col_ancestor_array_offsets c) = m \<and> sorted (col_ancestor_array_offsets c) \<and>
       (\<forall>y \<in> set (col_ancestor_array_offsets c). y \<le> length (col_ancestor_tags c)) \<and>
       last (0 # col_ancestor_array_offsets c) = length (col_ancestor_tags c))"
    and die: "parse_die env need u c = Inr (u1, c1)"
  from parse_die_step [OF die] obtain n k where
    ao: "col_attr_offsets c1 = col_attr_offsets c @ ins (need COL_ATTR_NAME) (length (col_attr_name c1))"
    and an: "length (col_attr_name c1) = length (col_attr_name c) + (if need COL_ATTR_NAME then n else 0)"
      "length (col_attr_form c1) = length (col_attr_form c) + (if need COL_ATTR_FORM then n else 0)"
      "length (col_attr_int c1) = length (col_attr_int c) + (if need COL_ATTR_INT then n else 0)"
      "length (col_attr_str c1) = length (col_attr_str c) + (if need COL_ATTR_STR then n else 0)"
    and no: "col_ancestor_array_offsets c1 = col_ancestor_array_offsets c @
       ins (need COL_ANCESTOR_TAGS) (length (col_ancestor_tags c1))"
    and nn: "length (col_ancestor_tags c1) =
            length (col_ancestor_tags c) + (if need COL_ANCESTOR_TAGS then k else 0)"
      "length (col_ancestor_dwarf_offsets c1) = length (col_ancestor_dwarf_offsets c) +
            (if need COL_ANCESTOR_TAGS \<and> need COL_ANCESTOR_OFFSETS then k else 0)"
    by blast
  have al: "attrs_aligned need c1"
    using inv own an nn by (auto simp: attrs_aligned_def owner_needed_def)
  have a: "need COL_ATTR_NAME \<longrightarrow>
       length (col_attr_offsets c1) = Suc m \<and> sorted (col_attr_offsets c1) \<and>
       (\<forall>y \<in> set (col_attr_offsets c1). y \<le> length (col_attr_name c1)) \<and>
       last (0 # col_attr_offsets c1) = length (col_attr_name c1)"
    using inv an(1) by (auto simp: ao sorted_append)
  have n: "need COL_ANCESTOR_TAGS \<longrightarrow>
       length (col_ancestor_array_offsets c1) = Suc m \<and> sorted (col_ancestor_array_offsets c1) \<and>
       (\<forall>y \<in> set (col_ancestor_array_offsets c1). y \<le> length (col_ancestor_tags c1)) \<and>
       last (0 # col_ancestor_array_offsets c1) = length (col_ancestor_tags c1)"
    using inv nn(1) by (auto simp: no sorted_append)
  show "attrs_aligned need c1 \<and>
    (need COL_ATTR_NAME \<longrightarrow>
       length (col_attr_offsets c1) = Suc m \<and> sorted (col_attr_offsets c1) \<and>
       (\<forall>y \<in> set (col_attr_offsets c1). y \<le> length (col_attr_name c1)) \<and>
       last (0 # col_attr_offsets c1) = length (col_attr_name c1)) \<and>
    (need COL_ANCESTOR_TAGS \<longrightarrow>
       length (col_ancestor_array_offsets c1) = Suc m \<and> sorted (col_ancestor_array_offsets c1) \<and>
       (\<forall>y \<in> set (col_ancestor_array_offsets c1). y \<le> length (col_ancestor_tags c1)) \<and>
       last (0 # col_ancestor_array_offsets c1) = length (col_ancestor_tags c1))"
    using al a n by blast
qed

lemma lines_arrays_chunk:
  "parseEntries (lines_sections 5) [COL_ATTR_FORM, COL_ATTR_INT, COL_ANCESTOR_OFFSETS] lines_state =
     Inr (\<lparr>columns = [
             ColumnArray (ColumnLowCardinality (Some attr_form_dict_column)
                            (ColumnUInt16 [DW_FORM_sec_offset, DW_FORM_data1])) [1, 2, 2],
             ColumnArray (ColumnUInt64 [0, 0]) [1, 2, 2],
             ColumnArray (ColumnUInt64 [11, 11]) [0, 1, 2]], chunk_rows = 3\<rparr>,
          lines_state\<lparr>offset := 19, filename_table := Some [[], ''a.c'', ''b.c''],
            filename_table_size := 2\<rparr>)"
  by (simp add: parseEntries_def parse_loop.simps decoder_defs lines_defs need_columns_def
      empty_builders_def assemble_column_def form_list_defs DW_FORM_defs DW_AT_defs)


lemma parse_loop_monotone:
  assumes "parse_loop env need unit empty_builders 0 = Inr (unit', b', n')"
    and adv: "extractor_advances env"
  shows "sorted_wrt (<) (col_offset b') \<and>
    (\<forall>x \<in> set (col_offset b'). offset unit \<le> x \<and> x < offset unit') \<and>
    offset unit \<le> offset unit'"
proof (rule parse_loop_rule [OF assms(1), where I = "\<lambda>u c m.
    sorted_wrt (<) (col_offset c) \<and>
    (\<forall>x \<in> set (col_offset c). offset unit \<le> x \<and> x < offset u) \<and>
    offset unit \<le> offset u"])
  show "sorted_wrt (<) (col_offset empty_builders) \<and>
    (\<forall>x \<in> set (col_offset empty_builders). offset unit \<le> x \<and> x < offset unit) \<and>
    offset unit \<le> offset unit"
    by (simp add: empty_builders_def)
next
  fix u c m u1 c1
  assume inv: "sorted_wrt (<) (col_offset c) \<and>
    (\<forall>x \<in> set (col_offset c). offset unit \<le> x \<and> x < offset u) \<and>
    offset unit \<le> offset u"
    and die: "parse_die env need u c = Inr (u1, c1)"
  from parse_die_step [OF die] adv have
    co: "col_offset c1 = col_offset c @ ins (need COL_OFFSET) (offset u)"
    and lt: "offset u < offset u1"
    by simp_all
  show "sorted_wrt (<) (col_offset c1) \<and>
    (\<forall>x \<in> set (col_offset c1). offset unit \<le> x \<and> x < offset u1) \<and>
    offset unit \<le> offset u1"
    using inv lt by (cases "need COL_OFFSET") (auto simp: co sorted_wrt_append)
qed

lemma parse_loop_no_table:
  assumes "parse_loop env need unit empty_builders 0 = Inr (unit', b', n')"
    and "no_stmt_list unit" and "filename_table_size unit = 0"
  shows "filename_table unit' = filename_table unit \<and> filename_table_size unit' = 0 \<and>
    col_decl_file b' = replicate (if need COL_DECL_FILE then n' else 0) 0"
proof (rule parse_loop_rule [OF assms(1), where I = "\<lambda>u c m.
    no_stmt_list u \<and>
    filename_table u = filename_table unit \<and> filename_table_size u = 0 \<and>
    col_decl_file c = replicate (if need COL_DECL_FILE then m else 0) 0", THEN conjunct2])
  show "no_stmt_list unit \<and> filename_table unit = filename_table unit \<and>
    filename_table_size unit = 0 \<and>
    col_decl_file empty_builders = replicate (if need COL_DECL_FILE then 0 else 0) 0"
    using assms(2,3) by (simp add: empty_builders_def)
next
  fix u c m u1 c1
  assume inv: "no_stmt_list u \<and> filename_table u = filename_table unit \<and>
    filename_table_size u = 0 \<and>
    col_decl_file c = replicate (if need COL_DECL_FILE then m else 0) 0"
    and die: "parse_die env need u c = Inr (u1, c1)"
  from parse_die_step [OF die] inv have
    "unit_abbrevs u1 = unit_abbrevs u"
    "filename_table u1 = filename_table u" "filename_table_size u1 = 0"
    "col_decl_file c1 = col_decl_file c @ ins (need COL_DECL_FILE) 0"
    by simp_all
  with inv show "no_stmt_list u1 \<and> filename_table u1 = filename_table unit \<and>
    filename_table_size u1 = 0 \<and>
    col_decl_file c1 = replicate (if need COL_DECL_FILE then Suc m else 0) 0"
    by (simp add: no_stmt_list_def replicate_append_same)
qed

lemma parseEntries_rows:
  assumes "parseEntries env header unit = Inr (chunk, unit1)"
  shows "0 < chunk_rows chunk \<and> chunk_rows chunk \<le> 65536 \<and>
         (chunk_rows chunk < 65536 \<longrightarrow> stack unit1 = [] \<and> eof unit1)"
proof -
  from parseEntries_chunk [OF assms] obtain b where
    "parse_loop env (need_columns header) unit empty_builders 0 = Inr (unit1, b, chunk_rows chunk)"
    by blast
  from parse_loop_exit [OF this] show ?thesis by simp
qed

lemma parseEntries_offsets:
  assumes "parseEntries env header unit = Inr (chunk, unit1)"
    and "extractor_advances env" and "COL_OFFSET \<in> set header"
  shows "length (offset_values header chunk) = chunk_rows chunk \<and>
    sorted_wrt (<) (offset_values header chunk) \<and>
    (\<forall>x \<in> set (offset_values header chunk). offset unit \<le> x \<and> x < offset unit1) \<and>
    offset unit \<le> offset unit1"
proof -
  from parseEntries_chunk [OF assms(1)] obtain b where
    run: "parse_loop env (need_columns header) unit empty_builders 0
              = Inr (unit1, b, chunk_rows chunk)"
    and cols: "\<forall>c \<in> set header.
                chunk_column header chunk c = Some (assemble_column unit1 b (chunk_rows chunk) c)"
    by blast
  from cols assms(3) have v: "offset_values header chunk = col_offset b"
    by (simp add: offset_values_def assemble_column_def)
  from parse_loop_sizes [OF run] assms(3) have "length (col_offset b) = chunk_rows chunk"
    by (simp add: need_columns_header)
  with parse_loop_monotone [OF run assms(2)] show ?thesis by (simp add: v)
qed

lemma unit_chunks_offsets:
  assumes "unit_chunks env header unit chunks unit'"
    and "extractor_advances env" and "COL_OFFSET \<in> set header"
  shows "sorted_wrt (<) (concat (map (offset_values header) chunks)) \<and>
    (\<forall>x \<in> set (concat (map (offset_values header) chunks)). offset unit \<le> x \<and> x < offset unit') \<and>
    offset unit \<le> offset unit' \<and>
    (\<forall>c \<in> set chunks. 0 < chunk_rows c \<and> chunk_rows c \<le> 65536 \<and>
        length (offset_values header c) = chunk_rows c)"
  using assms
proof (induction rule: unit_chunks.induct)
  case (last_chunk env header unit chunk unit')
  from parseEntries_offsets [OF last_chunk(1) last_chunk.prems]
    parseEntries_rows [OF last_chunk(1)]
  show ?case by simp
next
  case (next_chunk env header unit chunk unit1 chunks unit')
  note a = parseEntries_offsets [OF next_chunk(1) next_chunk.prems]
  note r = parseEntries_rows [OF next_chunk(1)]
  note b = next_chunk.IH [OF next_chunk.prems]
  have cross: "\<forall>x \<in> set (offset_values header chunk).
      \<forall>y \<in> set (concat (map (offset_values header) chunks)). x < y"
  proof (intro ballI)
    fix x y
    assume "x \<in> set (offset_values header chunk)"
      and "y \<in> set (concat (map (offset_values header) chunks))"
    with a b have "x < offset unit1" "offset unit1 \<le> y" by blast+
    then show "x < y" by (rule less_le_trans)
  qed
  have lo: "\<forall>x \<in> set (concat (map (offset_values header) chunks)). offset unit \<le> x"
  proof
    fix x assume "x \<in> set (concat (map (offset_values header) chunks))"
    with b have "offset unit1 \<le> x" by blast
    moreover from a have "offset unit \<le> offset unit1" by simp
    ultimately show "offset unit \<le> x" by (rule order_trans [rotated])
  qed
  have hi: "\<forall>x \<in> set (offset_values header chunk). x < offset unit'"
  proof
    fix x assume "x \<in> set (offset_values header chunk)"
    with a have "x < offset unit1" by blast
    moreover from b have "offset unit1 \<le> offset unit'" by simp
    ultimately show "x < offset unit'" by (rule less_le_trans)
  qed
  have "sorted_wrt (<) (concat (map (offset_values header) (chunk # chunks)))"
    using a b cross by (simp add: sorted_wrt_append)
  moreover have "\<forall>x \<in> set (concat (map (offset_values header) (chunk # chunks))).
      offset unit \<le> x \<and> x < offset unit'"
    using a b lo hi by auto
  moreover have "offset unit \<le> offset unit'"
    using a b by (blast intro: order_trans)
  moreover have "\<forall>c \<in> set (chunk # chunks). 0 < chunk_rows c \<and> chunk_rows c \<le> 65536 \<and>
        length (offset_values header c) = chunk_rows c"
    using a r b by simp
  ultimately show ?case by blast
qed

text \<open>
  A unit without \<open>DW_AT_stmt_list\<close>: every row of the decl_file column holds position 0,
  and the dictionary of the column is the filename table of the unit, still null.
\<close>

lemma decl_file_without_stmt_list:
  assumes "parseEntries env header unit = Inr (chunk, unit')"
    and "no_stmt_list unit" and "filename_table unit = None" and "filename_table_size unit = 0"
    and "COL_DECL_FILE \<in> set header"
  shows "chunk_column header chunk COL_DECL_FILE =
           Some (ColumnLowCardinality None (ColumnUInt64 (replicate (chunk_rows chunk) 0)))"
proof -
  from parseEntries_chunk [OF assms(1)] obtain b where
    run: "parse_loop env (need_columns header) unit empty_builders 0
              = Inr (unit', b, chunk_rows chunk)"
    and cols: "\<forall>c \<in> set header.
                chunk_column header chunk c = Some (assemble_column unit' b (chunk_rows chunk) c)"
    by blast
  from parse_loop_no_table [OF run assms(2,4)] assms(3,5) have
    "filename_table unit' = None" "col_decl_file b = replicate (chunk_rows chunk) 0"
    by (simp_all add: need_columns_header)
  with cols assms(5) show ?thesis by (simp add: assemble_column_def)
qed

lemma demo_no_stmt_list: "no_stmt_list demo_state"
  by (auto simp: no_stmt_list_def demo_state_def demo_abbrevs_def split: if_splits)

lemmas quad_defs = quad_sections_def quad_state_def quad_abbrevs_def quad_chunk_def quad_unit_def

lemma quad_parse:
  "parseEntries quad_sections [COL_OFFSET] (quad_state 0) =
     Inr (quad_chunk 0, (quad_state 0)\<lparr>offset := 12\<rparr>)"
  "parseEntries quad_sections [COL_OFFSET] (quad_state 12) =
     Inr (quad_chunk 12, (quad_state 12)\<lparr>offset := 24\<rparr>)"
  "parseEntries quad_sections [COL_OFFSET] (quad_state 24) =
     Inr (quad_chunk 24, (quad_state 24)\<lparr>offset := 36\<rparr>)"
  "parseEntries quad_sections [COL_OFFSET] (quad_state 36) =
     Inr (quad_chunk 36, (quad_state 36)\<lparr>offset := 48\<rparr>)"
  by (simp_all add: parseEntries_def parse_loop.simps decoder_defs quad_defs
      need_columns_def empty_builders_def assemble_column_def)

subsection \<open>The decl_file position of an entry\<close>

lemma after_attribute_same_cursor:
  assumes "same_cursor u v"
  shows "(after_attribute env u attr = None \<longleftrightarrow> after_attribute env v attr = None) \<and>
    (\<forall>val u1. after_attribute env u attr = Some (val, u1) \<longrightarrow>
       (\<exists>v1. after_attribute env v attr = Some (val, v1) \<and> same_cursor u1 v1))"
  using assms
  by (auto simp: after_attribute_def parseFilenameTable_def same_cursor_def Let_def
      split: option.splits sum.splits if_splits)

lemma attribute_values_same_cursor:
  "same_cursor u v \<Longrightarrow> attribute_values env u attrs = attribute_values env v attrs"
proof (induction attrs arbitrary: u v)
  case Nil
  then show ?case by simp
next
  case (Cons attr attrs)
  note a = after_attribute_same_cursor [OF Cons.prems, of env attr]
  show ?case
  proof (cases "after_attribute env u attr")
    case None
    with a show ?thesis by simp
  next
    case (Some r)
    obtain val u1 where r: "r = (val, u1)" by (cases r)
    with a Some obtain v1 where v: "after_attribute env v attr = Some (val, v1)"
      and s: "same_cursor u1 v1" by blast
    from Cons.IH [OF s] Some r v s show ?thesis by (simp add: same_cursor_def)
  qed
qed

lemma parse_attribute_file:
  assumes "parse_attribute env need tag attr (unit, b, fl) = Inr (unit', b', fl')"
  shows "\<exists>val u1. after_attribute env unit attr = Some (val, u1) \<and> same_cursor u1 unit' \<and>
    col_decl_file b' = col_decl_file b @
       ins (need_decl_file fl \<and> names_file (attr, val, filename_table_size u1)) (getRawUValue val + 1) \<and>
    need_decl_file fl' = (need_decl_file fl \<and> \<not> names_file (attr, val, filename_table_size u1))"
proof -
  from assms obtain val pos where
    ex: "extractValue env (dwarf_unit unit) (Form attr)
            (case ImplicitConst attr of Some c \<Rightarrow> c | None \<Rightarrow> 0) (offset unit) = Some (val, pos)"
    by (auto simp: parse_attribute_def split: option.splits)
  define b1 where "b1 = b\<lparr>col_attr_name := col_attr_name b @ ins (need COL_ATTR_NAME) (Attr attr),
     col_attr_form := col_attr_form b @ ins (need COL_ATTR_FORM) (Form attr)\<rparr>"
  from assms ex obtain u1 where
    u1: "(if Attr attr = DW_AT_stmt_list \<and> filename_table unit = None
          then (case getAsSectionOffset val of
                  Some off \<Rightarrow> parseFilenameTable env (unit\<lparr>offset := pos\<rparr>) off
                | None \<Rightarrow> Inr (unit\<lparr>offset := pos\<rparr>))
          else Inr (unit\<lparr>offset := pos\<rparr>)) = Inr u1"
    and pv: "project_value env need tag attr val (u1, b1, fl) = Inr (unit', b', fl')"
    by (auto simp: parse_attribute_def Let_def b1_def split: sum.splits)
  from ex u1 have aa: "after_attribute env unit attr = Some (val, u1)"
    by (simp add: after_attribute_def)
  note pvc = project_value_cols [OF pv]
  from pvc have sc: "same_cursor u1 unit'"
    by (simp add: same_cursor_def unit_frame_def)
  have d: "col_decl_file b1 = col_decl_file b" by (simp add: b1_def)
  show ?thesis
    apply (rule exI [of _ val], rule exI [of _ u1])
    using aa sc pvc d
    by (auto simp: names_file_def same_cursor_def)
qed

lemma parse_attributes_file:
  assumes "parse_attributes env need tag attrs (unit, b, fl) = Inr (unit', b', fl')"
  shows "col_decl_file b' = col_decl_file b @
           (if need_decl_file fl
            then (case find names_file (attribute_values env unit attrs) of
                    None \<Rightarrow> [] | Some (attr, val, table_size) \<Rightarrow> [getRawUValue val + 1])
            else []) \<and>
         need_decl_file fl' =
           (need_decl_file fl \<and> find names_file (attribute_values env unit attrs) = None)"
  using assms
proof (induction attrs arbitrary: unit b fl)
  case Nil
  then show ?case by simp
next
  case (Cons attr attrs)
  from Cons.prems obtain u2 b2 fl2 where
    one: "parse_attribute env need tag attr (unit, b, fl) = Inr (u2, b2, fl2)"
    and rest: "parse_attributes env need tag attrs (u2, b2, fl2) = Inr (unit', b', fl')"
    by (auto split: sum.splits)
  from parse_attribute_file [OF one] obtain val u1 where
    aa: "after_attribute env unit attr = Some (val, u1)" and sc: "same_cursor u1 u2"
    and c: "col_decl_file b2 = col_decl_file b @
       ins (need_decl_file fl \<and> names_file (attr, val, filename_table_size u1)) (getRawUValue val + 1)"
    and f: "need_decl_file fl2 = (need_decl_file fl \<and> \<not> names_file (attr, val, filename_table_size u1))"
    by blast
  note ih = Cons.IH [OF rest]
  have av: "attribute_values env u2 attrs = attribute_values env u1 attrs"
    by (rule attribute_values_same_cursor [symmetric]) (rule sc)
  show ?case
    using ih aa c f by (auto simp: av split: option.splits)
qed

lemmas files_defs = files_sections_def files_state_def files_abbrevs_def files_unit_def
  lines_prologue_def stmt_list_attr_def decl_file_attr_def sec_offset_value_def data1_value_def
  data1_five_def

lemma files_second_child_run:
  "parse_die files_sections (need_columns [COL_DECL_FILE]) files_state_at_second_child
     empty_builders =
   Inr (files_state_at_second_child\<lparr>offset := 21\<rparr>, empty_builders\<lparr>col_decl_file := [1]\<rparr>)"
  by (simp add: decoder_defs files_defs files_state_at_second_child_def need_columns_def
      empty_builders_def form_list_defs DW_FORM_defs DW_AT_defs)

lemma files_second_child_values:
  "attribute_values files_sections (files_state_at_second_child\<lparr>offset := 19\<rparr>)
     [decl_file_attr, decl_file_attr] = [(decl_file_attr, data1_five, 2), (decl_file_attr, data1_value, 2)]"
  by (simp add: after_attribute_def files_sections_def files_state_at_second_child_def
      files_state_def decl_file_attr_def DW_FORM_defs DW_AT_defs)

lemma files_table:
  "parseFilenameTable files_sections (files_state\<lparr>offset := 16\<rparr>) 0 =
     Inr (files_state\<lparr>offset := 16, filename_table := Some [[], ''a.c'', ''b.c''],
            filename_table_size := 2\<rparr>)"
  by (simp add: parseFilenameTable_def files_defs Let_def)

subsection \<open>A unit of more than 65536 entries\<close>

lemma long_child:
  assumes "12 \<le> p" "p \<le> 65547"
  shows "getULEB128 long_sections (of_nat p) = Some (2, of_nat (Suc p))"
proof -
  have u: "unat (of_nat p :: u64) = p" using assms by (simp add: unat_of_nat)
  have "(12 :: u64) \<le> of_nat p" "(of_nat p :: u64) \<le> 65547" "(of_nat p :: u64) \<noteq> 11"
    using assms u by (simp_all add: word_le_nat_alt unat_arith_simps)
  then show ?thesis by (simp add: long_sections_def)
qed

lemma long_child_die:
  assumes "12 \<le> p" "p \<le> 65547"
  shows "parse_die long_sections (need_columns [COL_OFFSET]) (long_state_at p) b =
     Inr (long_state_at (Suc p), b\<lparr>col_offset := col_offset b @ [of_nat p]\<rparr>)"
  using long_child [OF assms]
  by (simp add: parse_die_def parse_real_entry_def long_state_at_def long_state_def
      long_abbrevs_def need_columns_def Let_def)

lemma long_loop:
  assumes "n + k = 65536" "p + k \<le> 65548" "12 \<le> p"
  shows "parse_loop long_sections (need_columns [COL_OFFSET]) (long_state_at p) b n =
     Inr (long_state_at (p + k), b\<lparr>col_offset := col_offset b @ map of_nat [p ..< p + k]\<rparr>, 65536)"
  using assms
proof (induction k arbitrary: n p b)
  case 0
  then show ?case by (simp add: parse_loop.simps)
next
  case (Suc k)
  from Suc.prems have p: "12 \<le> p" "p \<le> 65547" and n: "n < 65536" by simp_all
  from Suc.prems have "Suc n + k = 65536" "Suc p + k \<le> 65548" "12 \<le> Suc p" by simp_all
  note ih = Suc.IH [OF this]
  have st: "stack (long_state_at (Suc p)) \<noteq> []" by (simp add: long_state_at_def)
  have up: "[p ..< p + Suc k] = p # [Suc p ..< Suc p + k]" by (simp add: upt_conv_Cons)
  have "parse_loop long_sections (need_columns [COL_OFFSET]) (long_state_at p) b n =
      parse_loop long_sections (need_columns [COL_OFFSET]) (long_state_at (Suc p))
        (b\<lparr>col_offset := col_offset b @ [of_nat p]\<rparr>) (Suc n)"
    using n st by (subst parse_loop.simps) (simp add: long_child_die [OF p])
  also have "\<dots> = Inr (long_state_at (Suc p + k),
      b\<lparr>col_offset := col_offset b @ [of_nat p]\<rparr>\<lparr>col_offset :=
        col_offset (b\<lparr>col_offset := col_offset b @ [of_nat p]\<rparr>) @ map of_nat [Suc p ..< Suc p + k]\<rparr>,
      65536)"
    by (rule ih)
  also have "\<dots> = Inr (long_state_at (p + Suc k),
      b\<lparr>col_offset := col_offset b @ map of_nat [p ..< p + Suc k]\<rparr>, 65536)"
    by (simp only: up) simp
  finally show ?case .
qed

lemma long_first:
  "parseEntries long_sections [COL_OFFSET] long_state = Inr (long_chunk, long_state_at 65547)"
proof -
  have d: "parse_die long_sections (need_columns [COL_OFFSET]) long_state empty_builders =
     Inr (long_state_at 12, empty_builders\<lparr>col_offset := [11]\<rparr>)"
    by (simp add: parse_die_def parse_real_entry_def long_state_at_def long_state_def
      long_abbrevs_def long_sections_def need_columns_def empty_builders_def Let_def)
  have st: "stack (long_state_at 12) \<noteq> []" by (simp add: long_state_at_def)
  have l: "parse_loop long_sections (need_columns [COL_OFFSET]) (long_state_at 12)
       (empty_builders\<lparr>col_offset := [11]\<rparr>) 1 =
     Inr (long_state_at (12 + 65535),
          empty_builders\<lparr>col_offset := [11]\<rparr>\<lparr>col_offset :=
             col_offset (empty_builders\<lparr>col_offset := [11]\<rparr>) @ map of_nat [12 ..< 12 + 65535]\<rparr>, 65536)"
    by (rule long_loop) simp_all
  have "parse_loop long_sections (need_columns [COL_OFFSET]) long_state empty_builders 0 =
     Inr (long_state_at 65547, empty_builders\<lparr>col_offset := 11 # map of_nat [12 ..< 65547]\<rparr>, 65536)"
    using st l by (subst parse_loop.simps) (simp del: upt_rec_numeral add: d)
  then show ?thesis
    by (simp del: upt_rec_numeral add: parseEntries_def assemble_column_def long_chunk_def)
qed

lemma long_second:
  "parseEntries long_sections [COL_OFFSET] (long_state_at 65547) =
     Inr (long_chunk_rest, long_state\<lparr>offset := 65549\<rparr>)"
  by (simp add: parseEntries_def parse_loop.simps decoder_defs long_state_at_def long_state_def
      long_abbrevs_def long_sections_def need_columns_def empty_builders_def assemble_column_def
      long_chunk_rest_def)

lemma long_advances: "extractor_advances long_sections"
proof -
  have "\<And>off :: u64. off \<le> 65547 \<Longrightarrow> off < off + 1"
    by (simp add: word_le_nat_alt word_less_nat_alt unat_arith_simps) 
  then show ?thesis
    by (auto simp: extractor_advances_def long_sections_def split: if_splits)
qed

section \<open>Lemmas about the scheduler\<close>

lemma filter_update_length:
  "i < length xs \<Longrightarrow>
   length (filter P (xs[i := y])) + (if P (xs ! i) then 1 else 0)
     = length (filter P xs) + (if P y then 1 else 0)"
proof (induction xs arbitrary: i)
  case Nil
  then show ?case by simp
next
  case (Cons x xs)
  then show ?case by (cases i) auto
qed

lemma idle_thread_bound:
  assumes "i < length ws" and "\<not> busy (ws ! i)" and "length ws \<le> n"
  shows "length (filter busy ws) < n"
proof -
  have "ws ! i \<in> set ws" using assms(1) by simp
  then have "length (filter busy ws) < length ws"
    using assms(2) by (rule length_filter_less)
  with assms(3) show ?thesis by simp
qed

lemma loop_head_idle:
  "loop_head n i (s\<lparr>pool := (pool s)[i := w]\<rparr>) = loop_head n i s"
  by (simp add: loop_head_def)

lemma publish_fields:
  "pool (publish unit chunk unit' s) = pool s"
  "elf (publish unit chunk unit' s) = elf s"
  "is_stopped (publish unit chunk unit' s) = is_stopped s"
  "units_in_progress (publish unit chunk unit' s) = units_in_progress s - 1"
  "units_queue (publish unit chunk unit' s)
     = (if eof unit' then units_queue s else unit' # units_queue s)"
  "delivery_queue (publish unit chunk unit' s)
     = (if chunk_nonempty chunk
        then delivery_queue s @ [(chunk, offset unit' - offset unit)] else delivery_queue s)"
  by (simp_all add: publish_def Let_def)

lemma loop_head_backpressure:
  assumes "backpressure n s" and i: "i < length (pool s)" and idle: "\<not> busy (pool s ! i)"
  shows "backpressure n (loop_head n i s)"
proof -
  note upd = filter_update_length [OF i, of busy]
  from assms have len: "length (pool s) \<le> n"
    and cnt: "units_in_progress s = length (filter busy (pool s))"
    and bnd: "length (delivery_queue s) + units_in_progress s \<le> 2 * n"
    by (simp_all add: backpressure_def)
  have free: "length (filter busy (pool s)) < n"
    by (rule idle_thread_bound [OF i idle len])
  from idle upd [of Waiting] upd [of Finished] upd [of "Parsing (hd (units_queue s))"]
  show ?thesis
    using len cnt bnd free by (auto simp: loop_head_def backpressure_def)
qed

lemma worker_step_backpressure:
  assumes "backpressure n s"
  shows "backpressure n (worker_step env header n i s)"
proof (cases "i < length (pool s)")
  case False
  with assms show ?thesis by (simp add: worker_step_def)
next
  case i: True
  note upd = filter_update_length [OF i, of busy]
  from assms have len: "length (pool s) \<le> n"
    and cnt: "units_in_progress s = length (filter busy (pool s))"
    and bnd: "length (delivery_queue s) + units_in_progress s \<le> 2 * n"
    by (simp_all add: backpressure_def)
  show ?thesis
  proof (cases "pool s ! i")
    case Ready
    with loop_head_backpressure [OF assms i] i show ?thesis by (simp add: worker_step_def)
  next
    case Waiting
    with loop_head_backpressure [OF assms i] i show ?thesis by (simp add: worker_step_def)
  next
    case (Parsing unit)
    show ?thesis
    proof (cases "parseEntries env header unit")
      case (Inl e)
      with Parsing upd [of Failed] i len cnt bnd show ?thesis
        by (auto simp: worker_step_def backpressure_def)
    next
      case (Inr r)
      obtain chunk unit' where r: "r = (chunk, unit')" by (cases r)
      define s1 where "s1 = (publish unit chunk unit' s)\<lparr>pool := (pool s)[i := Ready]\<rparr>"
      from Parsing upd [of Ready] have pos: "length (filter busy (pool s)) =
          Suc (length (filter busy ((pool s)[i := Ready])))" by simp
      with len cnt bnd have "backpressure n s1"
        by (auto simp: s1_def backpressure_def publish_fields)
      moreover have "i < length (pool s1)" "\<not> busy (pool s1 ! i)"
        using i by (simp_all add: s1_def)
      ultimately have "backpressure n (loop_head n i s1)" by (rule loop_head_backpressure)
      moreover have "loop_head n i s1 = loop_head n i (publish unit chunk unit' s)"
        using loop_head_idle [of n i "publish unit chunk unit' s" Ready]
        by (simp add: s1_def publish_fields)
      ultimately show ?thesis
        using Parsing Inr r i by (simp add: worker_step_def)
    qed
  next
    case Finished
    with i assms show ?thesis by (simp add: worker_step_def)
  next
    case Failed
    with i assms show ?thesis by (simp add: worker_step_def)
  qed
qed

lemma worker_step_elf: "elf (worker_step env header n i s) = elf s"
  by (auto simp: worker_step_def loop_head_def publish_fields
      split: worker.splits sum.splits prod.splits)

lemma worker_step_pool_length:
  "length (pool (worker_step env header n i s)) = length (pool s)"
  by (auto simp: worker_step_def loop_head_def publish_fields
      split: worker.splits sum.splits prod.splits)

lemma generate_backpressure:
  assumes "backpressure n s" and "\<not> elf s \<longrightarrow> pool s = []"
  shows "backpressure n (snd (generate env n s)) \<and>
         (\<not> elf (snd (generate env n s)) \<longrightarrow> pool (snd (generate env n s)) = [])"
proof -
  obtain e s1 where init: "initializeIfNeeded env n s = (e, s1)" by (cases "initializeIfNeeded env n s")
  have s1: "backpressure n s1 \<and> elf s1"
    using init assms
    by (auto simp: initializeIfNeeded_def backpressure_def Let_def
        split: if_splits prod.splits option.splits)
  then show ?thesis
    using init
    by (auto simp: generate_def backpressure_def split: option.splits list.splits)
qed


lemma evolves_backpressure:
  assumes "evolves env header n s t"
    and "backpressure n s" and "\<not> elf s \<longrightarrow> pool s = []"
  shows "backpressure n t \<and> (\<not> elf t \<longrightarrow> pool t = [])"
  using assms
proof (induction rule: evolves.induct)
  case (start env header n s)
  then show ?case by simp
next
  case (worker env header n s t i)
  then have "backpressure n t" "\<not> elf t \<longrightarrow> pool t = []" by simp_all
  then show ?case
    using worker_step_backpressure [of n t env header i]
      worker_step_elf [of env header n i t] worker_step_pool_length [of env header n i t]
    by auto
next
  case (consumer env header n s t)
  then have "backpressure n t" "\<not> elf t \<longrightarrow> pool t = []" by simp_all
  then show ?case by (rule generate_backpressure)
qed

lemma new_format_backpressure: "backpressure n new_format \<and> pool new_format = []"
  by (simp add: backpressure_def new_format_def)

lemma evolves_schedule:
  assumes "evolves env header n s t"
  shows "evolves env header n s (foldl (\<lambda>t i. worker_step env header n i t) t schedule)"
  using assms
proof (induction schedule arbitrary: t)
  case Nil
  then show ?case by simp
next
  case (Cons i schedule)
  from Cons.prems have "evolves env header n s (worker_step env header n i t)"
    by (rule evolves.worker)
  from Cons.IH [OF this] show ?case by simp
qed

lemma quad_generate:
  "generate quad_sections 2 new_format = (WaitForChunk, quad_started)"
  by (simp add: generate_def initializeIfNeeded_def new_format_def quad_sections_def
      UnitState_of_def quad_unit_def quad_started_def quad_state_def Let_def
      numeral_2_eq_2)



lemma quad_fields:
  "offset (quad_state base) = base + 11"
  "eof ((quad_state base)\<lparr>offset := pos\<rparr>) = (pos = base + 12)"
  "chunk_nonempty (quad_chunk base)"
  by (simp_all add: quad_state_def eof_def chunk_nonempty_def quad_chunk_def)

lemma quad_schedule:
  "foldl (\<lambda>t i. worker_step quad_sections [COL_OFFSET] 2 i t) quad_started
     [0, Suc 0, 0, Suc 0, 0, Suc 0] = quad_full"
  by (simp add: worker_step_def loop_head_def publish_def quad_started_def quad_full_def
      quad_parse quad_fields Let_def)

lemma quad_schedule_one_thread:
  "foldl (\<lambda>t i. worker_step quad_sections [COL_OFFSET] 2 i t) quad_started
     [Suc 0, Suc 0, Suc 0, Suc 0] = quad_backlog"
  by (simp add: worker_step_def loop_head_def publish_def quad_started_def quad_backlog_def
      quad_parse quad_fields Let_def)

lemma quad_started_evolves: "evolves quad_sections [COL_OFFSET] 2 new_format quad_started"
proof -
  have "evolves quad_sections [COL_OFFSET] 2 new_format
          (snd (generate quad_sections 2 new_format))"
    by (rule evolves.consumer [OF evolves.start])
  then show ?thesis by (simp add: quad_generate)
qed

lemma quad_full_reachable: "reachable quad_sections [COL_OFFSET] 2 quad_full"
  using evolves_schedule [OF quad_started_evolves, of "[0, Suc 0, 0, Suc 0, 0, Suc 0]"]
  by (simp only: quad_schedule reachable_def)

lemma quad_backlog_reachable: "reachable quad_sections [COL_OFFSET] 2 quad_backlog"
  using evolves_schedule [OF quad_started_evolves, of "[Suc 0, Suc 0, Suc 0, Suc 0]"]
  by (simp only: quad_schedule_one_thread reachable_def)

lemma initializeIfNeeded_stopped:
  "is_stopped (snd (initializeIfNeeded env n s)) = is_stopped s"
  by (auto simp: initializeIfNeeded_def Let_def split: prod.splits option.splits)

lemma initializeIfNeeded_queue:
  "fst (initializeIfNeeded env n s) = None \<Longrightarrow> is_stopped s \<Longrightarrow>
   delivery_queue (snd (initializeIfNeeded env n s)) = delivery_queue s"
  by (auto simp: initializeIfNeeded_def Let_def split: prod.splits option.splits)

lemma generate_stopped:
  assumes "is_stopped s"
  shows "fst (generate env n s) = EndOfStream \<and> is_stopped (snd (generate env n s)) \<and>
         delivery_queue (snd (generate env n s)) = delivery_queue s"
  using assms
  by (auto simp: generate_def initializeIfNeeded_def Let_def split: prod.splits option.splits)

lemma worker_step_stopped: "is_stopped (worker_step env header n i s) = is_stopped s"
  by (auto simp: worker_step_def loop_head_def publish_fields
      split: worker.splits sum.splits prod.splits)

lemma evolves_stopped:
  assumes "evolves env header n s t" and "is_stopped s"
  shows "is_stopped t"
  using assms
proof (induction rule: evolves.induct)
  case (start env header n s)
  then show ?case by simp
next
  case (worker env header n s t i)
  then show ?case by (simp add: worker_step_stopped)
next
  case (consumer env header n s t)
  then show ?case by (simp add: generate_stopped)
qed

lemma worker_run:
  assumes "unit_chunks env header unit chunks unit'"
    and "i < length (pool s)" and "pool s ! i = Parsing unit" and "\<not> is_stopped s"
    and "length (delivery_queue s) + length chunks \<le> n + 1"
  shows "map fst (delivery_queue ((worker_step env header n i ^^ length chunks) s))
           = map fst (delivery_queue s) @ chunks"
  using assms
proof (induction arbitrary: s rule: unit_chunks.induct)
  case (last_chunk env header unit chunk unit')
  from parseEntries_rows [OF last_chunk(1)] have "chunk_nonempty chunk"
    by (simp add: chunk_nonempty_def)
  with last_chunk show ?case
    by (simp add: worker_step_def loop_head_def publish_fields)
next
  case (next_chunk env header unit chunk unit1 chunks unit')
  from parseEntries_rows [OF next_chunk(1)] have ne: "chunk_nonempty chunk"
    by (simp add: chunk_nonempty_def)
  have "chunks \<noteq> []" using next_chunk(3) by (cases rule: unit_chunks.cases) simp_all
  then have len: "0 < length chunks" by simp
  define s1 where "s1 = worker_step env header n i s"
  from next_chunk(8) have "length (delivery_queue s) + length chunks \<le> n" by simp
  with len have room: "\<not> n < Suc (length (delivery_queue s))" by arith
  have s1: "i < length (pool s1)" "pool s1 ! i = Parsing unit1" "\<not> is_stopped s1"
    "delivery_queue s1 = delivery_queue s @ [(chunk, offset unit1 - offset unit)]"
    using next_chunk(1,2,5,6,7) ne room
    by (simp_all add: s1_def worker_step_def loop_head_def publish_fields)
  then have "length (delivery_queue s1) + length chunks \<le> n + 1"
    using next_chunk(8) by simp
  from next_chunk.IH [OF s1(1,2,3) this] s1(4)
  show ?case by (simp add: funpow_swap1 s1_def)
qed

lemma long_parsing_reachable: "reachable long_sections [COL_OFFSET] 2 long_parsing"
proof -
  let ?started = "long_parsing\<lparr>units_queue := [long_state], units_in_progress := 0,
    pool := [Ready, Ready]\<rparr>"
  have g: "generate long_sections 2 new_format = (WaitForChunk, ?started)"
    by (simp add: generate_def initializeIfNeeded_def new_format_def long_sections_def
      UnitState_of_def long_unit_def long_state_def long_parsing_def Let_def numeral_2_eq_2)
  have "evolves long_sections [COL_OFFSET] 2 new_format
          (snd (generate long_sections 2 new_format))"
    by (rule evolves.consumer [OF evolves.start])
  then have "evolves long_sections [COL_OFFSET] 2 new_format ?started" by (simp add: g)
  then have "evolves long_sections [COL_OFFSET] 2 new_format
      (worker_step long_sections [COL_OFFSET] 2 0 ?started)"
    by (rule evolves.worker)
  moreover have "worker_step long_sections [COL_OFFSET] 2 0 ?started = long_parsing"
    by (simp add: worker_step_def loop_head_def long_parsing_def)
  ultimately show ?thesis by (simp add: reachable_def)
qed

section \<open>The claims\<close>

text \<open>
  Claim C1: for a unit in which no entry carries a \<open>DW_AT_stmt_list\<close>, decoding with the
  decl_file column requested succeeds and every row of the column is position 0, the
  empty string. The code fills position 0 into every row (lemma
  \<open>decl_file_without_stmt_list\<close>), but it never builds the filename table of such a unit,
  and chunk assembly hands the null table to the column as its dictionary: position 0
  has no dictionary to be the empty string of. The unit below declares no attribute at
  all; the second column is the decl_file column of a unit with a table, for comparison.
\<close>

theorem decl_file_null_dictionary:
  "parseEntries demo_sections [COL_DECL_FILE] demo_state =
     Inr (\<lparr>columns = [ColumnLowCardinality None (ColumnUInt64 [0, 0, 0])], chunk_rows = 3\<rparr>,
          demo_state\<lparr>offset := 14\<rparr>) \<and>
   filename_table (demo_state\<lparr>offset := 14\<rparr>) = None \<and>
   row_strings (ColumnLowCardinality None (ColumnUInt64 [0, 0, 0])) = None \<and>
   row_strings (ColumnLowCardinality (Some (ColumnUniqueString [[], ''a.c'', ''b.c'']))
                  (ColumnUInt64 [0, 1, 0])) = Some [[], ''a.c'', []]"
proof -
  have "parseEntries demo_sections [COL_DECL_FILE] demo_state =
     Inr (\<lparr>columns = [ColumnLowCardinality None (ColumnUInt64 [0, 0, 0])], chunk_rows = 3\<rparr>,
          demo_state\<lparr>offset := 14\<rparr>)"
    by (simp add: parseEntries_def parse_loop.simps decoder_defs demo_defs need_columns_def
      empty_builders_def assemble_column_def)
  moreover have "filename_table (demo_state\<lparr>offset := 14\<rparr>) = None"
    by (simp add: demo_state_def)
  ultimately show ?thesis by simp
qed

text \<open>
  Claim C2, as the spec states it, fails on the code in two ways. Under version 5 an
  entry with \<open>DW_AT_decl_file\<close> 0 gets position 1 of the dictionary (the first real
  filename, a.c below), not position 2: the second row of the first chunk below is that
  entry, a child of the compile unit entry, and its third row is the terminator. And an
  entry whose \<open>DW_AT_decl_file\<close> is not below the size of the table gets position 0, not
  \<open>raw + 1\<close>: the second row of the second chunk is an entry with raw value 5 in a unit
  whose table has size 2.
\<close>

theorem decl_file_zero_version_5_counterexample:
  "parseEntries (lines_sections 5) [COL_DECL_FILE] lines_state =
     Inr (\<lparr>columns = [ColumnLowCardinality (Some (ColumnUniqueString [[], ''a.c'', ''b.c'']))
                         (ColumnUInt64 [0, 1, 0])], chunk_rows = 3\<rparr>,
          lines_state\<lparr>offset := 19, filename_table := Some [[], ''a.c'', ''b.c''],
            filename_table_size := 2\<rparr>) \<and>
   parseEntries (lines_sections 5) [COL_DECL_FILE] lines_state \<noteq>
     Inr (\<lparr>columns = [ColumnLowCardinality (Some (ColumnUniqueString [[], ''a.c'', ''b.c'']))
                         (ColumnUInt64 [0, 2, 0])], chunk_rows = 3\<rparr>,
          lines_state\<lparr>offset := 19, filename_table := Some [[], ''a.c'', ''b.c''],
            filename_table_size := 2\<rparr>) \<and>
   getVersion (lines_prologue 5) = 5 \<and> getRawUValue data1_value = 0 \<and>
   parseEntries files_sections [COL_DECL_FILE] files_state =
     Inr (\<lparr>columns = [ColumnLowCardinality (Some (ColumnUniqueString [[], ''a.c'', ''b.c'']))
                         (ColumnUInt64 [0, 0, 1, 0])], chunk_rows = 4\<rparr>,
          files_state\<lparr>offset := 22, filename_table := Some [[], ''a.c'', ''b.c''],
            filename_table_size := 2\<rparr>) \<and>
   parseEntries files_sections [COL_DECL_FILE] files_state \<noteq>
     Inr (\<lparr>columns = [ColumnLowCardinality (Some (ColumnUniqueString [[], ''a.c'', ''b.c'']))
                         (ColumnUInt64 [0, 5 + 1, 1, 0])], chunk_rows = 4\<rparr>,
          files_state\<lparr>offset := 22, filename_table := Some [[], ''a.c'', ''b.c''],
            filename_table_size := 2\<rparr>) \<and>
   getRawUValue data1_five = 5"
proof -
  have l: "parseEntries (lines_sections 5) [COL_DECL_FILE] lines_state =
     Inr (\<lparr>columns = [ColumnLowCardinality (Some (ColumnUniqueString [[], ''a.c'', ''b.c'']))
                         (ColumnUInt64 [0, 1, 0])], chunk_rows = 3\<rparr>,
          lines_state\<lparr>offset := 19, filename_table := Some [[], ''a.c'', ''b.c''],
            filename_table_size := 2\<rparr>)"
    by (simp add: parseEntries_def parse_loop.simps decoder_defs lines_defs need_columns_def
      empty_builders_def assemble_column_def form_list_defs DW_FORM_defs DW_AT_defs)
  have f: "parseEntries files_sections [COL_DECL_FILE] files_state =
     Inr (\<lparr>columns = [ColumnLowCardinality (Some (ColumnUniqueString [[], ''a.c'', ''b.c'']))
                         (ColumnUInt64 [0, 0, 1, 0])], chunk_rows = 4\<rparr>,
          files_state\<lparr>offset := 22, filename_table := Some [[], ''a.c'', ''b.c''],
            filename_table_size := 2\<rparr>)"
    by (simp add: parseEntries_def parse_loop.simps decoder_defs files_defs need_columns_def
      empty_builders_def assemble_column_def form_list_defs DW_FORM_defs DW_AT_defs)
  show ?thesis
    by (simp only: l f) (simp add: lines_prologue_def data1_value_def data1_five_def)
qed

text \<open>
  Claim C2, amended. Every entry that is not a terminator fills the decl_file column
  with one position: \<open>raw + 1\<close> for the first of its \<open>DW_AT_decl_file\<close> attributes whose
  extracted form is in the integer group and whose raw value is below the size of the
  filename table at that attribute, and position 0 when the entry has no such attribute
  (an attribute whose raw value is not below the size is passed over). The table that
  \<open>parseFilenameTable\<close> builds has the empty string at position 0 and holds the
  prologue's file names from position 2 under version 4 and older, where position 1 is a
  second empty string, and from position 1 under version 5 and newer: for
  \<open>DW_AT_decl_file\<close> 0 the position is 1 under every version, the empty string under
  version \<open>\<le> 4\<close> and the first real filename under version \<open>\<ge> 5\<close>.
\<close>

theorem decl_file_position:
  assumes "getULEB128 env (offset unit) = Some (abbrev_code, pos)"
    and "abbrev_code \<noteq> 0"
    and "unit_abbrevs unit (ucast abbrev_code) = Some abbrev"
    and "parse_die env need unit b = Inr (unit', b')"
  shows "col_decl_file b' = col_decl_file b @
           ins (need COL_DECL_FILE)
             (decl_file_index (attribute_values env (unit\<lparr>offset := pos\<rparr>) (attributes abbrev))) \<and>
         (\<forall>unit0 off unit1. parseFilenameTable env unit0 off = Inr unit1 \<longrightarrow>
            (\<exists>prologue. prologue_parse env (dwarf_unit unit0) off = Some prologue \<and>
               filename_table_size unit1 =
                 (if getVersion prologue \<le> 4 then 1 else 0) + length (FileNames prologue) \<and>
               getDataAt (filename_table unit1) 0 = Some [] \<and>
               (getVersion prologue \<le> 4 \<longrightarrow> getDataAt (filename_table unit1) 1 = Some []) \<and>
               (\<forall>i < length (FileNames prologue).
                  getDataAt (filename_table unit1)
                      (i + (if getVersion prologue \<le> 4 then 2 else 1)) =
                    Some (case FileNames prologue ! i of
                            None \<Rightarrow> ''<error>'' | Some c_str \<Rightarrow> c_str))))"
proof (intro conjI allI impI)
  let ?u = "unit\<lparr>offset := pos\<rparr>"
  let ?fl = "\<lparr>need_name = need COL_NAME, need_linkage_name = need COL_LINKAGE_NAME,
              need_decl_file = need COL_DECL_FILE, need_decl_line = need COL_DECL_LINE\<rparr>"
  let ?b = "b\<lparr>col_offset := col_offset b @ ins (need COL_OFFSET) (offset unit)\<rparr>"
  define b0 where "b0 = b\<lparr>col_offset := col_offset b @ ins (need COL_OFFSET) (offset unit),
      col_ancestor_tags := col_ancestor_tags b @
        (if need COL_ANCESTOR_TAGS then map entry_tag (rev (stack unit)) else []),
      col_ancestor_dwarf_offsets := col_ancestor_dwarf_offsets b @
        (if need COL_ANCESTOR_TAGS \<and> need COL_ANCESTOR_OFFSETS
         then map entry_offset (rev (stack unit)) else []),
      col_ancestor_array_offsets := col_ancestor_array_offsets b @
        ins (need COL_ANCESTOR_TAGS)
          (length (col_ancestor_tags b @
             (if need COL_ANCESTOR_TAGS then map entry_tag (rev (stack unit)) else [])))\<rparr>"
  have b0: "col_decl_file b0 = col_decl_file b" by (simp add: b0_def)
  have re: "parse_real_entry env need ?u (offset unit) abbrev_code b0 = Inr (unit', b')"
    using assms by (simp add: parse_die_def Let_def b0_def)
  from re assms(3) obtain u2 b2 fl2 where
    pa: "parse_attributes env need (getTag abbrev) (attributes abbrev)
           (?u, b0\<lparr>col_tag := col_tag b0 @ ins (need COL_TAG) (getTag abbrev)\<rparr>, ?fl) = Inr (u2, b2, fl2)"
    and fin: "col_decl_file b' = col_decl_file b2 @ ins (need_decl_file fl2) 0"
    by (auto simp: parse_real_entry_def Let_def split: if_splits sum.splits)
  from parse_attributes_file [OF pa] b0 fin
  show "col_decl_file b' = col_decl_file b @
           ins (need COL_DECL_FILE)
             (decl_file_index (attribute_values env ?u (attributes abbrev)))"
    by (auto simp: decl_file_index_def split: option.splits)
next
  fix unit0 off unit1
  assume "parseFilenameTable env unit0 off = Inr unit1"
  from parseFilenameTable_table [OF this] obtain prologue where
    p: "prologue_parse env (dwarf_unit unit0) off = Some prologue"
    and t: "filename_table unit1 =
       Some ([] # (if getVersion prologue \<le> 4 then [[]] else []) @
             map (\<lambda>entry. case entry of None \<Rightarrow> ''<error>'' | Some c_str \<Rightarrow> c_str)
               (FileNames prologue))"
    and z: "filename_table_size unit1 =
       (if getVersion prologue \<le> 4 then 1 else 0) + length (FileNames prologue)"
    by blast
  show "\<exists>prologue. prologue_parse env (dwarf_unit unit0) off = Some prologue \<and>
               filename_table_size unit1 =
                 (if getVersion prologue \<le> 4 then 1 else 0) + length (FileNames prologue) \<and>
               getDataAt (filename_table unit1) 0 = Some [] \<and>
               (getVersion prologue \<le> 4 \<longrightarrow> getDataAt (filename_table unit1) 1 = Some []) \<and>
               (\<forall>i < length (FileNames prologue).
                  getDataAt (filename_table unit1)
                      (i + (if getVersion prologue \<le> 4 then 2 else 1)) =
                    Some (case FileNames prologue ! i of
                            None \<Rightarrow> ''<error>'' | Some c_str \<Rightarrow> c_str))"
    using p t z by (intro exI [of _ prologue]) (simp add: getDataAt_def)
qed

theorem decl_file_position_witness:
  "getULEB128 files_sections (offset files_state_at_second_child) = Some (3, 19) \<and>
   (3 :: u64) \<noteq> 0 \<and>
   unit_abbrevs files_state_at_second_child (ucast (3 :: u64)) =
     Some \<lparr>getTag = 0x34, hasChildren = False, attributes = [decl_file_attr, decl_file_attr]\<rparr> \<and>
   parse_die files_sections (need_columns [COL_DECL_FILE]) files_state_at_second_child
     empty_builders =
   Inr (files_state_at_second_child\<lparr>offset := 21\<rparr>, empty_builders\<lparr>col_decl_file := [1]\<rparr>) \<and>
   attribute_values files_sections (files_state_at_second_child\<lparr>offset := 19\<rparr>)
     [decl_file_attr, decl_file_attr] = [(decl_file_attr, data1_five, 2), (decl_file_attr, data1_value, 2)] \<and>
   getRawUValue data1_five = 5 \<and> getRawUValue data1_value = 0 \<and>
   decl_file_index [(decl_file_attr, data1_five, 2), (decl_file_attr, data1_value, 2)] = 1 \<and>
   parseFilenameTable files_sections (files_state\<lparr>offset := 16\<rparr>) 0 =
     Inr (files_state\<lparr>offset := 16, filename_table := Some [[], ''a.c'', ''b.c''],
            filename_table_size := 2\<rparr>) \<and>
   prologue_parse files_sections files_unit 0 = Some (lines_prologue 5) \<and>
   getDataAt (Some [[], ''a.c'', ''b.c'']) 1 = Some ''a.c''"
proof -
  let ?a = "\<lparr>getTag = 0x34, hasChildren = False, attributes = [decl_file_attr, decl_file_attr]\<rparr>"
  have h1: "getULEB128 files_sections (offset files_state_at_second_child) = Some (3, 19)"
    by (simp add: files_sections_def files_state_at_second_child_def)
  have h2: "(3 :: u64) \<noteq> 0" by simp
  have h3: "unit_abbrevs files_state_at_second_child (ucast (3 :: u64)) = Some ?a"
    by (simp add: files_state_at_second_child_def files_state_def files_abbrevs_def)
  note t = decl_file_position [OF h1 h2 h3 files_second_child_run]
  from t have c: "col_decl_file (empty_builders\<lparr>col_decl_file := [1]\<rparr>) =
      col_decl_file empty_builders @ ins (need_columns [COL_DECL_FILE] COL_DECL_FILE)
        (decl_file_index (attribute_values files_sections
           (files_state_at_second_child\<lparr>offset := 19\<rparr>) (attributes ?a)))"
    by blast
  have a: "attributes ?a = [decl_file_attr, decl_file_attr]" by simp
  from c [unfolded a files_second_child_values]
  have i: "decl_file_index [(decl_file_attr, data1_five, 2), (decl_file_attr, data1_value, 2)] = 1"
    by (simp add: empty_builders_def need_columns_def)
  have p: "prologue_parse files_sections files_unit 0 = Some (lines_prologue 5)"
    by (simp add: files_sections_def)
  from t files_table obtain prologue where
    q: "prologue_parse files_sections (dwarf_unit (files_state\<lparr>offset := 16\<rparr>)) 0 = Some prologue"
    and e: "\<forall>i < length (FileNames prologue).
        getDataAt (filename_table (files_state\<lparr>offset := 16, filename_table := Some [[], ''a.c'', ''b.c''],
            filename_table_size := 2\<rparr>))
          (i + (if getVersion prologue \<le> 4 then 2 else 1)) =
          Some (case FileNames prologue ! i of None \<Rightarrow> ''<error>'' | Some c_str \<Rightarrow> c_str)"
    by blast
  from q p have pr: "prologue = lines_prologue 5" by (simp add: files_state_def)
  from e [unfolded pr] have d: "getDataAt (Some [[], ''a.c'', ''b.c'']) 1 = Some ''a.c''"
    by (simp add: lines_prologue_def)
  have r: "getRawUValue data1_five = 5" "getRawUValue data1_value = 0"
    by (simp_all add: data1_five_def data1_value_def)
  from h1 h2 h3 files_second_child_run files_second_child_values r i files_table p d
  show ?thesis by blast
qed

text \<open>
  Claim C3, as the spec states it, fails on the code for a pool of two threads: each
  thread passes the test of the delivery queue while it holds two chunks or fewer, takes
  a unit, and publishes a chunk. The state below is reached by one call of \<open>generate\<close>
  (which starts the pool) and three critical sections of each thread; its delivery queue
  holds four chunks, more than \<open>N + 1 = 3\<close>.
\<close>

theorem delivery_queue_exceeds_bound_counterexample:
  "reachable quad_sections [COL_OFFSET] 2 quad_full \<and>
   length (delivery_queue quad_full) = 4 \<and>
   \<not> length (delivery_queue quad_full) \<le> 2 + 1"
  using quad_full_reachable by (simp add: quad_full_def)

text \<open>
  Claim C3, amended. In every reachable state of the scheduler with a pool of \<open>N\<close>
  threads, the chunks of the delivery queue and the units in progress are at most
  \<open>2 * N\<close> together, so the delivery queue holds at most \<open>2 * N\<close> chunks: a thread that
  finds more than \<open>N\<close> chunks in the queue, under the mutex, waits on \<open>wake_up_threads\<close>
  instead of taking a unit, but each of the \<open>N\<close> threads may have taken a unit while
  the queue held \<open>N\<close> chunks or fewer.
\<close>

theorem delivery_queue_bound:
  assumes "reachable env header num_threads s"
  shows "length (delivery_queue s) + units_in_progress s \<le> 2 * num_threads \<and>
         length (delivery_queue s) \<le> 2 * num_threads \<and>
         (\<forall>i < length (pool s).
            pool s ! i = Ready \<and> units_queue s \<noteq> [] \<and> \<not> is_stopped s \<and>
            length (delivery_queue s) > num_threads \<longrightarrow>
            worker_step env header num_threads i s = s\<lparr>pool := (pool s)[i := Waiting]\<rparr>)"
proof -
  from assms have "evolves env header num_threads new_format s" by (simp add: reachable_def)
  from evolves_backpressure [OF this] new_format_backpressure [of num_threads]
  have "backpressure num_threads s" by simp
  then show ?thesis by (simp add: backpressure_def worker_step_def loop_head_def)
qed

theorem delivery_queue_bound_witness:
  "reachable quad_sections [COL_OFFSET] 2 quad_backlog \<and>
   length (delivery_queue quad_backlog) + units_in_progress quad_backlog \<le> 2 * 2 \<and>
   length (delivery_queue quad_backlog) = 3 \<and>
   pool quad_backlog ! 0 = Ready \<and> units_queue quad_backlog \<noteq> [] \<and>
   \<not> is_stopped quad_backlog \<and>
   worker_step quad_sections [COL_OFFSET] 2 0 quad_backlog
     = quad_backlog\<lparr>pool := [Waiting, Waiting]\<rparr>"
proof -
  note t = delivery_queue_bound [OF quad_backlog_reachable]
  from t have "length (delivery_queue quad_backlog) + units_in_progress quad_backlog \<le> 2 * 2"
    by blast
  moreover have f: "length (delivery_queue quad_backlog) = 3" "pool quad_backlog ! 0 = Ready"
    "units_queue quad_backlog \<noteq> []" "\<not> is_stopped quad_backlog"
    "0 < length (pool quad_backlog)" "(pool quad_backlog)[0 := Waiting] = [Waiting, Waiting]"
    by (simp_all add: quad_backlog_def)
  moreover from t f have "worker_step quad_sections [COL_OFFSET] 2 0 quad_backlog
      = quad_backlog\<lparr>pool := [Waiting, Waiting]\<rparr>"
    by simp
  ultimately show ?thesis using quad_backlog_reachable by blast
qed

text \<open>
  Claim C4. For every attribute whose extracted form is one of the ten reference forms,
  \<open>attr_int\<close> holds the target offset made absolute in \<open>.debug_info\<close>: the offset of the
  unit is added to the payload of a unit-relative wire form, and the payload of the other
  reference forms is taken as it is; \<open>attr_str\<close> gets the default value. The witness is
  the spec's example: a \<open>ref4\<close> payload 0x10 in the unit at 0x1000 gives 0x1010.
\<close>

theorem reference_offset_is_absolute:
  assumes "extractValue env (dwarf_unit unit) (Form attr)
             (case ImplicitConst attr of Some c \<Rightarrow> c | None \<Rightarrow> 0) (offset unit) = Some (val, pos)"
    and "getForm val \<in> set reference_forms"
    and "parse_attribute env need tag attr (unit, b, fl) = Inr (unit', b', fl')"
  shows "col_attr_int b' = col_attr_int b @ ins (need COL_ATTR_INT)
           (if getForm val \<in> set unit_relative_forms
            then getOffset (dwarf_unit unit) + getRawUValue val
            else getRawUValue val) \<and>
         col_attr_str b' = col_attr_str b @ ins (need COL_ATTR_STR) []"
  using parse_attribute_cols[OF assms(3)] assms(1,2)
  by (auto simp: spec_attr_int_def spec_attr_str_def reference_forms_class
      getAsReference_reference_forms)

theorem reference_offset_is_absolute_witness:
  "extractValue typed_sections (dwarf_unit typed_state) (Form type_attr) 0 (offset typed_state)
     = Some (ref4_value, 0x1010) \<and>
   getForm ref4_value \<in> set reference_forms \<and>
   getOffset (dwarf_unit typed_state) = 0x1000 \<and> getRawUValue ref4_value = 0x10 \<and>
   (\<exists>unit' b' fl'.
      parse_attribute typed_sections (need_columns [COL_ATTR_INT, COL_ATTR_STR]) 0x34 type_attr
        (typed_state, empty_builders, all_flags) = Inr (unit', b', fl') \<and>
      col_attr_int b' = [0x1010] \<and> col_attr_str b' = [[]])"
proof -
  have ex: "extractValue typed_sections (dwarf_unit typed_state) (Form type_attr)
      (case ImplicitConst type_attr of Some c \<Rightarrow> c | None \<Rightarrow> 0) (offset typed_state)
      = Some (ref4_value, 0x1010)"
    by (simp add: typed_sections_def typed_state_def type_attr_def)
  have rf: "getForm ref4_value \<in> set reference_forms"
    by (simp add: ref4_value_def reference_forms_def)
  have ur: "getForm ref4_value \<in> set unit_relative_forms"
    by (simp add: ref4_value_def unit_relative_forms_def)
  from reference_offset_is_absolute [OF ex rf typed_run] ex rf ur typed_run
  show ?thesis
    by (simp add: need_columns_def empty_builders_def typed_state_def typed_unit_def
        ref4_value_def type_attr_def)
qed

text \<open>
  Claim C5, as the spec states it, fails on the code: the size column is the difference
  of the offsets cast to 32 bits. The only entry of the unit below is 4294967296 bytes
  long, from offset 11 to the end of the unit, and its size is 0.
\<close>

theorem size_of_4GiB_entry_counterexample:
  "parseEntries big_sections [COL_OFFSET, COL_SIZE] big_state =
     Inr (\<lparr>columns = [ColumnUInt64 [11], ColumnUInt32 [0]], chunk_rows = 1\<rparr>,
          big_state\<lparr>offset := 4294967307\<rparr>) \<and>
   eof (big_state\<lparr>offset := 4294967307\<rparr>) \<and>
   end_offset big_state - 11 = 4294967296 \<and>
   unat (0 :: u32) \<noteq> unat (end_offset big_state - 11)"
  by (simp add: parseEntries_def parse_loop.simps decoder_defs big_defs need_columns_def
      empty_builders_def assemble_column_def form_list_defs DW_FORM_defs DW_AT_defs)

text \<open>
  Claim C5, amended. When the offset and the size column are requested, the size of
  every row of a chunk is \<open>next_offset - offset\<close> truncated to the 32 bits of the column,
  where \<open>next_offset\<close> is the offset of the next row of the chunk or, for its last row,
  the cursor of the unit after the chunk, which is the unit's \<open>end_offset\<close> when the unit
  is at its end (as it is whenever the chunk has fewer than 65536 rows). Consequently
  the sum of the sizes over all chunks of a unit, in 32-bit arithmetic, is
  \<open>end_offset - first_DIE_offset\<close> truncated to 32 bits. (The truncation is the identity
  on every entry shorter than 4 GiB.)
\<close>

theorem size_is_truncated_offset_difference:
  assumes "COL_OFFSET \<in> set header" and "COL_SIZE \<in> set header"
  shows "(\<forall>chunk unit'. parseEntries env header unit = Inr (chunk, unit') \<longrightarrow>
            length (offset_values header chunk) = chunk_rows chunk \<and>
            length (size_values header chunk) = chunk_rows chunk \<and>
            (\<forall>r < chunk_rows chunk. size_values header chunk ! r =
                ucast ((offset_values header chunk @ [offset unit']) ! Suc r
                       - offset_values header chunk ! r)) \<and>
            (eof unit' \<longrightarrow> offset unit' = end_offset unit) \<and>
            (chunk_rows chunk < 65536 \<longrightarrow> eof unit')) \<and>
         (\<forall>chunks unit'. unit_chunks env header unit chunks unit' \<longrightarrow>
            sum_list (concat (map (size_values header) chunks))
              = ucast (end_offset unit - offset unit))"
proof (intro conjI allI impI)
  fix chunk unit'
  assume run: "parseEntries env header unit = Inr (chunk, unit')"
  note s = parseEntries_sizes [OF run assms]
  show "length (offset_values header chunk) = chunk_rows chunk" using s by simp
  show "length (size_values header chunk) = chunk_rows chunk" using s by simp
  show "chunk_rows chunk < 65536 \<Longrightarrow> eof unit'" using s by simp
  show "eof unit' \<Longrightarrow> offset unit' = end_offset unit" using s by (simp add: eof_def)
  fix r assume "r < chunk_rows chunk"
  then show "size_values header chunk ! r =
                ucast ((offset_values header chunk @ [offset unit']) ! Suc r
                       - offset_values header chunk ! r)" using s by simp
next
  fix chunks unit'
  assume "unit_chunks env header unit chunks unit'"
  from unit_chunks_sizes [OF this assms(2,1)]
  show "sum_list (concat (map (size_values header) chunks)) = ucast (end_offset unit - offset unit)"
    by (simp add: eof_def)
qed

theorem size_is_truncated_offset_difference_witness:
  "COL_OFFSET \<in> set [COL_OFFSET, COL_SIZE] \<and> COL_SIZE \<in> set [COL_OFFSET, COL_SIZE] \<and>
   parseEntries demo_sections [COL_OFFSET, COL_SIZE] demo_state =
     Inr (\<lparr>columns = [ColumnUInt64 [11, 12, 13], ColumnUInt32 [1, 1, 1]], chunk_rows = 3\<rparr>,
          demo_state\<lparr>offset := 14\<rparr>) \<and>
   unit_chunks demo_sections [COL_OFFSET, COL_SIZE] demo_state
     [\<lparr>columns = [ColumnUInt64 [11, 12, 13], ColumnUInt32 [1, 1, 1]], chunk_rows = 3\<rparr>]
     (demo_state\<lparr>offset := 14\<rparr>) \<and>
   size_values [COL_OFFSET, COL_SIZE]
     \<lparr>columns = [ColumnUInt64 [11, 12, 13], ColumnUInt32 [1, 1, 1]], chunk_rows = 3\<rparr> ! 2
     = ucast ((14 :: u64) - 13) \<and>
   sum_list (concat (map (size_values [COL_OFFSET, COL_SIZE])
      [\<lparr>columns = [ColumnUInt64 [11, 12, 13], ColumnUInt32 [1, 1, 1]], chunk_rows = 3\<rparr>]))
     = ucast (end_offset demo_state - offset demo_state)"
proof -
  let ?h = "[COL_OFFSET, COL_SIZE]"
  let ?c = "\<lparr>columns = [ColumnUInt64 [11, 12, 13], ColumnUInt32 [1, 1, 1]], chunk_rows = 3\<rparr>"
  have h: "COL_OFFSET \<in> set ?h" "COL_SIZE \<in> set ?h" by simp_all
  have e: "eof (demo_state\<lparr>offset := 14\<rparr>)" by (simp add: eof_def demo_state_def)
  have u: "unit_chunks demo_sections ?h demo_state [?c] (demo_state\<lparr>offset := 14\<rparr>)"
    by (rule unit_chunks.last_chunk [OF demo_chunk e])
  note t = size_is_truncated_offset_difference [OF h, of demo_sections demo_state]
  from t demo_chunk have
    "\<forall>r < chunk_rows ?c. size_values ?h ?c ! r =
        ucast ((offset_values ?h ?c @ [offset (demo_state\<lparr>offset := 14\<rparr>)]) ! Suc r
               - offset_values ?h ?c ! r)" by blast
  then have "size_values ?h ?c ! 2 =
        ucast ((offset_values ?h ?c @ [offset (demo_state\<lparr>offset := 14\<rparr>)]) ! Suc 2
               - offset_values ?h ?c ! 2)" by simp
  then have r2: "size_values ?h ?c ! 2 = ucast ((14 :: u64) - 13)"
    by (simp add: offset_values_def chunk_column_def)
  from t u have "sum_list (concat (map (size_values ?h) [?c]))
      = ucast (end_offset demo_state - offset demo_state)" by blast
  with h demo_chunk u r2 show ?thesis by blast
qed

text \<open>
  Claim C6. For every attribute of every decoded entry, the \<open>attr_form\<close> column records
  the form declared in the abbreviation (\<open>attr.Form\<close>), whatever form the extraction
  resolves, while the values of \<open>attr_int\<close> and \<open>attr_str\<close> are the projections of the
  spec's table by the class of the extracted form \<open>val.getForm()\<close>: \<open>spec_attr_int\<close> and
  \<open>spec_attr_str\<close> do not take the declared form.
\<close>

theorem attr_form_is_declared_form:
  assumes "extractValue env (dwarf_unit unit) (Form attr)
             (case ImplicitConst attr of Some c \<Rightarrow> c | None \<Rightarrow> 0) (offset unit) = Some (val, pos)"
    and "parse_attribute env need tag attr (unit, b, fl) = Inr (unit', b', fl')"
  shows "col_attr_form b' = col_attr_form b @ ins (need COL_ATTR_FORM) (Form attr) \<and>
         col_attr_int b' = col_attr_int b @
           ins (need COL_ATTR_INT) (spec_attr_int (dwarf_unit unit) val) \<and>
         col_attr_str b' = col_attr_str b @
           ins (need COL_ATTR_STR) (spec_attr_str env unit' (Attr attr) val)"
  using parse_attribute_cols[OF assms(2)] assms(1) by auto

theorem attr_form_is_declared_form_witness:
  "extractValue typed_sections (dwarf_unit typed_state) (Form const_attr) 0 0x1010
     = Some (udata_value, 0x1012) \<and>
   Form const_attr = DW_FORM_indirect \<and> getForm udata_value = DW_FORM_udata \<and>
   (\<exists>unit' b' fl'.
      parse_attribute typed_sections (need_columns [COL_ATTR_FORM, COL_ATTR_INT, COL_ATTR_STR]) 0x34
        const_attr (typed_state\<lparr>offset := 0x1010\<rparr>, empty_builders, all_flags)
        = Inr (unit', b', fl') \<and>
      col_attr_form b' = [DW_FORM_indirect] \<and> col_attr_int b' = [42] \<and> col_attr_str b' = [[]])"
proof -
  have ex: "extractValue typed_sections (dwarf_unit (typed_state\<lparr>offset := 0x1010\<rparr>))
      (Form const_attr) (case ImplicitConst const_attr of Some c \<Rightarrow> c | None \<Rightarrow> 0)
      (offset (typed_state\<lparr>offset := 0x1010\<rparr>)) = Some (udata_value, 0x1012)"
    by (simp add: typed_sections_def typed_state_def const_attr_def DW_FORM_defs)
  from attr_form_is_declared_form [OF ex indirect_run] ex indirect_run
  show ?thesis
    by (simp add: const_attr_def udata_value_def empty_builders_def)
qed

text \<open>
  Claim C7. When the decoder reads abbreviation code 0 it emits a terminator row: tag 0,
  empty name and linkage name, decl_file position 0, decl_line 0, and an empty slot of
  the attribute arrays (the offsets vector receives the current size of \<open>attr_name\<close>, and
  no attribute column grows: there is no attribute iteration); the size of the row is
  measured from the entry's offset to the position after the code. Then it pops the
  stack of the unit. It raises \<open>CANNOT_PARSE_DWARF\<close> "Stack underflow" if and only if the
  stack is empty at that pop.
\<close>

theorem null_entry_terminator_row:
  assumes "getULEB128 env (offset unit) = Some (0, pos)"
  shows "((parse_die env need unit b = Inl (CANNOT_PARSE_DWARF ''Stack underflow''))
            = (stack unit = [])) \<and>
         (stack unit \<noteq> [] \<longrightarrow>
            (\<exists>unit' b'. parse_die env need unit b = Inr (unit', b') \<and>
               stack unit' = butlast (stack unit) \<and> offset unit' = pos \<and>
               col_size b' = col_size b @ ins (need COL_SIZE) (ucast (pos - offset unit)) \<and>
               col_tag b' = col_tag b @ ins (need COL_TAG) 0 \<and>
               col_name b' = col_name b @ ins (need COL_NAME) [] \<and>
               col_linkage_name b' = col_linkage_name b @ ins (need COL_LINKAGE_NAME) [] \<and>
               col_decl_file b' = col_decl_file b @ ins (need COL_DECL_FILE) 0 \<and>
               col_decl_line b' = col_decl_line b @ ins (need COL_DECL_LINE) 0 \<and>
               col_attr_offsets b' =
                 col_attr_offsets b @ ins (need COL_ATTR_NAME) (length (col_attr_name b)) \<and>
               col_attr_name b' = col_attr_name b \<and> col_attr_form b' = col_attr_form b \<and>
               col_attr_int b' = col_attr_int b \<and> col_attr_str b' = col_attr_str b))"
  using assms by (simp add: parse_die_def parse_null_entry_def Let_def)

theorem null_entry_terminator_row_witness:
  "getULEB128 demo_sections (offset demo_state_at_terminator) = Some (0, 14) \<and>
   stack demo_state_at_terminator \<noteq> [] \<and>
   (\<exists>unit' b'. parse_die demo_sections (need_columns [COL_TAG, COL_NAME, COL_ATTR_INT])
        demo_state_at_terminator empty_builders = Inr (unit', b') \<and>
      stack unit' = [] \<and> offset unit' = 14 \<and> col_tag b' = [0] \<and> col_name b' = [[]] \<and>
      col_attr_offsets b' = [0] \<and> col_attr_int b' = [])"
proof -
  have r: "getULEB128 demo_sections (offset demo_state_at_terminator) = Some (0, 14)"
    by (simp add: demo_sections_def demo_state_at_terminator_def demo_state_def)
  have s: "stack demo_state_at_terminator \<noteq> []"
    by (simp add: demo_state_at_terminator_def)
  from null_entry_terminator_row [OF r, of "need_columns [COL_TAG, COL_NAME, COL_ATTR_INT]"
      empty_builders] s
  obtain unit' b' where
    "parse_die demo_sections (need_columns [COL_TAG, COL_NAME, COL_ATTR_INT])
        demo_state_at_terminator empty_builders = Inr (unit', b')"
    "stack unit' = butlast (stack demo_state_at_terminator)" "offset unit' = 14"
    "col_tag b' = col_tag empty_builders @ ins (need_columns [COL_TAG, COL_NAME, COL_ATTR_INT] COL_TAG) 0"
    "col_name b' = col_name empty_builders @ ins (need_columns [COL_TAG, COL_NAME, COL_ATTR_INT] COL_NAME) []"
    "col_attr_offsets b' = col_attr_offsets empty_builders @
       ins (need_columns [COL_TAG, COL_NAME, COL_ATTR_INT] COL_ATTR_NAME) (length (col_attr_name empty_builders))"
    "col_attr_int b' = col_attr_int empty_builders"
    by blast
  then show ?thesis using r s
    by (auto simp: need_columns_def empty_builders_def demo_state_at_terminator_def)
qed

text \<open>
  Claim C8. In every emitted chunk the requested columns among \<open>attr_name\<close>, \<open>attr_form\<close>,
  \<open>attr_int\<close> and \<open>attr_str\<close> are arrays over one and the same offsets vector, which has
  one entry per row, is sorted, and ends at the size of each of their value columns: the
  inner lengths of the four arrays are the same at every row. Likewise \<open>ancestor_tags\<close>
  and \<open>ancestor_offsets\<close> share one offsets vector. This holds for every header, because
  a request for \<open>attr_form\<close>, \<open>attr_int\<close> or \<open>attr_str\<close> forces \<open>attr_name\<close> on, and a
  request for \<open>ancestor_offsets\<close> forces \<open>ancestor_tags\<close> on.
\<close>

theorem parallel_arrays_share_offsets:
  assumes "parseEntries env header unit = Inr (chunk, unit')"
  shows "\<exists>attr_offsets ancestor_offsets.
     (\<forall>c \<in> {COL_ATTR_NAME, COL_ATTR_FORM, COL_ATTR_INT, COL_ATTR_STR}. c \<in> set header \<longrightarrow>
        need_columns header COL_ATTR_NAME \<and>
        length attr_offsets = chunk_rows chunk \<and> sorted attr_offsets \<and>
        (\<exists>values. chunk_column header chunk c = Some (ColumnArray values attr_offsets) \<and>
                  column_size values = last (0 # attr_offsets))) \<and>
     (\<forall>c \<in> {COL_ANCESTOR_TAGS, COL_ANCESTOR_OFFSETS}. c \<in> set header \<longrightarrow>
        need_columns header COL_ANCESTOR_TAGS \<and>
        length ancestor_offsets = chunk_rows chunk \<and> sorted ancestor_offsets \<and>
        (\<exists>values. chunk_column header chunk c = Some (ColumnArray values ancestor_offsets) \<and>
                  column_size values = last (0 # ancestor_offsets)))"
proof -
  let ?need = "need_columns header"
  from parseEntries_chunk [OF assms] obtain b where
    run: "parse_loop env ?need unit empty_builders 0 = Inr (unit', b, chunk_rows chunk)"
    and cols: "\<forall>c \<in> set header.
                chunk_column header chunk c = Some (assemble_column unit' b (chunk_rows chunk) c)"
    by blast
  note own = owner_needed_need_columns [of header]
  note arr = parse_loop_arrays [OF run own]
  have nm: "\<forall>c \<in> {COL_ATTR_NAME, COL_ATTR_FORM, COL_ATTR_INT, COL_ATTR_STR}. c \<in> set header \<longrightarrow>
      ?need c \<and> ?need COL_ATTR_NAME"
    using own by (auto simp: owner_needed_def need_columns_header)
  have nt: "\<forall>c \<in> {COL_ANCESTOR_TAGS, COL_ANCESTOR_OFFSETS}. c \<in> set header \<longrightarrow>
      ?need c \<and> ?need COL_ANCESTOR_TAGS"
    using own by (auto simp: owner_needed_def need_columns_header)
  have A: "\<forall>c \<in> {COL_ATTR_NAME, COL_ATTR_FORM, COL_ATTR_INT, COL_ATTR_STR}. c \<in> set header \<longrightarrow>
        need_columns header COL_ATTR_NAME \<and>
        length (col_attr_offsets b) = chunk_rows chunk \<and> sorted (col_attr_offsets b) \<and>
        (\<exists>values. chunk_column header chunk c = Some (ColumnArray values (col_attr_offsets b)) \<and>
                  column_size values = last (0 # col_attr_offsets b))"
    using nm arr cols by (auto simp: assemble_column_def attrs_aligned_def)
  have B: "\<forall>c \<in> {COL_ANCESTOR_TAGS, COL_ANCESTOR_OFFSETS}. c \<in> set header \<longrightarrow>
        need_columns header COL_ANCESTOR_TAGS \<and>
        length (col_ancestor_array_offsets b) = chunk_rows chunk \<and>
        sorted (col_ancestor_array_offsets b) \<and>
        (\<exists>values. chunk_column header chunk c = Some (ColumnArray values (col_ancestor_array_offsets b)) \<and>
                  column_size values = last (0 # col_ancestor_array_offsets b))"
    using nt arr cols by (auto simp: assemble_column_def attrs_aligned_def)
  from A B show ?thesis by blast
qed

theorem parallel_arrays_share_offsets_witness:
  "\<exists>chunk unit' attr_offsets ancestor_offsets values1 values2 values3.
     parseEntries (lines_sections 5) [COL_ATTR_FORM, COL_ATTR_INT, COL_ANCESTOR_OFFSETS] lines_state
       = Inr (chunk, unit') \<and>
     need_columns [COL_ATTR_FORM, COL_ATTR_INT, COL_ANCESTOR_OFFSETS] COL_ATTR_NAME \<and>
     need_columns [COL_ATTR_FORM, COL_ATTR_INT, COL_ANCESTOR_OFFSETS] COL_ANCESTOR_TAGS \<and>
     chunk_column [COL_ATTR_FORM, COL_ATTR_INT, COL_ANCESTOR_OFFSETS] chunk COL_ATTR_FORM
       = Some (ColumnArray values1 attr_offsets) \<and>
     chunk_column [COL_ATTR_FORM, COL_ATTR_INT, COL_ANCESTOR_OFFSETS] chunk COL_ATTR_INT
       = Some (ColumnArray values2 attr_offsets) \<and>
     chunk_column [COL_ATTR_FORM, COL_ATTR_INT, COL_ANCESTOR_OFFSETS] chunk COL_ANCESTOR_OFFSETS
       = Some (ColumnArray values3 ancestor_offsets) \<and>
     attr_offsets = [1, 2, 2] \<and> ancestor_offsets = [0, 1, 2] \<and> chunk_rows chunk = 3 \<and>
     column_size values1 = 2 \<and> column_size values2 = 2 \<and> column_size values3 = 2"
proof -
  let ?h = "[COL_ATTR_FORM, COL_ATTR_INT, COL_ANCESTOR_OFFSETS]"
  let ?c = "\<lparr>columns = [
             ColumnArray (ColumnLowCardinality (Some attr_form_dict_column)
                            (ColumnUInt16 [DW_FORM_sec_offset, DW_FORM_data1])) [1, 2, 2],
             ColumnArray (ColumnUInt64 [0, 0]) [1, 2, 2],
             ColumnArray (ColumnUInt64 [11, 11]) [0, 1, 2]], chunk_rows = 3\<rparr>"
  from parallel_arrays_share_offsets [OF lines_arrays_chunk]
  obtain ao no where
    a: "\<forall>c \<in> {COL_ATTR_NAME, COL_ATTR_FORM, COL_ATTR_INT, COL_ATTR_STR}. c \<in> set ?h \<longrightarrow>
        need_columns ?h COL_ATTR_NAME \<and> length ao = chunk_rows ?c \<and> sorted ao \<and>
        (\<exists>values. chunk_column ?h ?c c = Some (ColumnArray values ao) \<and>
                  column_size values = last (0 # ao))"
    and n: "\<forall>c \<in> {COL_ANCESTOR_TAGS, COL_ANCESTOR_OFFSETS}. c \<in> set ?h \<longrightarrow>
        need_columns ?h COL_ANCESTOR_TAGS \<and> length no = chunk_rows ?c \<and> sorted no \<and>
        (\<exists>values. chunk_column ?h ?c c = Some (ColumnArray values no) \<and>
                  column_size values = last (0 # no))"
    by blast
  from a have f: "need_columns ?h COL_ATTR_NAME \<and>
      (\<exists>values. chunk_column ?h ?c COL_ATTR_FORM = Some (ColumnArray values ao) \<and>
                  column_size values = last (0 # ao))" by simp
  from a have i: "\<exists>values. chunk_column ?h ?c COL_ATTR_INT = Some (ColumnArray values ao) \<and>
                  column_size values = last (0 # ao)" by simp
  from n have o: "need_columns ?h COL_ANCESTOR_TAGS \<and>
      (\<exists>values. chunk_column ?h ?c COL_ANCESTOR_OFFSETS = Some (ColumnArray values no) \<and>
                  column_size values = last (0 # no))" by simp
  from f have ao: "ao = [1, 2, 2]" by (auto simp: chunk_column_def)
  from o have no: "no = [0, 1, 2]" by (auto simp: chunk_column_def)
  from f i o ao no lines_arrays_chunk show ?thesis
    by (auto simp: chunk_column_def)
qed

text \<open>
  Claim C9. Every call of \<open>parseEntries\<close> that returns produces a chunk of at least one
  and at most 65536 rows, and a chunk of fewer rows only when the stack of the unit is
  empty at the end of the unit. The thread that decoded it publishes the chunk and pushes
  a unit that is not at its end back to the front of the unit queue; at the head of its
  loop, in the same critical section, it takes that unit again, unless the format is
  stopped or the delivery queue holds more than \<open>num_threads\<close> chunks, where the unit
  stays at the front of the queue. So a unit of more than 65536 entries is produced as
  several chunks: while the delivery queue has room, the steps of the thread deliver
  the chunks of the unit one after the other. Provided the primitives of the DWARF
  library advance the cursor (an abbreviation code takes at least one byte, an attribute
  value is not negative in size), the row offsets of all the chunks of a unit, in the
  order of the chunks, are strictly increasing.
\<close>

theorem chunk_cap_and_requeue:
  assumes "parseEntries env header unit = Inr (chunk, unit1)"
  shows "0 < chunk_rows chunk \<and> chunk_rows chunk \<le> 65536 \<and>
         (chunk_rows chunk < 65536 \<longrightarrow> stack unit1 = [] \<and> eof unit1) \<and>
         (\<forall>s i. i < length (pool s) \<and> pool s ! i = Parsing unit \<longrightarrow>
            worker_step env header num_threads i s
              = loop_head num_threads i (publish unit chunk unit1 s) \<and>
            units_queue (publish unit chunk unit1 s)
              = (if eof unit1 then units_queue s else unit1 # units_queue s) \<and>
            delivery_queue (worker_step env header num_threads i s)
              = delivery_queue s @ [(chunk, offset unit1 - offset unit)] \<and>
            (\<not> eof unit1 \<and> \<not> is_stopped s \<and> length (delivery_queue s) < num_threads \<longrightarrow>
               pool (worker_step env header num_threads i s) ! i = Parsing unit1 \<and>
               units_queue (worker_step env header num_threads i s) = units_queue s) \<and>
            (\<not> eof unit1 \<and> (is_stopped s \<or> num_threads \<le> length (delivery_queue s)) \<longrightarrow>
               units_queue (worker_step env header num_threads i s) = unit1 # units_queue s)) \<and>
         (\<forall>chunks unit' s i.
            unit_chunks env header unit chunks unit' \<and>
            i < length (pool s) \<and> pool s ! i = Parsing unit \<and> \<not> is_stopped s \<and>
            length (delivery_queue s) + length chunks \<le> num_threads + 1 \<longrightarrow>
            map fst (delivery_queue ((worker_step env header num_threads i ^^ length chunks) s))
              = map fst (delivery_queue s) @ chunks) \<and>
         (extractor_advances env \<and> COL_OFFSET \<in> set header \<longrightarrow>
            (\<forall>chunks unit'. unit_chunks env header unit chunks unit' \<longrightarrow>
               sorted_wrt (<) (concat (map (offset_values header) chunks)) \<and>
               (\<forall>c \<in> set chunks. 0 < chunk_rows c \<and> chunk_rows c \<le> 65536 \<and>
                  length (offset_values header c) = chunk_rows c)))"
proof -
  note r = parseEntries_rows [OF assms]
  then have ne: "chunk_nonempty chunk" by (simp add: chunk_nonempty_def)
  have w: "\<forall>s i. i < length (pool s) \<and> pool s ! i = Parsing unit \<longrightarrow>
            worker_step env header num_threads i s
              = loop_head num_threads i (publish unit chunk unit1 s) \<and>
            units_queue (publish unit chunk unit1 s)
              = (if eof unit1 then units_queue s else unit1 # units_queue s) \<and>
            delivery_queue (worker_step env header num_threads i s)
              = delivery_queue s @ [(chunk, offset unit1 - offset unit)] \<and>
            (\<not> eof unit1 \<and> \<not> is_stopped s \<and> length (delivery_queue s) < num_threads \<longrightarrow>
               pool (worker_step env header num_threads i s) ! i = Parsing unit1 \<and>
               units_queue (worker_step env header num_threads i s) = units_queue s) \<and>
            (\<not> eof unit1 \<and> (is_stopped s \<or> num_threads \<le> length (delivery_queue s)) \<longrightarrow>
               units_queue (worker_step env header num_threads i s) = unit1 # units_queue s)"
    using assms ne by (auto simp: worker_step_def loop_head_def publish_fields)
  have p: "\<forall>chunks unit' s i.
            unit_chunks env header unit chunks unit' \<and>
            i < length (pool s) \<and> pool s ! i = Parsing unit \<and> \<not> is_stopped s \<and>
            length (delivery_queue s) + length chunks \<le> num_threads + 1 \<longrightarrow>
            map fst (delivery_queue ((worker_step env header num_threads i ^^ length chunks) s))
              = map fst (delivery_queue s) @ chunks"
    using worker_run by blast
  have m: "extractor_advances env \<and> COL_OFFSET \<in> set header \<longrightarrow>
            (\<forall>chunks unit'. unit_chunks env header unit chunks unit' \<longrightarrow>
               sorted_wrt (<) (concat (map (offset_values header) chunks)) \<and>
               (\<forall>c \<in> set chunks. 0 < chunk_rows c \<and> chunk_rows c \<le> 65536 \<and>
                  length (offset_values header c) = chunk_rows c))"
    using unit_chunks_offsets by blast
  from r w p m show ?thesis by blast
qed

theorem chunk_cap_and_requeue_witness:
  "reachable long_sections [COL_OFFSET] 2 long_parsing \<and>
   parseEntries long_sections [COL_OFFSET] long_state = Inr (long_chunk, long_state_at 65547) \<and>
   chunk_rows long_chunk = 65536 \<and> \<not> eof (long_state_at 65547) \<and>
   parseEntries long_sections [COL_OFFSET] (long_state_at 65547)
     = Inr (long_chunk_rest, long_state\<lparr>offset := 65549\<rparr>) \<and>
   chunk_rows long_chunk_rest = 2 \<and> eof (long_state\<lparr>offset := 65549\<rparr>) \<and>
   unit_chunks long_sections [COL_OFFSET] long_state [long_chunk, long_chunk_rest]
     (long_state\<lparr>offset := 65549\<rparr>) \<and>
   extractor_advances long_sections \<and> COL_OFFSET \<in> set [COL_OFFSET] \<and>
   pool long_parsing ! 0 = Parsing long_state \<and> \<not> is_stopped long_parsing \<and>
   worker_step long_sections [COL_OFFSET] 2 0 long_parsing
     = long_parsing\<lparr>delivery_queue := [(long_chunk, 65536)],
         pool := [Parsing (long_state_at 65547), Ready]\<rparr> \<and>
   map fst (delivery_queue ((worker_step long_sections [COL_OFFSET] 2 0 ^^ 2) long_parsing))
     = [long_chunk, long_chunk_rest] \<and>
   sorted_wrt (<) (concat (map (offset_values [COL_OFFSET]) [long_chunk, long_chunk_rest]))"
proof -
  let ?h = "[COL_OFFSET]"
  have e1: "\<not> eof (long_state_at 65547)"
    by (simp add: eof_def long_state_at_def long_state_def)
  have e2: "eof (long_state\<lparr>offset := 65549\<rparr>)" by (simp add: eof_def long_state_def)
  have u: "unit_chunks long_sections ?h long_state [long_chunk, long_chunk_rest]
      (long_state\<lparr>offset := 65549\<rparr>)"
    by (rule unit_chunks.next_chunk [OF long_first e1 unit_chunks.last_chunk [OF long_second e2]])
  have h: "COL_OFFSET \<in> set ?h" by simp
  have f: "0 < length (pool long_parsing)" "pool long_parsing ! 0 = Parsing long_state"
    "\<not> is_stopped long_parsing" "length (delivery_queue long_parsing) < 2"
    "length (delivery_queue long_parsing) + length [long_chunk, long_chunk_rest] \<le> 2 + 1"
    "delivery_queue long_parsing = []"
    by (simp_all add: long_parsing_def)
  have rows: "chunk_rows long_chunk = 65536" "chunk_rows long_chunk_rest = 2"
    by (simp_all del: upt_rec_numeral add: long_chunk_def long_chunk_rest_def)
  note t = chunk_cap_and_requeue [OF long_first, of 2]
  from t f(1,2) have "worker_step long_sections ?h 2 0 long_parsing
      = loop_head 2 0 (publish long_state long_chunk (long_state_at 65547) long_parsing)"
    by blast
  then have step: "worker_step long_sections ?h 2 0 long_parsing
      = long_parsing\<lparr>delivery_queue := [(long_chunk, 65536)],
         pool := [Parsing (long_state_at 65547), Ready]\<rparr>"
    using e1 rows
    by (simp add: loop_head_def publish_def chunk_nonempty_def long_parsing_def
        long_state_at_def long_state_def)
  from t u f(1,2,3,5) have "map fst (delivery_queue
        ((worker_step long_sections ?h 2 0 ^^ length [long_chunk, long_chunk_rest]) long_parsing))
      = map fst (delivery_queue long_parsing) @ [long_chunk, long_chunk_rest]"
    by blast
  then have run: "map fst (delivery_queue ((worker_step long_sections ?h 2 0 ^^ 2) long_parsing))
      = [long_chunk, long_chunk_rest]"
    by (simp add: f(6) numeral_2_eq_2)
  from t long_advances h u have
    m: "sorted_wrt (<) (concat (map (offset_values ?h) [long_chunk, long_chunk_rest]))" by blast
  from long_parsing_reachable long_first long_second rows e1 e2 u long_advances h f(2,3) step run m
  show ?thesis by blast
qed

text \<open>
  Claim C10, as stated, fails on the code: an exception of \<open>initializeIfNeeded\<close> leaves
  \<open>generate\<close> before its scope guard is constructed. On the image below the constructor
  of the second unit state throws; \<open>generate\<close> propagates the exception, \<open>is_stopped\<close>
  stays false, and the next call does not return the end of the stream: the first unit is
  in the queue and no pool exists, so the call waits on \<open>deliver_chunk\<close>.
\<close>

theorem generate_before_guard_counterexample:
  "generate broken_sections 2 new_format =
     (Rethrow (CANNOT_PARSE_DWARF ''Couldn't find abbreviation set for unit at offset {}''),
      new_format\<lparr>elf := True, units_queue := [demo_state]\<rparr>) \<and>
   \<not> is_stopped (new_format\<lparr>elf := True, units_queue := [demo_state]\<rparr>) \<and>
   generate broken_sections 2 (new_format\<lparr>elf := True, units_queue := [demo_state]\<rparr>) =
     (WaitForChunk, new_format\<lparr>elf := True, units_queue := [demo_state]\<rparr>)"
  by (simp add: generate_def initializeIfNeeded_def new_format_def broken_sections_def
      demo_sections_def UnitState_of_def demo_unit_def broken_unit_def demo_state_def Let_def)

text \<open>
  Claim C10, amended. Whenever \<open>generate\<close> returns the end of the stream, or rethrows the
  background exception of a thread of the pool (the exits under its scope guard, after
  \<open>initializeIfNeeded\<close> has returned), \<open>is_stopped\<close> is set; a call that returns a chunk
  leaves it false, and a call that waits changes nothing. Once \<open>is_stopped\<close> is set,
  whatever the threads of the pool and further calls do, every call of \<open>generate\<close>
  returns the end of the stream at once and leaves the delivery queue as it is, chunks
  included: so a background exception is rethrown at most once.
\<close>

theorem generate_scope_guard:
  "(\<forall>s. fst (initializeIfNeeded env n s) = None \<longrightarrow>
      (case fst (generate env n s) of
         ReturnChunk chunk \<Rightarrow> \<not> is_stopped s \<and> \<not> is_stopped (snd (generate env n s))
       | EndOfStream \<Rightarrow> is_stopped (snd (generate env n s))
       | Rethrow e \<Rightarrow> is_stopped (snd (generate env n s)) \<and>
           background_exception (snd (initializeIfNeeded env n s)) = Some e
       | WaitForChunk \<Rightarrow> snd (generate env n s) = snd (initializeIfNeeded env n s))) \<and>
   (\<forall>s t. is_stopped s \<longrightarrow> evolves env header n s t \<longrightarrow>
      is_stopped t \<and> fst (generate env n t) = EndOfStream \<and>
      delivery_queue (snd (generate env n t)) = delivery_queue t)"
proof (intro conjI allI impI)
  fix s
  assume "fst (initializeIfNeeded env n s) = None"
  then obtain s1 where "initializeIfNeeded env n s = (None, s1)"
    by (cases "initializeIfNeeded env n s") simp
  then show "case fst (generate env n s) of
         ReturnChunk chunk \<Rightarrow> \<not> is_stopped s \<and> \<not> is_stopped (snd (generate env n s))
       | EndOfStream \<Rightarrow> is_stopped (snd (generate env n s))
       | Rethrow e \<Rightarrow> is_stopped (snd (generate env n s)) \<and>
           background_exception (snd (initializeIfNeeded env n s)) = Some e
       | WaitForChunk \<Rightarrow> snd (generate env n s) = snd (initializeIfNeeded env n s)"
    using initializeIfNeeded_stopped [of env n s]
    by (auto simp: generate_def split: option.splits list.splits)
next
  fix s t
  assume s: "is_stopped s" and e: "evolves env header n s t"
  from evolves_stopped [OF e s] have t: "is_stopped t" .
  from t show "is_stopped t" .
  from generate_stopped [OF t] show "fst (generate env n t) = EndOfStream"
    and "delivery_queue (snd (generate env n t)) = delivery_queue t" by simp_all
qed

theorem generate_scope_guard_witness:
  "fst (initializeIfNeeded quad_sections 2 quad_failed) = None \<and>
   generate quad_sections 2 quad_failed =
     (Rethrow (CANNOT_PARSE_DWARF ''Stack underflow''), quad_failed\<lparr>is_stopped := True\<rparr>) \<and>
   is_stopped (quad_failed\<lparr>is_stopped := True\<rparr>) \<and>
   evolves quad_sections [COL_OFFSET] 2 (quad_failed\<lparr>is_stopped := True\<rparr>)
     (quad_failed\<lparr>is_stopped := True\<rparr>) \<and>
   fst (generate quad_sections 2 (quad_failed\<lparr>is_stopped := True\<rparr>)) = EndOfStream \<and>
   length (delivery_queue (snd (generate quad_sections 2 (quad_failed\<lparr>is_stopped := True\<rparr>)))) = 4"
proof -
  let ?s = "quad_failed\<lparr>is_stopped := True\<rparr>"
  have i: "fst (initializeIfNeeded quad_sections 2 quad_failed) = None"
    by (simp add: initializeIfNeeded_def quad_failed_def quad_full_def)
  have g: "generate quad_sections 2 quad_failed =
     (Rethrow (CANNOT_PARSE_DWARF ''Stack underflow''), ?s)"
    by (simp add: generate_def initializeIfNeeded_def quad_failed_def quad_full_def)
  have st: "is_stopped ?s" by simp
  have ev: "evolves quad_sections [COL_OFFSET] 2 ?s ?s" by (rule evolves.start)
  note t = generate_scope_guard [of quad_sections 2 "[COL_OFFSET]"]
  from t i g have "is_stopped (snd (generate quad_sections 2 quad_failed))"
    by (auto split: generated.splits)
  from t st ev have "fst (generate quad_sections 2 ?s) = EndOfStream \<and>
      delivery_queue (snd (generate quad_sections 2 ?s)) = delivery_queue ?s" by blast
  then show ?thesis using i g st ev by (simp add: quad_failed_def quad_full_def)
qed

end
